theory Spec2Isabelle
  imports Complex_Main "HOL-Library.Log_Nat"
begin

section \<open>JavaScript numbers\<close>

text \<open>
  Every number of the game is a JavaScript Number, an IEEE-754 binary64 value, and each
  arithmetic operation returns the double nearest to its exact result, ties to even.
  \<open>binary64\<close> is that rounding of an exact real (53-bit significand, gradual underflow
  below \<open>2 powi - 1022\<close>), and \<open>js_add\<close>, \<open>js_sub\<close>, \<open>js_mul\<close>, \<open>js_div\<close> are the four
  operations. A decimal literal of the source that is not a binary fraction stands for
  the double nearest to it: 1.8 is \<open>binary64 (18 / 10)\<close>.

  The rounding is written out in the fuel gauge, in the terrain and the spawn manager
  of levels.js with what they compute for a new segment or enemy, in
  \<open>TerrainSegment.update\<close> and in the distance counter. The positions and velocities of
  the player, the enemies, the targets, the bullets, the bombs and the particles are
  reals on which the movement and the collision tests of entities.js compute exactly:
  what is stated about them below is about order and about which operation is applied,
  and holds of all reals, the doubles among them. Counters that only ever hold integers
  (lives, cooldowns, timers, health, points, score) are \<open>int\<close>. Infinity (beyond about
  1.8e308) and NaN are not numbers of the embedding; the one object that the source
  builds with a NaN coordinate is a value of its own (\<open>Malformed\<close>, with the spawn
  manager).
\<close>

definition round_ties_even :: "real \<Rightarrow> int" where
  "round_ties_even q =
     (let f = \<lfloor>q\<rfloor>; d = q - of_int f
      in if d < 1 / 2 then f else if 1 / 2 < d then f + 1 else if even f then f else f + 1)"

text \<open>The binary exponent of a positive real: \<open>2 powi e \<le> v < 2 powi (e + 1)\<close>.\<close>

definition ilog2 :: "real \<Rightarrow> int" where
  "ilog2 v = (if 1 \<le> v then bitlen \<lfloor>v\<rfloor> - 1 else - bitlen (\<lceil>1 / v\<rceil> - 1))"

definition binary64 :: "real \<Rightarrow> real" where
  "binary64 v =
     (if v = 0 then 0
      else let e = max (ilog2 \<bar>v\<bar>) (- 1022); u = 2 powi (e - 52)
           in of_int (round_ties_even (v / u)) * u)"

definition js_sub :: "real \<Rightarrow> real \<Rightarrow> real" where
  "js_sub a b = binary64 (a - b)"

definition js_add :: "real \<Rightarrow> real \<Rightarrow> real" where
  "js_add a b = binary64 (a + b)"

definition js_mul :: "real \<Rightarrow> real \<Rightarrow> real" where
  "js_mul a b = binary64 (a * b)"

definition js_div :: "real \<Rightarrow> real \<Rightarrow> real" where
  "js_div a b = binary64 (a / b)"

text \<open>
  \<open>Math.PI\<close> is the double nearest to \<open>pi\<close>. \<open>Math.sin\<close> is an approximation that the
  language leaves to the implementation; here it is the double nearest to the sine.
  No result below depends on its values.
\<close>

definition Math_PI :: real where
  "Math_PI = binary64 pi"

definition Math_sin :: "real \<Rightarrow> real" where
  "Math_sin v = binary64 (sin v)"

text \<open>
  \<open>Math.random()\<close>: the values it will return are an explicit stream; a call takes the
  head and leaves the tail.
\<close>

type_synonym rng = "nat \<Rightarrow> real"

definition Math_random :: "rng \<Rightarrow> real \<times> rng" where
  "Math_random r = (r 0, \<lambda>n. r (Suc n))"

section \<open>Entities (entities.js)\<close>

record Entity =
  x :: real
  y :: real
  width :: real
  height :: real
  active :: bool

record Bounds =
  x :: real
  y :: real
  width :: real
  height :: real

definition getBounds :: "'a Entity_scheme \<Rightarrow> Bounds" where
  "getBounds e = \<lparr>Bounds.x = Entity.x e, Bounds.y = Entity.y e,
                  Bounds.width = Entity.width e, Bounds.height = Entity.height e\<rparr>"

definition collidesWith :: "'a Entity_scheme \<Rightarrow> 'b Entity_scheme \<Rightarrow> bool" where
  "collidesWith this other =
     (if \<not> active this \<or> \<not> active other then False
      else let a = getBounds this; b = getBounds other
           in Bounds.x a < Bounds.x b + Bounds.width b \<and>
              Bounds.x a + Bounds.width a > Bounds.x b \<and>
              Bounds.y a < Bounds.y b + Bounds.height b \<and>
              Bounds.y a + Bounds.height a > Bounds.y b)"

definition getCenterX :: "'a Entity_scheme \<Rightarrow> real" where
  "getCenterX e = Entity.x e + Entity.width e / 2"

definition getCenterY :: "'a Entity_scheme \<Rightarrow> real" where
  "getCenterY e = Entity.y e + Entity.height e / 2"

subsection \<open>Bullet and Bomb\<close>

record Bullet = Entity +
  velocityX :: real
  velocityY :: real
  isPlayerBullet :: bool
  damage :: int
  color :: string
  glowColor :: string

definition new_Bullet :: "real \<Rightarrow> real \<Rightarrow> real \<Rightarrow> real \<Rightarrow> bool \<Rightarrow> Bullet" where
  "new_Bullet px py vx vy isPlayer =
     \<lparr>Entity.x = px, Entity.y = py, Entity.width = 8, Entity.height = 4, active = True,
      Bullet.velocityX = vx, Bullet.velocityY = vy, isPlayerBullet = isPlayer,
      Bullet.damage = 1,
      Bullet.color = (if isPlayer then ''#4a9eff'' else ''#ff6b6b''),
      Bullet.glowColor = (if isPlayer then ''#4a9eff'' else ''#ff6b6b'')\<rparr>"

definition Bullet_update :: "real \<Rightarrow> real \<Rightarrow> Bullet \<Rightarrow> Bullet" where
  "Bullet_update cw ch b0 =
     (let b1 = b0\<lparr>Entity.x := Entity.x b0 + Bullet.velocityX b0\<rparr>;
          b2 = b1\<lparr>Entity.y := Entity.y b1 + Bullet.velocityY b1\<rparr>
      in if Entity.x b2 < - 20 \<or> Entity.x b2 > cw + 20 \<or>
            Entity.y b2 < - 20 \<or> Entity.y b2 > ch + 20
         then b2\<lparr>active := False\<rparr> else b2)"

record Bomb = Entity +
  velocityX :: real
  velocityY :: real
  gravity :: real
  damage :: int
  color :: string
  glowColor :: string

definition new_Bomb :: "real \<Rightarrow> real \<Rightarrow> real \<Rightarrow> real \<Rightarrow> Bomb" where
  "new_Bomb px py vx vy =
     \<lparr>Entity.x = px, Entity.y = py, Entity.width = 6, Entity.height = 6, active = True,
      Bomb.velocityX = vx, Bomb.velocityY = vy, gravity = binary64 (15 / 100), Bomb.damage = 2,
      Bomb.color = ''#ff8c00'', Bomb.glowColor = ''#ff8c00''\<rparr>"

definition Bomb_update :: "real \<Rightarrow> real \<Rightarrow> Bomb \<Rightarrow> Bomb" where
  "Bomb_update cw ch b0 =
     (let b1 = b0\<lparr>Entity.x := Entity.x b0 + Bomb.velocityX b0\<rparr>;
          b2 = b1\<lparr>Bomb.velocityY := Bomb.velocityY b1 + gravity b1\<rparr>;
          b3 = b2\<lparr>Entity.y := Entity.y b2 + Bomb.velocityY b2\<rparr>
      in if Entity.x b3 < - 20 \<or> Entity.x b3 > cw + 20 \<or> Entity.y b3 > ch + 20
         then b3\<lparr>active := False\<rparr> else b3)"

subsection \<open>Player\<close>

record Input =
  up :: bool
  down :: bool
  left :: bool
  right :: bool
  shoot :: bool
  bomb :: bool

record Player = Entity +
  speed :: real
  lives :: int
  shootCooldown :: int
  shootCooldownMax :: int
  bombCooldown :: int
  bombCooldownMax :: int
  isInvincible :: bool
  invincibleTimer :: int
  invincibleDuration :: int
  color :: string
  glowColor :: string
  canvasWidth :: real
  canvasHeight :: real
  fuel :: real
  maxFuel :: real
  fuelDrainRate :: real

definition new_Player :: "real \<Rightarrow> real \<Rightarrow> Player" where
  "new_Player cw ch =
     \<lparr>Entity.x = 60, Entity.y = ch / 2 - 16 / 2, Entity.width = 32, Entity.height = 16,
      active = True,
      Player.speed = 4, lives = 3, shootCooldown = 0, shootCooldownMax = 10,
      bombCooldown = 0, bombCooldownMax = 30, isInvincible = False, invincibleTimer = 0,
      invincibleDuration = 120, Player.color = ''#00ff88'', Player.glowColor = ''#00ff88'',
      Player.canvasWidth = cw, Player.canvasHeight = ch,
      fuel = 100, maxFuel = 100, fuelDrainRate = binary64 (5 / 100)\<rparr>"

text \<open>\<open>update\<close>, block by block: movement, cooldowns, invincibility timer, fuel drain.\<close>

definition Player_movement :: "Input \<Rightarrow> real \<Rightarrow> real \<Rightarrow> Player \<Rightarrow> Player" where
  "Player_movement inp topBound bottomBound p0 =
     (let p1 = (if up inp \<and> Entity.y p0 > topBound + 5
                then p0\<lparr>Entity.y := Entity.y p0 - Player.speed p0\<rparr> else p0);
          p2 = (if down inp \<and> Entity.y p1 + Entity.height p1 < bottomBound - 5
                then p1\<lparr>Entity.y := Entity.y p1 + Player.speed p1\<rparr> else p1);
          p3 = (if left inp \<and> Entity.x p2 > 30
                then p2\<lparr>Entity.x := Entity.x p2 - Player.speed p2 * (1 / 2)\<rparr> else p2)
      in if right inp \<and> Entity.x p3 < Player.canvasWidth p3 * binary64 (4 / 10)
         then p3\<lparr>Entity.x := Entity.x p3 + Player.speed p3 * (1 / 2)\<rparr> else p3)"

definition Player_cooldowns :: "Player \<Rightarrow> Player" where
  "Player_cooldowns p0 =
     (let p1 = (if shootCooldown p0 > 0
                then p0\<lparr>shootCooldown := shootCooldown p0 - 1\<rparr> else p0)
      in if bombCooldown p1 > 0 then p1\<lparr>bombCooldown := bombCooldown p1 - 1\<rparr> else p1)"

definition Player_invincibility :: "Player \<Rightarrow> Player" where
  "Player_invincibility p0 =
     (if isInvincible p0
      then (let p1 = p0\<lparr>invincibleTimer := invincibleTimer p0 - 1\<rparr>
            in if invincibleTimer p1 \<le> 0 then p1\<lparr>isInvincible := False\<rparr> else p1)
      else p0)"

definition Player_fuelDrain :: "Player \<Rightarrow> Player" where
  "Player_fuelDrain p0 =
     (let p1 = p0\<lparr>fuel := js_sub (fuel p0) (fuelDrainRate p0)\<rparr>
      in if fuel p1 \<le> 0 then p1\<lparr>fuel := 0\<rparr> else p1)"

definition Player_update :: "Input \<Rightarrow> real \<Rightarrow> real \<Rightarrow> Player \<Rightarrow> Player" where
  "Player_update inp topBound bottomBound p0 =
     (let p1 = Player_movement inp topBound bottomBound p0;
          p2 = Player_cooldowns p1;
          p3 = Player_invincibility p2
      in Player_fuelDrain p3)"

definition Player_shoot :: "Player \<Rightarrow> Bullet option \<times> Player" where
  "Player_shoot p =
     (if shootCooldown p > 0 then (None, p)
      else let p' = p\<lparr>shootCooldown := shootCooldownMax p\<rparr>
           in (Some (new_Bullet (Entity.x p' + Entity.width p') (getCenterY p' - 2) 10 0 True),
               p'))"

definition Player_bomb :: "Player \<Rightarrow> Bomb option \<times> Player" where
  "Player_bomb p =
     (if bombCooldown p > 0 then (None, p)
      else let p' = p\<lparr>bombCooldown := bombCooldownMax p\<rparr>
           in (Some (new_Bomb (getCenterX p') (Entity.y p' + Entity.height p') 3 4), p'))"

definition Player_hit :: "Player \<Rightarrow> bool \<times> Player" where
  "Player_hit p =
     (if isInvincible p then (False, p)
      else (True, p\<lparr>lives := lives p - 1, isInvincible := True,
                     invincibleTimer := invincibleDuration p\<rparr>))"

definition addFuel :: "real \<Rightarrow> Player \<Rightarrow> Player" where
  "addFuel amount p = p\<lparr>fuel := min (maxFuel p) (js_add (fuel p) amount)\<rparr>"

definition Player_reset :: "real \<Rightarrow> real \<Rightarrow> Player \<Rightarrow> Player" where
  "Player_reset cw ch p =
     p\<lparr>Entity.x := 60, Entity.y := ch / 2 - Entity.height p / 2, lives := 3,
       fuel := maxFuel p, isInvincible := False, invincibleTimer := 0,
       shootCooldown := 0, bombCooldown := 0\<rparr>"

subsection \<open>Enemy\<close>

text \<open>
  A configuration object may leave fields out; a missing field is \<open>None\<close>. The
  constructors read such fields through \<open>||\<close>, which also replaces the falsy values
  \<open>0\<close>, \<open>false\<close> and the empty string by the default.
\<close>

definition js_or_num :: "real option \<Rightarrow> real \<Rightarrow> real" where
  "js_or_num v d = (case v of None \<Rightarrow> d | Some n \<Rightarrow> if n = 0 then d else n)"

definition js_or_str :: "string option \<Rightarrow> string \<Rightarrow> string" where
  "js_or_str v d = (case v of None \<Rightarrow> d | Some s \<Rightarrow> if s = [] then d else s)"

definition js_or_bool :: "bool option \<Rightarrow> bool \<Rightarrow> bool" where
  "js_or_bool v d = (case v of None \<Rightarrow> d | Some b \<Rightarrow> if b then b else d)"

record EnemyConfig =
  width :: real
  height :: real
  health :: int
  points :: int
  color :: string
  glowColor :: "string option"
  behavior :: "string option"
  speed :: "real option"
  waveAmplitude :: "real option"
  waveSpeed :: "real option"
  shootChance :: "real option"

record Enemy = Entity +
  type :: string
  health :: int
  maxHealth :: int
  points :: int
  color :: string
  glowColor :: string
  behavior :: string
  speed :: real
  shootChance :: real
  startY :: real
  angle :: real
  waveAmplitude :: real
  waveSpeed :: real
  animFrame :: int
  animTimer :: int

definition new_Enemy :: "real \<Rightarrow> real \<Rightarrow> string \<Rightarrow> EnemyConfig \<Rightarrow> rng \<Rightarrow> Enemy \<times> rng" where
  "new_Enemy ex ey ty cfg r0 =
     (let (rv, r1) = Math_random r0
      in (\<lparr>Entity.x = ex, Entity.y = ey, Entity.width = EnemyConfig.width cfg,
           Entity.height = EnemyConfig.height cfg, active = True,
           Enemy.type = ty, Enemy.health = EnemyConfig.health cfg,
           maxHealth = EnemyConfig.health cfg, Enemy.points = EnemyConfig.points cfg,
           Enemy.color = EnemyConfig.color cfg,
           Enemy.glowColor = js_or_str (EnemyConfig.glowColor cfg) (EnemyConfig.color cfg),
           Enemy.behavior = js_or_str (EnemyConfig.behavior cfg) ''straight'',
           Enemy.speed = js_or_num (EnemyConfig.speed cfg) 2,
           Enemy.shootChance = js_or_num (EnemyConfig.shootChance cfg) 0,
           startY = ey, angle = js_mul (js_mul rv Math_PI) 2,
           Enemy.waveAmplitude = js_or_num (EnemyConfig.waveAmplitude cfg) 30,
           Enemy.waveSpeed = js_or_num (EnemyConfig.waveSpeed cfg) (binary64 (5 / 100)),
           animFrame = 0, animTimer = 0\<rparr>, r1))"

definition Enemy_update :: "real \<Rightarrow> Enemy \<Rightarrow> Enemy" where
  "Enemy_update scroll e0 =
     (let e1 = e0\<lparr>Entity.x := Entity.x e0 - (scroll + Enemy.speed e0)\<rparr>;
          e2 = (if Enemy.behavior e1 = ''wave''
                then (let w = e1\<lparr>angle := angle e1 + Enemy.waveSpeed e1\<rparr>
                      in w\<lparr>Entity.y := startY w + sin (angle w) * Enemy.waveAmplitude w\<rparr>)
                else if Enemy.behavior e1 = ''dive''
                then e1\<lparr>Entity.y := Entity.y e1 + 2\<rparr>
                else e1);
          e3 = e2\<lparr>animTimer := animTimer e2 + 1\<rparr>;
          e4 = (if animTimer e3 > 15
                then e3\<lparr>animTimer := 0, animFrame := 1 - animFrame e3\<rparr> else e3)
      in if Entity.x e4 + Entity.width e4 < - 50 then e4\<lparr>active := False\<rparr> else e4)"

definition takeDamage :: "int \<Rightarrow> Enemy \<Rightarrow> bool \<times> Enemy" where
  "takeDamage amount e0 =
     (let e1 = e0\<lparr>Enemy.health := Enemy.health e0 - amount\<rparr>
      in if Enemy.health e1 \<le> 0 then (True, e1\<lparr>active := False\<rparr>) else (False, e1))"

definition Enemy_shouldShoot :: "Enemy \<Rightarrow> rng \<Rightarrow> bool \<times> rng" where
  "Enemy_shouldShoot e r0 = (let (rv, r1) = Math_random r0 in (rv < Enemy.shootChance e, r1))"

definition Enemy_shoot :: "Enemy \<Rightarrow> Bullet" where
  "Enemy_shoot e = new_Bullet (Entity.x e) (getCenterY e - 2) (- 6) 0 False"

subsection \<open>GroundTarget\<close>

record GroundTargetConfig =
  width :: real
  height :: real
  points :: int
  color :: string
  glowColor :: "string option"
  givesFuel :: "bool option"
  fuelAmount :: "real option"
  shootChance :: "real option"
  floatHeight :: "real option"

record GroundTarget = Entity +
  type :: string
  points :: int
  color :: string
  glowColor :: string
  givesFuel :: bool
  fuelAmount :: real
  shootChance :: real

definition new_GroundTarget :: "real \<Rightarrow> real \<Rightarrow> string \<Rightarrow> GroundTargetConfig \<Rightarrow> GroundTarget" where
  "new_GroundTarget gx gy ty cfg =
     \<lparr>Entity.x = gx, Entity.y = gy, Entity.width = GroundTargetConfig.width cfg,
      Entity.height = GroundTargetConfig.height cfg, active = True,
      GroundTarget.type = ty, GroundTarget.points = GroundTargetConfig.points cfg,
      GroundTarget.color = GroundTargetConfig.color cfg,
      GroundTarget.glowColor =
        js_or_str (GroundTargetConfig.glowColor cfg) (GroundTargetConfig.color cfg),
      GroundTarget.givesFuel = js_or_bool (GroundTargetConfig.givesFuel cfg) False,
      GroundTarget.fuelAmount = js_or_num (GroundTargetConfig.fuelAmount cfg) 0,
      GroundTarget.shootChance = js_or_num (GroundTargetConfig.shootChance cfg) 0\<rparr>"

definition GroundTarget_update :: "real \<Rightarrow> GroundTarget \<Rightarrow> GroundTarget" where
  "GroundTarget_update scroll t0 =
     (let t1 = t0\<lparr>Entity.x := Entity.x t0 - scroll\<rparr>
      in if Entity.x t1 + Entity.width t1 < - 50 then t1\<lparr>active := False\<rparr> else t1)"

definition GroundTarget_shouldShoot :: "GroundTarget \<Rightarrow> rng \<Rightarrow> bool \<times> rng" where
  "GroundTarget_shouldShoot t r0 =
     (let (rv, r1) = Math_random r0 in (rv < GroundTarget.shootChance t, r1))"

definition GroundTarget_shoot :: "GroundTarget \<Rightarrow> Bullet" where
  "GroundTarget_shoot t = new_Bullet (getCenterX t) (Entity.y t) 0 (- 5) False"

subsection \<open>TerrainSegment\<close>

record TerrainSegment =
  x :: real
  topHeight :: real
  bottomHeight :: real
  width :: real

datatype wall = Top | Bottom

definition TerrainSegment_update :: "real \<Rightarrow> TerrainSegment \<Rightarrow> TerrainSegment" where
  "TerrainSegment_update scroll s =
     s\<lparr>TerrainSegment.x := js_sub (TerrainSegment.x s) scroll\<rparr>"

text \<open>\<open>collidesWithEntity\<close> answers \<open>'top'\<close>, \<open>'bottom'\<close> or \<open>false\<close> (here \<open>None\<close>).\<close>

definition collidesWithEntity :: "'a Entity_scheme \<Rightarrow> real \<Rightarrow> TerrainSegment \<Rightarrow> wall option" where
  "collidesWithEntity entity ch s =
     (if \<not> active entity then None
      else let eb = getBounds entity
           in if Bounds.y eb < topHeight s \<and>
                 Bounds.x eb < TerrainSegment.x s + TerrainSegment.width s \<and>
                 Bounds.x eb + Bounds.width eb > TerrainSegment.x s
              then Some Top
              else let bottomY = ch - bottomHeight s
                   in if Bounds.y eb + Bounds.height eb > bottomY \<and>
                         Bounds.x eb < TerrainSegment.x s + TerrainSegment.width s \<and>
                         Bounds.x eb + Bounds.width eb > TerrainSegment.x s
                      then Some Bottom else None)"

subsection \<open>Particle\<close>

record Particle =
  x :: real
  y :: real
  color :: string
  vx :: real
  vy :: real
  size :: real
  life :: real
  maxLife :: real
  active :: bool

definition new_Particle :: "real \<Rightarrow> real \<Rightarrow> string \<Rightarrow> rng \<Rightarrow> Particle \<times> rng" where
  "new_Particle px py c r0 =
     (let (ra, r1) = Math_random r0; ang = ra * Math_PI * 2;
          (rs, r2) = Math_random r1; spd = 1 + rs * 4;
          (rz, r3) = Math_random r2;
          (rl, r4) = Math_random r3
      in (\<lparr>Particle.x = px, Particle.y = py, Particle.color = c,
           vx = cos ang * spd, vy = sin ang * spd, size = 2 + rz * 4,
           life = 25 + rl * 20, maxLife = 25 + rl * 20, Particle.active = True\<rparr>, r4))"

definition Particle_update :: "Particle \<Rightarrow> Particle" where
  "Particle_update q0 =
     (let q1 = q0\<lparr>Particle.x := Particle.x q0 + vx q0\<rparr>;
          q2 = q1\<lparr>Particle.y := Particle.y q1 + vy q1\<rparr>;
          q3 = q2\<lparr>vy := vy q2 + binary64 (8 / 100)\<rparr>;
          q4 = q3\<lparr>life := life q3 - 1\<rparr>
      in if life q4 \<le> 0 then q4\<lparr>Particle.active := False\<rparr> else q4)"

fun createExplosion :: "real \<Rightarrow> real \<Rightarrow> string \<Rightarrow> nat \<Rightarrow> rng \<Rightarrow> Particle list \<times> rng" where
  "createExplosion px py c 0 r0 = ([], r0)"
| "createExplosion px py c (Suc n) r0 =
     (let (q, r1) = new_Particle px py c r0;
          (qs, r2) = createExplosion px py c n r1
      in (q # qs, r2))"

subsection \<open>Configuration tables\<close>

definition ENEMY_TYPES :: "(string \<times> EnemyConfig) list" where
  "ENEMY_TYPES =
     [(''rocket'',
       \<lparr>EnemyConfig.width = 20, EnemyConfig.height = 12, EnemyConfig.health = 1,
        EnemyConfig.points = 50, EnemyConfig.color = ''#e74c3c'',
        EnemyConfig.glowColor = Some ''#ff0000'', EnemyConfig.behavior = Some ''straight'',
        EnemyConfig.speed = Some 1, EnemyConfig.waveAmplitude = None,
        EnemyConfig.waveSpeed = None, EnemyConfig.shootChance = Some 0\<rparr>),
      (''ufo'',
       \<lparr>EnemyConfig.width = 24, EnemyConfig.height = 14, EnemyConfig.health = 1,
        EnemyConfig.points = 100, EnemyConfig.color = ''#9b59b6'',
        EnemyConfig.glowColor = Some ''#a855f7'', EnemyConfig.behavior = Some ''wave'',
        EnemyConfig.speed = Some 2, EnemyConfig.waveAmplitude = Some 40,
        EnemyConfig.waveSpeed = Some (binary64 (8 / 100)),
        EnemyConfig.shootChance = Some (binary64 (1 / 100))\<rparr>),
      (''fighter'',
       \<lparr>EnemyConfig.width = 22, EnemyConfig.height = 10, EnemyConfig.health = 2,
        EnemyConfig.points = 150, EnemyConfig.color = ''#3498db'',
        EnemyConfig.glowColor = Some ''#60a5fa'', EnemyConfig.behavior = Some ''straight'',
        EnemyConfig.speed = Some 3, EnemyConfig.waveAmplitude = None,
        EnemyConfig.waveSpeed = None, EnemyConfig.shootChance = Some (binary64 (2 / 100))\<rparr>),
      (''bomber'',
       \<lparr>EnemyConfig.width = 28, EnemyConfig.height = 16, EnemyConfig.health = 3,
        EnemyConfig.points = 200, EnemyConfig.color = ''#f39c12'',
        EnemyConfig.glowColor = Some ''#fbbf24'', EnemyConfig.behavior = Some ''wave'',
        EnemyConfig.speed = Some 1, EnemyConfig.waveAmplitude = Some 20,
        EnemyConfig.waveSpeed = Some (binary64 (3 / 100)),
        EnemyConfig.shootChance = Some (binary64 (15 / 1000))\<rparr>)]"

definition GROUND_TARGET_TYPES :: "(string \<times> GroundTargetConfig) list" where
  "GROUND_TARGET_TYPES =
     [(''fuelTank'',
       \<lparr>GroundTargetConfig.width = 16, GroundTargetConfig.height = 20,
        GroundTargetConfig.points = 150, GroundTargetConfig.color = ''#22c55e'',
        GroundTargetConfig.glowColor = Some ''#4ade80'',
        GroundTargetConfig.givesFuel = Some True, GroundTargetConfig.fuelAmount = Some 25,
        GroundTargetConfig.shootChance = Some 0, floatHeight = Some 35\<rparr>),
      (''rocket'',
       \<lparr>GroundTargetConfig.width = 8, GroundTargetConfig.height = 24,
        GroundTargetConfig.points = 80, GroundTargetConfig.color = ''#ef4444'',
        GroundTargetConfig.glowColor = Some ''#f87171'',
        GroundTargetConfig.givesFuel = None, GroundTargetConfig.fuelAmount = None,
        GroundTargetConfig.shootChance = Some (binary64 (5 / 1000)), floatHeight = None\<rparr>),
      (''base'',
       \<lparr>GroundTargetConfig.width = 24, GroundTargetConfig.height = 16,
        GroundTargetConfig.points = 100, GroundTargetConfig.color = ''#64748b'',
        GroundTargetConfig.glowColor = Some ''#94a3b8'',
        GroundTargetConfig.givesFuel = None, GroundTargetConfig.fuelAmount = None,
        GroundTargetConfig.shootChance = Some (binary64 (8 / 1000)), floatHeight = None\<rparr>),
      (''radar'',
       \<lparr>GroundTargetConfig.width = 12, GroundTargetConfig.height = 18,
        GroundTargetConfig.points = 120, GroundTargetConfig.color = ''#06b6d4'',
        GroundTargetConfig.glowColor = Some ''#22d3ee'',
        GroundTargetConfig.givesFuel = None, GroundTargetConfig.fuelAmount = None,
        GroundTargetConfig.shootChance = Some 0, floatHeight = None\<rparr>)]"

section \<open>Levels (levels.js)\<close>

text \<open>The field \<open>length\<close> of a stage is \<open>stage_length\<close> here.\<close>

record Stage =
  name :: string
  baseTopHeight :: real
  baseBottomHeight :: real
  terrainVariation :: real
  enemyDensity :: real
  groundTargetDensity :: real
  scrollSpeed :: real
  enemyTypes :: "string list"
  groundTargetTypes :: "string list"
  stage_length :: real

definition STAGES :: "Stage list" where
  "STAGES =
     [\<lparr>name = ''ROCKY CANYON'', baseTopHeight = 40, baseBottomHeight = 80,
       terrainVariation = 25, enemyDensity = binary64 (8 / 1000),
       groundTargetDensity = binary64 (12 / 1000),
       scrollSpeed = binary64 (18 / 10), enemyTypes = [''rocket''],
       groundTargetTypes = [''fuelTank'', ''fuelTank'', ''rocket''], stage_length = 1800\<rparr>,
      \<lparr>name = ''ENEMY BASE'', baseTopHeight = 50, baseBottomHeight = 90,
       terrainVariation = 35, enemyDensity = binary64 (15 / 1000),
       groundTargetDensity = binary64 (12 / 1000),
       scrollSpeed = 2, enemyTypes = [''rocket'', ''ufo''],
       groundTargetTypes = [''rocket'', ''base'', ''fuelTank''], stage_length = 2200\<rparr>,
      \<lparr>name = ''MISSILE SILOS'', baseTopHeight = 60, baseBottomHeight = 100,
       terrainVariation = 45, enemyDensity = binary64 (22 / 1000),
       groundTargetDensity = binary64 (15 / 1000),
       scrollSpeed = binary64 (22 / 10), enemyTypes = [''rocket'', ''ufo'', ''fighter''],
       groundTargetTypes = [''rocket'', ''base'', ''radar'', ''fuelTank''],
       stage_length = 2500\<rparr>,
      \<lparr>name = ''NARROW CAVES'', baseTopHeight = 90, baseBottomHeight = 110,
       terrainVariation = 50, enemyDensity = binary64 (25 / 1000),
       groundTargetDensity = binary64 (1 / 100),
       scrollSpeed = 25 / 10, enemyTypes = [''ufo'', ''fighter''],
       groundTargetTypes = [''fuelTank'', ''radar''], stage_length = 2200\<rparr>,
      \<lparr>name = ''FINAL FORTRESS'', baseTopHeight = 80, baseBottomHeight = 100,
       terrainVariation = 45, enemyDensity = binary64 (35 / 1000),
       groundTargetDensity = binary64 (2 / 100),
       scrollSpeed = binary64 (28 / 10), enemyTypes = [''ufo'', ''fighter'', ''bomber''],
       groundTargetTypes = [''rocket'', ''base'', ''radar'', ''fuelTank''],
       stage_length = 3000\<rparr>]"

text \<open>
  Reading an array at an integer index: an element inside the array, \<open>undefined\<close>
  (here \<open>None\<close>) at a negative index and at an index past the end. JavaScript raises
  no error for either.
\<close>

definition js_index :: "'a list \<Rightarrow> int \<Rightarrow> 'a option" where
  "js_index xs i = (if 0 \<le> i \<and> i < int (List.length xs) then Some (xs ! nat i) else None)"

definition getTotalStages :: int where
  "getTotalStages = int (List.length STAGES)"

definition getStage :: "int \<Rightarrow> Stage option" where
  "getStage index = js_index STAGES (min index (int (List.length STAGES) - 1))"

subsection \<open>TerrainGenerator\<close>

record TerrainGenerator =
  canvasWidth :: real
  canvasHeight :: real
  config :: Stage
  segments :: "TerrainSegment list"
  segmentWidth :: real
  noiseOffset :: real

record ZoneBounds =
  top :: real
  bottom :: real

definition noise :: "TerrainGenerator \<Rightarrow> real \<Rightarrow> real" where
  "noise t wx =
     (let sin1 = Math_sin (js_add (js_mul wx (binary64 (2 / 100))) (noiseOffset t));
          sin2 = js_mul (Math_sin (js_add (js_mul wx (binary64 (5 / 100)))
                                     (js_mul (noiseOffset t) 2))) (5 / 10);
          sin3 = js_mul (Math_sin (js_add (js_mul wx (binary64 (1 / 100)))
                                     (js_mul (noiseOffset t) (5 / 10))))
                   (binary64 (3 / 10))
      in js_div (js_add (js_add sin1 sin2) sin3) (binary64 (18 / 10)))"

definition createSegment :: "TerrainGenerator \<Rightarrow> real \<Rightarrow> real \<Rightarrow> TerrainSegment" where
  "createSegment t sx worldX =
     (let nz = noise t worldX;
          th = js_add (baseTopHeight (TerrainGenerator.config t))
                 (js_mul nz (terrainVariation (TerrainGenerator.config t)));
          bh = js_add (baseBottomHeight (TerrainGenerator.config t))
                 (js_mul (js_mul nz (terrainVariation (TerrainGenerator.config t)))
                    (binary64 (8 / 10)))
      in \<lparr>TerrainSegment.x = sx, topHeight = th, bottomHeight = bh,
          TerrainSegment.width = segmentWidth t\<rparr>)"

definition generateInitialTerrain :: "TerrainGenerator \<Rightarrow> TerrainGenerator" where
  "generateInitialTerrain t =
     (let numSegments = \<lceil>js_div (TerrainGenerator.canvasWidth t) (segmentWidth t)\<rceil> + 10
      in t\<lparr>segments := segments t @
              map (\<lambda>i. createSegment t (js_mul (real i) (segmentWidth t))
                                       (js_mul (real i) (segmentWidth t)))
                  [0 ..< nat numSegments]\<rparr>)"

definition new_TerrainGenerator :: "real \<Rightarrow> real \<Rightarrow> Stage \<Rightarrow> rng \<Rightarrow> TerrainGenerator \<times> rng" where
  "new_TerrainGenerator cw ch stageConfig r0 =
     (let (rv, r1) = Math_random r0
      in (generateInitialTerrain
            \<lparr>TerrainGenerator.canvasWidth = cw, TerrainGenerator.canvasHeight = ch,
             TerrainGenerator.config = stageConfig, segments = [], segmentWidth = 4,
             noiseOffset = js_mul rv 1000\<rparr>, r1))"

definition TerrainGenerator_update :: "real \<Rightarrow> real \<Rightarrow> TerrainGenerator \<Rightarrow> TerrainGenerator" where
  "TerrainGenerator_update scroll worldDistance t0 =
     (let t1 = t0\<lparr>segments := map (TerrainSegment_update scroll) (segments t0)\<rparr>;
          t2 = t1\<lparr>segments :=
                    filter (\<lambda>s. js_add (TerrainSegment.x s) (TerrainSegment.width s) > - 10)
                      (segments t1)\<rparr>
      in if segments t2 = [] then t2
         else let lastSegment = last (segments t2)
              in if TerrainSegment.x lastSegment < js_add (TerrainGenerator.canvasWidth t2) 50
                 then let newX = js_add (TerrainSegment.x lastSegment) (segmentWidth t2);
                          worldX = js_add worldDistance newX
                      in t2\<lparr>segments := segments t2 @ [createSegment t2 newX worldX]\<rparr>
                 else t2)"

fun getBoundsAt_loop :: "TerrainGenerator \<Rightarrow> real \<Rightarrow> TerrainSegment list \<Rightarrow> ZoneBounds" where
  "getBoundsAt_loop t px [] =
     \<lparr>top = baseTopHeight (TerrainGenerator.config t),
      bottom = js_sub (TerrainGenerator.canvasHeight t)
                 (baseBottomHeight (TerrainGenerator.config t))\<rparr>"
| "getBoundsAt_loop t px (s # ss) =
     (if px \<ge> TerrainSegment.x s \<and>
         px < js_add (TerrainSegment.x s) (TerrainSegment.width s)
      then \<lparr>top = topHeight s,
            bottom = js_sub (TerrainGenerator.canvasHeight t) (bottomHeight s)\<rparr>
      else getBoundsAt_loop t px ss)"

definition getBoundsAt :: "TerrainGenerator \<Rightarrow> real \<Rightarrow> ZoneBounds" where
  "getBoundsAt t px = getBoundsAt_loop t px (segments t)"

fun checkCollision_loop :: "'a Entity_scheme \<Rightarrow> real \<Rightarrow> TerrainSegment list \<Rightarrow> wall option" where
  "checkCollision_loop entity ch [] = None"
| "checkCollision_loop entity ch (s # ss) =
     (case collidesWithEntity entity ch s of
        Some w \<Rightarrow> Some w
      | None \<Rightarrow> checkCollision_loop entity ch ss)"

definition checkCollision :: "TerrainGenerator \<Rightarrow> 'a Entity_scheme \<Rightarrow> wall option" where
  "checkCollision t entity =
     checkCollision_loop entity (TerrainGenerator.canvasHeight t) (segments t)"

text \<open>
  The loop of \<open>getSafeZone\<close> adds up, over the segments on screen, the top heights and
  the bottom edges, and counts them; the accumulators are \<open>avgTop\<close>, \<open>avgBottom\<close> and
  \<open>count\<close>.
\<close>

fun getSafeZone_loop ::
  "TerrainGenerator \<Rightarrow> TerrainSegment list \<Rightarrow> real \<times> real \<times> nat \<Rightarrow> real \<times> real \<times> nat" where
  "getSafeZone_loop t [] acc = acc"
| "getSafeZone_loop t (s # ss) (avgTop, avgBottom, count) =
     (if TerrainSegment.x s \<ge> 0 \<and> TerrainSegment.x s \<le> TerrainGenerator.canvasWidth t
      then getSafeZone_loop t ss
             (js_add avgTop (topHeight s),
              js_add avgBottom (js_sub (TerrainGenerator.canvasHeight t) (bottomHeight s)),
              count + 1)
      else getSafeZone_loop t ss (avgTop, avgBottom, count))"

definition getSafeZone :: "TerrainGenerator \<Rightarrow> ZoneBounds" where
  "getSafeZone t =
     (let (avgTop, avgBottom, count) = getSafeZone_loop t (segments t) (0, 0, 0)
      in if count = 0
         then \<lparr>top = baseTopHeight (TerrainGenerator.config t),
               bottom = js_sub (TerrainGenerator.canvasHeight t)
                          (baseBottomHeight (TerrainGenerator.config t))\<rparr>
         else \<lparr>top = js_div avgTop (real count), bottom = js_div avgBottom (real count)\<rparr>)"

subsection \<open>SpawnManager\<close>

record SpawnManager =
  canvasWidth :: real
  canvasHeight :: real
  config :: Stage
  spawnTimer :: int
  groundSpawnTimer :: int

definition new_SpawnManager :: "real \<Rightarrow> real \<Rightarrow> Stage \<Rightarrow> SpawnManager" where
  "new_SpawnManager cw ch stageConfig =
     \<lparr>SpawnManager.canvasWidth = cw, SpawnManager.canvasHeight = ch,
      SpawnManager.config = stageConfig, spawnTimer = 0, groundSpawnTimer = 0\<rparr>"

text \<open>
  \<open>types[Math.floor(Math.random() * types.length)]\<close>: the selected type name, or
  \<open>undefined\<close> (here \<open>None\<close>) when the index is past the end of the array.
\<close>

definition pickType :: "string list \<Rightarrow> real \<Rightarrow> string option" where
  "pickType types rv = js_index types \<lfloor>js_mul rv (real (List.length types))\<rfloor>"

text \<open>
  \<open>ENEMY_TYPES[type]\<close> and \<open>GROUND_TARGET_TYPES[type]\<close> read a property of an object
  literal. The property is the table's own entry for one of its keys; for a name that
  every object inherits from \<open>Object.prototype\<close> it is the inherited member, a function
  or an object and so not falsy; for every other name, and for the name \<open>undefined\<close>, it
  is \<open>undefined\<close>.
\<close>

definition Object_prototype :: "string list" where
  "Object_prototype =
     [''constructor'', ''hasOwnProperty'', ''isPrototypeOf'', ''propertyIsEnumerable'',
      ''toLocaleString'', ''toString'', ''valueOf'', ''__proto__'', ''__defineGetter__'',
      ''__defineSetter__'', ''__lookupGetter__'', ''__lookupSetter__'']"

datatype 'c property = Undefined | Own string 'c | Inherited string

definition lookupType :: "(string \<times> 'c) list \<Rightarrow> string option \<Rightarrow> 'c property" where
  "lookupType table ty =
     (case ty of
        None \<Rightarrow> Undefined
      | Some k \<Rightarrow>
          (case map_of table k of
             Some c \<Rightarrow> Own k c
           | None \<Rightarrow> if k \<in> set Object_prototype then Inherited k else Undefined))"

text \<open>
  What \<open>spawnEnemy\<close> and \<open>spawnGroundTarget\<close> return: \<open>null\<close>, an entity, or, when the
  type name is an inherited member, the object that the constructor builds from that
  member. The member has no \<open>width\<close>, \<open>height\<close> or \<open>health\<close>, so these fields of the object
  are \<open>undefined\<close> and its \<open>y\<close>, computed from the missing height, is NaN: the object is
  \<open>Malformed\<close>, with the type name it was built for. In that case \<open>spawnEnemy\<close> does not
  return early (\<open>maxY <= minY\<close> is false for the NaN \<open>maxY\<close>) and draws the two random
  numbers for \<open>y\<close> and for the angle.
\<close>

datatype 'e spawned = Null | Spawned 'e | Malformed string

definition spawnEnemy :: "SpawnManager \<Rightarrow> TerrainGenerator \<Rightarrow> rng \<Rightarrow> Enemy spawned \<times> rng" where
  "spawnEnemy sm terrain r0 =
     (let types = enemyTypes (SpawnManager.config sm);
          (rt, r1) = Math_random r0
      in case lookupType ENEMY_TYPES (pickType types rt) of
           Undefined \<Rightarrow> (Null, r1)
         | Inherited ty \<Rightarrow>
             (let (ry, r2) = Math_random r1;
                  (ra, r3) = Math_random r2
              in (Malformed ty, r3))
         | Own ty cfg \<Rightarrow>
             (let ex = js_add (SpawnManager.canvasWidth sm) 50;
                  safeZone = getSafeZone terrain;
                  minY = js_add (top safeZone) 10;
                  maxY = js_sub (js_sub (bottom safeZone) (EnemyConfig.height cfg)) 10
              in if maxY \<le> minY then (Null, r1)
                 else let (ry, r2) = Math_random r1;
                          ey = js_add minY (js_mul ry (js_sub maxY minY));
                          (e, r3) = new_Enemy ex ey ty cfg r2
                      in (Spawned e, r3)))"

definition spawnGroundTarget ::
  "SpawnManager \<Rightarrow> TerrainGenerator \<Rightarrow> rng \<Rightarrow> GroundTarget spawned \<times> rng" where
  "spawnGroundTarget sm terrain r0 =
     (let types = groundTargetTypes (SpawnManager.config sm);
          (rt, r1) = Math_random r0
      in case lookupType GROUND_TARGET_TYPES (pickType types rt) of
           Undefined \<Rightarrow> (Null, r1)
         | Inherited ty \<Rightarrow> (Malformed ty, r1)
         | Own ty cfg \<Rightarrow>
             (let gx = js_add (SpawnManager.canvasWidth sm) 50;
                  bounds = getBoundsAt terrain gx;
                  floatOffset = js_or_num (floatHeight cfg) 0;
                  gy = js_sub (js_sub (bottom bounds) (GroundTargetConfig.height cfg))
                         floatOffset
              in (Spawned (new_GroundTarget gx gy ty cfg), r1)))"

text \<open>
  \<open>update\<close> returns the two arrays of what was spawned in this frame; \<open>null\<close> is not
  pushed, everything else is.
\<close>

definition SpawnManager_update ::
  "SpawnManager \<Rightarrow> TerrainGenerator \<Rightarrow> real \<Rightarrow> rng \<Rightarrow>
     (Enemy spawned list \<times> GroundTarget spawned list) \<times> SpawnManager \<times> rng" where
  "SpawnManager_update sm0 terrain worldDistance r0 =
     (let sm1 = sm0\<lparr>spawnTimer := spawnTimer sm0 + 1\<rparr>;
          (rd, r1) = Math_random r0;
          (enemies, r2) =
            (if rd < enemyDensity (SpawnManager.config sm1)
             then (case spawnEnemy sm1 terrain r1 of
                     (Null, r') \<Rightarrow> ([], r') | (enemy, r') \<Rightarrow> ([enemy], r'))
             else ([], r1));
          sm2 = sm1\<lparr>groundSpawnTimer := groundSpawnTimer sm1 + 1\<rparr>;
          (rg, r3) = Math_random r2;
          (groundTargets, r4) =
            (if rg < groundTargetDensity (SpawnManager.config sm2)
             then (case spawnGroundTarget sm2 terrain r3 of
                     (Null, r') \<Rightarrow> ([], r') | (target, r') \<Rightarrow> ([target], r'))
             else ([], r3))
      in ((enemies, groundTargets), sm2, r4))"

section \<open>Game controller (game.js)\<close>

text \<open>
  The record is a game on which \<open>start()\<close> has run: player, terrain and spawn manager
  exist. The canvas is its two dimensions. Rendering, the frame scheduler, the two
  observer callbacks and the browser's storage behind \<open>bestScore\<close> are outside the
  simulation and are left out. \<open>random\<close> is what \<open>Math.random()\<close> will return from now on.
  Reading a field of \<open>undefined\<close> is a \<open>TypeError\<close>.
\<close>

datatype GameState = START_SCREEN | PLAYING | STAGE_TRANSITION | GAME_OVER | VICTORY | PAUSED

datatype error = TypeError

record Game =
  canvas_width :: real
  canvas_height :: real
  state :: GameState
  stateTimer :: int
  player :: Player
  enemies :: "Enemy list"
  groundTargets :: "GroundTarget list"
  bullets :: "Bullet list"
  bombs :: "Bomb list"
  particles :: "Particle list"
  terrain :: TerrainGenerator
  spawnManager :: SpawnManager
  score :: int
  bestScore :: int
  currentStage :: int
  distance :: real
  scrollSpeed :: real
  input :: Input
  random :: rng

definition saveBestScore :: "Game \<Rightarrow> Game" where
  "saveBestScore g = (if score g > bestScore g then g\<lparr>bestScore := score g\<rparr> else g)"

definition onStateEnter :: "GameState \<Rightarrow> Game \<Rightarrow> Game" where
  "onStateEnter st g =
     (case st of
        STAGE_TRANSITION \<Rightarrow> g\<lparr>stateTimer := 120\<rparr>
      | GAME_OVER \<Rightarrow> saveBestScore g
      | VICTORY \<Rightarrow> saveBestScore g
      | _ \<Rightarrow> g)"

definition setState :: "GameState \<Rightarrow> Game \<Rightarrow> Game" where
  "setState newState g = onStateEnter newState (g\<lparr>state := newState, stateTimer := 0\<rparr>)"

definition addScore :: "int \<Rightarrow> Game \<Rightarrow> Game" where
  "addScore pts g = g\<lparr>score := score g + pts\<rparr>"

text \<open>\<open>this.particles.push(...createExplosion(x, y, color, count))\<close>\<close>

definition pushExplosion :: "real \<Rightarrow> real \<Rightarrow> string \<Rightarrow> nat \<Rightarrow> Game \<Rightarrow> Game" where
  "pushExplosion px py c n g =
     (let (qs, r1) = createExplosion px py c n (random g)
      in g\<lparr>particles := particles g @ qs, random := r1\<rparr>)"

definition playerHit :: "Game \<Rightarrow> Game" where
  "playerHit g0 =
     (let (wasHit, p1) = Player_hit (player g0);
          g1 = g0\<lparr>player := p1\<rparr>
      in if wasHit
         then (let g2 = pushExplosion (getCenterX (player g1)) (getCenterY (player g1))
                          ''#ff8c00'' 15 g1
               in if lives (player g2) \<le> 0 then setState GAME_OVER g2 else g2)
         else g1)"

definition playerCrash :: "Game \<Rightarrow> Game" where
  "playerCrash g0 =
     (let g1 = pushExplosion (getCenterX (player g0)) (getCenterY (player g0))
                 ''#ff8c00'' 20 g0;
          g2 = g1\<lparr>player := (player g1)\<lparr>lives := lives (player g1) - 1\<rparr>\<rparr>
      in if lives (player g2) \<le> 0 then setState GAME_OVER g2
         else g2\<lparr>player := (player g2)
                \<lparr>Entity.x := 60,
                 Entity.y := canvas_height g2 / 2 - Entity.height (player g2) / 2,
                 isInvincible := True,
                 invincibleTimer := 120,
                 fuel := max (fuel (player g2)) 30\<rparr>\<rparr>)"

subsection \<open>Per-frame updates of the entity arrays\<close>

fun updateEnemies_loop :: "Enemy list \<Rightarrow> Game \<Rightarrow> Enemy list \<times> Game" where
  "updateEnemies_loop [] g = ([], g)"
| "updateEnemies_loop (e # es) g =
     (if \<not> Entity.active e
      then (let (es', g') = updateEnemies_loop es g in (e # es', g'))
      else let e1 = Enemy_update (Game.scrollSpeed g) e;
               (fire, r1) = Enemy_shouldShoot e1 (random g);
               g1 = g\<lparr>random := r1\<rparr>;
               g2 = (if fire then g1\<lparr>bullets := bullets g1 @ [Enemy_shoot e1]\<rparr> else g1);
               (es', g') = updateEnemies_loop es g2
           in (e1 # es', g'))"

definition updateEnemies :: "Game \<Rightarrow> Game" where
  "updateEnemies g =
     (let (es, g1) = updateEnemies_loop (enemies g) g
      in g1\<lparr>enemies := filter Entity.active es\<rparr>)"

fun updateGroundTargets_loop :: "GroundTarget list \<Rightarrow> Game \<Rightarrow> GroundTarget list \<times> Game" where
  "updateGroundTargets_loop [] g = ([], g)"
| "updateGroundTargets_loop (t # ts) g =
     (if \<not> Entity.active t
      then (let (ts', g') = updateGroundTargets_loop ts g in (t # ts', g'))
      else let t1 = GroundTarget_update (Game.scrollSpeed g) t;
               (fire, r1) = GroundTarget_shouldShoot t1 (random g);
               g1 = g\<lparr>random := r1\<rparr>;
               g2 = (if fire then g1\<lparr>bullets := bullets g1 @ [GroundTarget_shoot t1]\<rparr>
                     else g1);
               (ts', g') = updateGroundTargets_loop ts g2
           in (t1 # ts', g'))"

definition updateGroundTargets :: "Game \<Rightarrow> Game" where
  "updateGroundTargets g =
     (let (ts, g1) = updateGroundTargets_loop (groundTargets g) g
      in g1\<lparr>groundTargets := filter Entity.active ts\<rparr>)"

definition updateBullets :: "Game \<Rightarrow> Game" where
  "updateBullets g =
     g\<lparr>bullets := filter Entity.active
                     (map (Bullet_update (canvas_width g) (canvas_height g)) (bullets g))\<rparr>"

fun updateBombs_loop :: "Bomb list \<Rightarrow> Game \<Rightarrow> Bomb list \<times> Game" where
  "updateBombs_loop [] g = ([], g)"
| "updateBombs_loop (b # bs) g =
     (let b1 = Bomb_update (canvas_width g) (canvas_height g) b
      in if checkCollision (terrain g) b1 \<noteq> None
         then (let g1 = pushExplosion (getCenterX b1) (getCenterY b1) (Bomb.color b1) 6 g;
                   b2 = b1\<lparr>Entity.active := False\<rparr>;
                   (bs', g') = updateBombs_loop bs g1
               in (b2 # bs', g'))
         else (let (bs', g') = updateBombs_loop bs g in (b1 # bs', g')))"

definition updateBombs :: "Game \<Rightarrow> Game" where
  "updateBombs g =
     (let (bs, g1) = updateBombs_loop (bombs g) g
      in g1\<lparr>bombs := filter Entity.active bs\<rparr>)"

definition updateParticles :: "Game \<Rightarrow> Game" where
  "updateParticles g =
     g\<lparr>particles := filter Particle.active (map Particle_update (particles g))\<rparr>"

subsection \<open>checkCollisions\<close>

text \<open>
  Each of the five passes of \<open>checkCollisions\<close> is a loop over one array with, for the
  first three, an inner loop over another; the objects are changed in place. A loop
  returns the array it ran over, with its changes, and the game, in which the other
  array, the score, the player and the particles are kept current.
\<close>

text \<open>Player bullets vs enemies: the inner loop, left at the first hit.\<close>

fun bulletVsEnemies :: "Bullet \<Rightarrow> Enemy list \<Rightarrow> Game \<Rightarrow> Bullet \<times> Enemy list \<times> Game" where
  "bulletVsEnemies b [] g = (b, [], g)"
| "bulletVsEnemies b (e # es) g =
     (if \<not> Entity.active e
      then (let (b', es', g') = bulletVsEnemies b es g in (b', e # es', g'))
      else if collidesWith b e
      then (let b1 = b\<lparr>Entity.active := False\<rparr>;
                (destroyed, e1) = takeDamage (Bullet.damage b1) e;
                g1 = (if destroyed
                      then pushExplosion (getCenterX e1) (getCenterY e1) (Enemy.color e1) 10
                             (addScore (Enemy.points e1) g)
                      else g)
            in (b1, e1 # es, g1))
      else (let (b', es', g') = bulletVsEnemies b es g in (b', e # es', g')))"

fun playerBulletsVsEnemies :: "Bullet list \<Rightarrow> Game \<Rightarrow> Bullet list \<times> Game" where
  "playerBulletsVsEnemies [] g = ([], g)"
| "playerBulletsVsEnemies (b # bs) g =
     (if \<not> isPlayerBullet b \<or> \<not> Entity.active b
      then (let (bs', g') = playerBulletsVsEnemies bs g in (b # bs', g'))
      else let (b1, es1, g1) = bulletVsEnemies b (enemies g) g;
               (bs', g') = playerBulletsVsEnemies bs (g1\<lparr>enemies := es1\<rparr>)
           in (b1 # bs', g'))"

text \<open>
  What the destruction of a ground target does to the game, with the size of the
  burst: score, explosion, fuel pickup.
\<close>

definition destroyTarget :: "GroundTarget \<Rightarrow> nat \<Rightarrow> Game \<Rightarrow> Game" where
  "destroyTarget t n g0 =
     (let g1 = addScore (GroundTarget.points t) g0;
          g2 = pushExplosion (getCenterX t) (getCenterY t) (GroundTarget.color t) n g1
      in if GroundTarget.givesFuel t
         then g2\<lparr>player := addFuel (GroundTarget.fuelAmount t) (player g2)\<rparr>
         else g2)"

text \<open>Bombs vs ground targets.\<close>

fun bombVsTargets :: "Bomb \<Rightarrow> GroundTarget list \<Rightarrow> Game \<Rightarrow> Bomb \<times> GroundTarget list \<times> Game" where
  "bombVsTargets b [] g = (b, [], g)"
| "bombVsTargets b (t # ts) g =
     (if \<not> Entity.active t
      then (let (b', ts', g') = bombVsTargets b ts g in (b', t # ts', g'))
      else if collidesWith b t
      then (let b1 = b\<lparr>Entity.active := False\<rparr>;
                t1 = t\<lparr>Entity.active := False\<rparr>
            in (b1, t1 # ts, destroyTarget t1 12 g))
      else (let (b', ts', g') = bombVsTargets b ts g in (b', t # ts', g')))"

fun bombsVsTargets :: "Bomb list \<Rightarrow> Game \<Rightarrow> Bomb list \<times> Game" where
  "bombsVsTargets [] g = ([], g)"
| "bombsVsTargets (b # bs) g =
     (if \<not> Entity.active b
      then (let (bs', g') = bombsVsTargets bs g in (b # bs', g'))
      else let (b1, ts1, g1) = bombVsTargets b (groundTargets g) g;
               (bs', g') = bombsVsTargets bs (g1\<lparr>groundTargets := ts1\<rparr>)
           in (b1 # bs', g'))"

text \<open>Player bullets vs ground targets.\<close>

fun bulletVsTargets :: "Bullet \<Rightarrow> GroundTarget list \<Rightarrow> Game \<Rightarrow> Bullet \<times> GroundTarget list \<times> Game" where
  "bulletVsTargets b [] g = (b, [], g)"
| "bulletVsTargets b (t # ts) g =
     (if \<not> Entity.active t
      then (let (b', ts', g') = bulletVsTargets b ts g in (b', t # ts', g'))
      else if collidesWith b t
      then (let b1 = b\<lparr>Entity.active := False\<rparr>;
                t1 = t\<lparr>Entity.active := False\<rparr>
            in (b1, t1 # ts, destroyTarget t1 10 g))
      else (let (b', ts', g') = bulletVsTargets b ts g in (b', t # ts', g')))"

fun playerBulletsVsTargets :: "Bullet list \<Rightarrow> Game \<Rightarrow> Bullet list \<times> Game" where
  "playerBulletsVsTargets [] g = ([], g)"
| "playerBulletsVsTargets (b # bs) g =
     (if \<not> isPlayerBullet b \<or> \<not> Entity.active b
      then (let (bs', g') = playerBulletsVsTargets bs g in (b # bs', g'))
      else let (b1, ts1, g1) = bulletVsTargets b (groundTargets g) g;
               (bs', g') = playerBulletsVsTargets bs (g1\<lparr>groundTargets := ts1\<rparr>)
           in (b1 # bs', g'))"

text \<open>Enemy bullets vs player: the loop is left at the first hit.\<close>

fun enemyBulletsVsPlayer :: "Bullet list \<Rightarrow> Game \<Rightarrow> Bullet list \<times> Game" where
  "enemyBulletsVsPlayer [] g = ([], g)"
| "enemyBulletsVsPlayer (b # bs) g =
     (if isPlayerBullet b \<or> \<not> Entity.active b
      then (let (bs', g') = enemyBulletsVsPlayer bs g in (b # bs', g'))
      else if collidesWith b (player g)
      then (b\<lparr>Entity.active := False\<rparr> # bs, playerHit g)
      else (let (bs', g') = enemyBulletsVsPlayer bs g in (b # bs', g')))"

text \<open>Player vs enemies: the loop is left at the first hit.\<close>

fun playerVsEnemies :: "Enemy list \<Rightarrow> Game \<Rightarrow> Enemy list \<times> Game" where
  "playerVsEnemies [] g = ([], g)"
| "playerVsEnemies (e # es) g =
     (if \<not> Entity.active e
      then (let (es', g') = playerVsEnemies es g in (e # es', g'))
      else if collidesWith (player g) e
      then (let g1 = pushExplosion (getCenterX e) (getCenterY e) (Enemy.color e) 10 g
            in (e\<lparr>Entity.active := False\<rparr> # es, playerHit g1))
      else (let (es', g') = playerVsEnemies es g in (e # es', g')))"

text \<open>The five passes, each on the game, and \<open>checkCollisions\<close>, which runs them in order.\<close>

definition collideBulletsEnemies :: "Game \<Rightarrow> Game" where
  "collideBulletsEnemies g =
     (let (bs, g') = playerBulletsVsEnemies (bullets g) g in g'\<lparr>bullets := bs\<rparr>)"

definition collideBombsTargets :: "Game \<Rightarrow> Game" where
  "collideBombsTargets g =
     (let (bs, g') = bombsVsTargets (bombs g) g in g'\<lparr>bombs := bs\<rparr>)"

definition collideBulletsTargets :: "Game \<Rightarrow> Game" where
  "collideBulletsTargets g =
     (let (bs, g') = playerBulletsVsTargets (bullets g) g in g'\<lparr>bullets := bs\<rparr>)"

definition collideBulletsPlayer :: "Game \<Rightarrow> Game" where
  "collideBulletsPlayer g =
     (let (bs, g') = enemyBulletsVsPlayer (bullets g) g in g'\<lparr>bullets := bs\<rparr>)"

definition collidePlayerEnemies :: "Game \<Rightarrow> Game" where
  "collidePlayerEnemies g =
     (let (es, g') = playerVsEnemies (enemies g) g in g'\<lparr>enemies := es\<rparr>)"

definition checkCollisions :: "Game \<Rightarrow> Game" where
  "checkCollisions g0 =
     (let g1 = collideBulletsEnemies g0;
          g2 = collideBombsTargets g1;
          g3 = collideBulletsTargets g2;
          g4 = collideBulletsPlayer g3
      in collidePlayerEnemies g4)"

subsection \<open>updatePlaying\<close>

text \<open>
  \<open>updatePlaying\<close>, block by block: the terrain scroll, the player's move, shooting,
  bombing, spawning; then the four entity updates (\<open>moveFrame\<close> is the frame up to
  there), \<open>checkCollisions\<close> (\<open>simulateFrame\<close> is the frame up to and including it), and
  the crash and stage checks that end the function.
\<close>

definition scrollTerrain :: "Game \<Rightarrow> Game" where
  "scrollTerrain g0 =
     (let g1 = g0\<lparr>distance := js_add (distance g0) (Game.scrollSpeed g0)\<rparr>
      in g1\<lparr>terrain := TerrainGenerator_update (Game.scrollSpeed g1) (distance g1)
                           (terrain g1)\<rparr>)"

definition movePlayer :: "Game \<Rightarrow> Game" where
  "movePlayer g =
     (let safeZone = getSafeZone (terrain g)
      in g\<lparr>player := Player_update (input g) (top safeZone) (bottom safeZone) (player g)\<rparr>)"

definition playerShooting :: "Game \<Rightarrow> Game" where
  "playerShooting g =
     (if shoot (input g)
      then (case Player_shoot (player g) of
              (Some bullet, p') \<Rightarrow> g\<lparr>player := p', bullets := bullets g @ [bullet]\<rparr>
            | (None, p') \<Rightarrow> g\<lparr>player := p'\<rparr>)
      else g)"

definition playerBombing :: "Game \<Rightarrow> Game" where
  "playerBombing g =
     (if bomb (input g)
      then (case Player_bomb (player g) of
              (Some bm, p') \<Rightarrow> g\<lparr>player := p', bombs := bombs g @ [bm]\<rparr>
            | (None, p') \<Rightarrow> g\<lparr>player := p'\<rparr>)
      else g)"

text \<open>
  The arrays of the game hold entities. An object that the spawn manager built from an
  inherited member (\<open>Malformed\<close>) is no entity of this embedding and has no place in them:
  \<open>entities\<close> keeps the spawned entities of a result. The game builds its spawn manager
  from a stage of the table \<open>STAGES\<close> (\<open>initStage\<close>), and no stage of the table names such a
  member.
\<close>

definition entities :: "'e spawned list \<Rightarrow> 'e list" where
  "entities xs = concat (map (\<lambda>v. case v of Spawned e \<Rightarrow> [e] | _ \<Rightarrow> []) xs)"

definition spawnEntities :: "Game \<Rightarrow> Game" where
  "spawnEntities g =
     (let ((newEnemies, newTargets), sm', r') =
            SpawnManager_update (spawnManager g) (terrain g) (distance g) (random g)
      in g\<lparr>spawnManager := sm', random := r',
           enemies := enemies g @ entities newEnemies,
           groundTargets := groundTargets g @ entities newTargets\<rparr>)"

definition moveFrame :: "Game \<Rightarrow> Game" where
  "moveFrame g0 =
     (let g1 = scrollTerrain g0;
          g2 = movePlayer g1;
          g3 = playerShooting g2;
          g4 = playerBombing g3;
          g5 = spawnEntities g4;
          g6 = updateEnemies g5;
          g7 = updateGroundTargets g6;
          g8 = updateBullets g7
      in updateBombs g8)"

definition simulateFrame :: "Game \<Rightarrow> Game" where
  "simulateFrame g = checkCollisions (moveFrame g)"

definition updatePlaying :: "Game \<Rightarrow> error + Game" where
  "updatePlaying g0 =
     (let stageConfig = getStage (currentStage g0);
          g = simulateFrame g0
      in if checkCollision (terrain g) (player g) \<noteq> None then Inr (playerCrash g)
         else if fuel (player g) \<le> 0 then Inr (playerCrash g)
         else case stageConfig of
                None \<Rightarrow> Inl TypeError
              | Some sc \<Rightarrow>
                  if distance g \<ge> stage_length sc then Inr (setState STAGE_TRANSITION g)
                  else Inr g)"

subsection \<open>Stages and the state machine\<close>

definition initStage :: "Game \<Rightarrow> error + Game" where
  "initStage g =
     (case getStage (currentStage g) of
        None \<Rightarrow> Inl TypeError
      | Some stageConfig \<Rightarrow>
          (let (tg, r1) = new_TerrainGenerator (canvas_width g) (canvas_height g) stageConfig
                            (random g)
           in Inr (g\<lparr>Game.scrollSpeed := Stage.scrollSpeed stageConfig,
                     terrain := tg, random := r1,
                     spawnManager := new_SpawnManager (canvas_width g) (canvas_height g)
                                       stageConfig,
                     distance := 0,
                     enemies := [], groundTargets := [], bullets := [], bombs := []\<rparr>)))"

definition advanceStage :: "Game \<Rightarrow> error + Game" where
  "advanceStage g0 =
     (let g1 = g0\<lparr>currentStage := currentStage g0 + 1\<rparr>
      in if currentStage g1 \<ge> getTotalStages then Inr (setState VICTORY g1)
         else case initStage g1 of
                Inl e \<Rightarrow> Inl e
              | Inr g2 \<Rightarrow> Inr (setState PLAYING g2))"

definition Game_update :: "Game \<Rightarrow> error + Game" where
  "Game_update g0 =
     (let g1 = updateParticles g0
      in case state g1 of
           PLAYING \<Rightarrow> updatePlaying g1
         | STAGE_TRANSITION \<Rightarrow>
             (let g2 = g1\<lparr>stateTimer := stateTimer g1 - 1\<rparr>
              in if stateTimer g2 \<le> 0 then advanceStage g2 else Inr g2)
         | _ \<Rightarrow> Inr g1)"

definition Game_start :: "Game \<Rightarrow> error + Game" where
  "Game_start g0 =
     (let g1 = g0\<lparr>score := 0, currentStage := 0, distance := 0\<rparr>
      in case getStage (currentStage g1) of
           None \<Rightarrow> Inl TypeError
         | Some stageConfig \<Rightarrow>
             (let (tg, r1) = new_TerrainGenerator (canvas_width g1) (canvas_height g1)
                               stageConfig (random g1)
              in Inr (setState PLAYING
                        (g1\<lparr>Game.scrollSpeed := Stage.scrollSpeed stageConfig,
                            terrain := tg, random := r1,
                            spawnManager := new_SpawnManager (canvas_width g1)
                                              (canvas_height g1) stageConfig,
                            player := new_Player (canvas_width g1) (canvas_height g1),
                            enemies := [], groundTargets := [], bullets := [], bombs := [],
                            particles := []\<rparr>))))"

definition restart :: "Game \<Rightarrow> error + Game" where
  "restart g = Game_start g"

definition pause :: "Game \<Rightarrow> Game" where
  "pause g =
     (if state g = PLAYING then setState PAUSED g
      else if state g = PAUSED then setState PLAYING g
      else g)"

text \<open>\<open>setInput(key, value)\<close>; a key that names no flag leaves the six flags as they are.\<close>

definition setInput :: "string \<Rightarrow> bool \<Rightarrow> Game \<Rightarrow> Game" where
  "setInput k v g =
     g\<lparr>input :=
         (if k = ''up'' then (input g)\<lparr>up := v\<rparr>
          else if k = ''down'' then (input g)\<lparr>down := v\<rparr>
          else if k = ''left'' then (input g)\<lparr>left := v\<rparr>
          else if k = ''right'' then (input g)\<lparr>right := v\<rparr>
          else if k = ''shoot'' then (input g)\<lparr>shoot := v\<rparr>
          else if k = ''bomb'' then (input g)\<lparr>bomb := v\<rparr>
          else input g)\<rparr>"

section \<open>Vocabulary of the properties\<close>

text \<open>A real that is a double: rounding returns it.\<close>

definition is_double :: "real \<Rightarrow> bool" where
  "is_double v \<longleftrightarrow> binary64 v = v"

text \<open>The fuel line of \<open>Player.update\<close>: one frame's drain at a given rate, floored at 0.\<close>

definition drainFuel :: "real \<Rightarrow> real \<Rightarrow> real" where
  "drainFuel rate f = (let f' = js_sub f rate in if f' \<le> 0 then 0 else f')"

text \<open>A player changed in the fuel gauge only.\<close>

definition onlyFuel :: "Player \<Rightarrow> Player \<Rightarrow> bool" where
  "onlyFuel p p' \<longleftrightarrow> p' = p\<lparr>fuel := fuel p'\<rparr>"

text \<open>What a combat hit may do to a player: nothing, or one life and the invincibility.\<close>

definition hitOrNot :: "Player \<Rightarrow> Player \<Rightarrow> bool" where
  "hitOrNot p p' \<longleftrightarrow>
     p' = p \<or>
     (\<not> isInvincible p \<and>
      p' = p\<lparr>lives := lives p - 1, isInvincible := True, invincibleTimer := invincibleDuration p\<rparr>)"

text \<open>The game without its hostile bullets.\<close>

definition hostileFree :: "Game \<Rightarrow> Game" where
  "hostileFree g = g\<lparr>bullets := filter isPlayerBullet (bullets g)\<rparr>"

text \<open>
  The fuel gauge after \<open>n\<close> frames from a full tank of 100 at the drain rate 0.05, when
  nothing refills it.
\<close>

definition fuelAfter :: "nat \<Rightarrow> real" where
  "fuelAfter n = (drainFuel (binary64 (5 / 100)) ^^ n) 100"

section \<open>Example states\<close>

text \<open>Small concrete values on which the results below are exercised.\<close>

abbreviation covers :: "real \<Rightarrow> TerrainSegment \<Rightarrow> bool" where
  "covers px s \<equiv>
     TerrainSegment.x s \<le> px \<and> px < js_add (TerrainSegment.x s) (TerrainSegment.width s)"

definition ex_terrain :: TerrainGenerator where
  "ex_terrain =
     \<lparr>TerrainGenerator.canvasWidth = 800, TerrainGenerator.canvasHeight = 600,
      TerrainGenerator.config = STAGES ! 0,
      segments = [\<lparr>TerrainSegment.x = - 12, topHeight = 40, bottomHeight = 80,
                   TerrainSegment.width = 4\<rparr>,
                  \<lparr>TerrainSegment.x = 0, topHeight = 50, bottomHeight = 90,
                   TerrainSegment.width = 4\<rparr>],
      segmentWidth = 4, noiseOffset = 0\<rparr>"

definition ex_narrow :: TerrainGenerator where
  "ex_narrow =
     ex_terrain\<lparr>segments := [\<lparr>TerrainSegment.x = 0, topHeight = 300, bottomHeight = 290,
                                TerrainSegment.width = 4\<rparr>]\<rparr>"

text \<open>
  Three values on which the rounding shows: a segment at the double nearest to -12.2; a
  terrain whose only segment ends half a unit in the last place right of 6; a terrain
  without segments whose base top height is the double just below 250.
\<close>

definition ex_drifted :: TerrainSegment where
  "ex_drifted =
     \<lparr>TerrainSegment.x = binary64 (- (122 / 10)), topHeight = 40, bottomHeight = 80,
      TerrainSegment.width = 4\<rparr>"

definition ex_edge :: TerrainGenerator where
  "ex_edge =
     ex_terrain\<lparr>segments := [\<lparr>TerrainSegment.x = 2 + 1 / 2 ^ 51, topHeight = 1,
                              bottomHeight = 2, TerrainSegment.width = 4\<rparr>]\<rparr>"

definition ex_margin :: TerrainGenerator where
  "ex_margin =
     ex_terrain\<lparr>TerrainGenerator.config :=
                   (STAGES ! 0)\<lparr>baseTopHeight := 250 - 1 / 2 ^ 45, baseBottomHeight := 318\<rparr>,
                 segments := []\<rparr>"

definition ex_spawn :: SpawnManager where
  "ex_spawn = new_SpawnManager 800 600 (STAGES ! 0)"

definition ex_rocket :: EnemyConfig where
  "ex_rocket = snd (ENEMY_TYPES ! 0)"

definition no_input :: Input where
  "no_input = \<lparr>up = False, down = False, left = False, right = False, shoot = False,
               bomb = False\<rparr>"

text \<open>
  A game in its first stage with no enemies, targets, bullets or bombs in flight, idle
  controls, and a random source whose draws (all 1/2) trigger no spawn.
\<close>

definition ex_game :: Game where
  "ex_game =
     \<lparr>canvas_width = 800, canvas_height = 600, state = PLAYING, stateTimer = 0,
      player = new_Player 800 600, enemies = [], groundTargets = [], bullets = [],
      bombs = [], particles = [], terrain = ex_terrain, spawnManager = ex_spawn,
      score = 0, bestScore = 0, currentStage = 0, distance = 0,
      Game.scrollSpeed = Stage.scrollSpeed (STAGES ! 0), input = no_input, random = (\<lambda>n. 1 / 2)\<rparr>"

text \<open>
  The same game with an empty tank: once with an invincible player, once with a last
  life.
\<close>

definition ex_crash :: Game where
  "ex_crash =
     ex_game\<lparr>player := (new_Player 800 600)\<lparr>fuel := 0, isInvincible := True,
                                             invincibleTimer := 50\<rparr>\<rparr>"

definition ex_last :: Game where
  "ex_last =
     ex_game\<lparr>player := (new_Player 800 600)\<lparr>fuel := 0, lives := 1\<rparr>\<rparr>"

text \<open>
  An invincible player with a hostile bullet and an enemy on top of it.
\<close>

definition ex_invincible :: Game where
  "ex_invincible =
     ex_game\<lparr>player := (new_Player 800 600)\<lparr>isInvincible := True, invincibleTimer := 50\<rparr>,
             bullets := [new_Bullet 70 295 (- 6) 0 False],
             enemies := [fst (new_Enemy 65 290 ''rocket'' ex_rocket (\<lambda>n. 1 / 2))]\<rparr>"

text \<open>The last stage, one frame before its transition screen ends.\<close>

definition ex_final :: Game where
  "ex_final = ex_game\<lparr>state := STAGE_TRANSITION, stateTimer := 1, currentStage := 4\<rparr>"

text \<open>A hostile bullet that overlaps an enemy and a fuel tank, far from the player.\<close>

definition ex_hostile :: Game where
  "ex_hostile =
     ex_game\<lparr>bullets := [new_Bullet 402 302 (- 6) 0 False],
             enemies := [fst (new_Enemy 400 300 ''rocket'' ex_rocket (\<lambda>n. 1 / 2))],
             groundTargets := [new_GroundTarget 400 300 ''fuelTank''
                                 (snd (GROUND_TARGET_TYPES ! 0))]\<rparr>"

text \<open>
  The example game as it enters its 2000th and its 2001st frame since the tank was
  full: the gauge holds what 1999 and 2000 frames of drain leave of 100.
\<close>

definition ex_frame2000 :: Game where
  "ex_frame2000 =
     ex_game\<lparr>player := (new_Player 800 600)\<lparr>fuel := 1801439851075897 / 36028797018963968\<rparr>\<rparr>"

definition ex_frame2001 :: Game where
  "ex_frame2001 =
     ex_game\<lparr>player := (new_Player 800 600)\<lparr>fuel := 255397 / 72057594037927936\<rparr>\<rparr>"

section \<open>Rounding to binary64\<close>

text \<open>
  Facts on \<open>binary64\<close> that the properties below use: it keeps the sign and the order,
  it returns the doubles unchanged, and its values are doubles.
\<close>

subsection \<open>Rounding keeps the sign\<close>

lemma round_ties_even_nonneg: "0 \<le> q \<Longrightarrow> 0 \<le> round_ties_even q"
  by (auto simp: round_ties_even_def Let_def)

lemma round_ties_even_nonpos: "q \<le> 0 \<Longrightarrow> round_ties_even q \<le> 0"
proof -
  assume q: "q \<le> 0"
  have f: "\<lfloor>q\<rfloor> \<le> 0" using q by linarith
  have "\<lfloor>q\<rfloor> + 1 \<le> 0" if "1 / 2 \<le> q - of_int \<lfloor>q\<rfloor>"
  proof -
    from that q have "real_of_int \<lfloor>q\<rfloor> < 0" by linarith
    then show ?thesis by linarith
  qed
  with f show ?thesis
    by (auto simp: round_ties_even_def Let_def)
qed

lemma binary64_nonneg: "0 \<le> v \<Longrightarrow> 0 \<le> binary64 v"
  by (auto simp: binary64_def Let_def intro!: mult_nonneg_nonneg round_ties_even_nonneg
        divide_nonneg_pos)

lemma binary64_nonpos: "v \<le> 0 \<Longrightarrow> binary64 v \<le> 0"
proof -
  assume v: "v \<le> 0"
  have "real_of_int (round_ties_even (v / u)) * u \<le> 0" if "0 < u" for u
  proof -
    have "v / u \<le> 0" using v that by (simp add: divide_nonpos_pos)
    then have "round_ties_even (v / u) \<le> 0" by (rule round_ties_even_nonpos)
    then show ?thesis using that by (simp add: mult_nonpos_nonneg)
  qed
  then show ?thesis by (simp add: binary64_def Let_def)
qed

text \<open>\<open>ilog2\<close> finds the binade of a positive real.\<close>

lemma ilog2_eq:
  assumes lo: "2 powi e \<le> v" and hi: "v < 2 powi (e + 1)"
  shows "ilog2 v = e"
proof (cases "0 \<le> e")
  case True
  have v1: "1 \<le> v"
    using lo one_le_power_int [of "2::real" e] True by linarith
  have "real_of_int (2 ^ nat e) \<le> v"
    using lo True by (simp add: power_int_def)
  then have a: "2 ^ nat e \<le> \<lfloor>v\<rfloor>"
    by (simp add: le_floor_iff)
  have "v < real_of_int (2 ^ nat (e + 1))"
    using hi True by (simp add: power_int_def)
  then have b: "\<lfloor>v\<rfloor> < 2 ^ nat (e + 1)"
    by (simp add: floor_less_iff)
  have c: "nat (e + 1) - 1 = nat e" using True by simp
  have "bitlen \<lfloor>v\<rfloor> = e + 1"
  proof (rule antisym)
    show "bitlen \<lfloor>v\<rfloor> \<le> e + 1"
      using b True by (simp add: bitlen_le_iff_power)
    show "e + 1 \<le> bitlen \<lfloor>v\<rfloor>"
      using a c by (simp add: bitlen_ge_iff_power)
  qed
  with v1 show ?thesis by (simp add: ilog2_def)
next
  case False
  define k where "k = nat (- e)"
  have k: "0 < k" "e = - int k" "e + 1 = - int (k - 1)"
    using False by (simp_all add: k_def)
  have pe: "(2::real) powi e = 1 / 2 ^ k"
    by (simp add: k power_int_minus_divide)
  have pe1: "(2::real) powi (e + 1) = 1 / 2 ^ (k - 1)"
    by (simp only: k(3) power_int_minus_divide power_int_of_nat)
  have vpos: "0 < v"
    using lo zero_less_power_int [of "2::real" e] by linarith
  have "(1::real) / 2 ^ (k - 1) \<le> 1" by simp
  with hi pe1 have v1: "\<not> 1 \<le> v" by linarith
  have y_le: "1 / v \<le> 2 ^ k"
  proof -
    have "1 / 2 ^ k \<le> v" using lo unfolding pe .
    then have "1 \<le> v * 2 ^ k" by (simp add: field_simps)
    then show ?thesis using vpos by (simp add: field_simps)
  qed
  have y_gt: "2 ^ (k - 1) < 1 / v"
  proof -
    have "v < 1 / 2 ^ (k - 1)" using hi unfolding pe1 .
    then have "v * 2 ^ (k - 1) < 1" by (simp add: field_simps)
    then show ?thesis using vpos by (simp add: field_simps)
  qed
  have "1 / v \<le> real_of_int (2 ^ k)" using y_le by simp
  then have a: "\<lceil>1 / v\<rceil> \<le> 2 ^ k" by (simp add: ceiling_le_iff)
  have "real_of_int (2 ^ (k - 1)) < 1 / v" using y_gt by simp
  then have b: "2 ^ (k - 1) < \<lceil>1 / v\<rceil>" by (simp add: less_ceiling_iff)
  have "bitlen (\<lceil>1 / v\<rceil> - 1) = int k"
  proof (rule antisym)
    show "bitlen (\<lceil>1 / v\<rceil> - 1) \<le> int k"
      using a by (simp add: bitlen_le_iff_power)
    show "int k \<le> bitlen (\<lceil>1 / v\<rceil> - 1)"
      using b by (simp add: bitlen_ge_iff_power)
  qed
  with v1 show ?thesis by (simp add: ilog2_def k)
qed

text \<open>Away from a tie, rounding picks the integer within 1/2.\<close>

lemma round_ties_even_near:
  assumes "\<bar>q - of_int z\<bar> < 1 / 2"
  shows "round_ties_even q = z"
proof (cases "of_int z \<le> q")
  case True
  then have "\<lfloor>q\<rfloor> = z" using assms by (intro floor_unique) auto
  with assms True show ?thesis by (simp add: round_ties_even_def Let_def)
next
  case False
  then have f: "\<lfloor>q\<rfloor> = z - 1" using assms by (intro floor_unique) auto
  have "1 / 2 < q - of_int (z - 1)" using assms False by auto
  with f show ?thesis by (simp add: round_ties_even_def Let_def)
qed

text \<open>Inside the binade of exponent \<open>e\<close> the doubles are the multiples of \<open>2 powi (e - 52)\<close>.\<close>

lemma binary64_binade:
  assumes "2 powi e \<le> v" "v < 2 powi (e + 1)" "- 1022 \<le> e"
  shows "binary64 v = of_int (round_ties_even (v / 2 powi (e - 52))) * 2 powi (e - 52)"
proof -
  have vpos: "0 < v"
    using assms(1) zero_less_power_int [of "2::real" e] by linarith
  have "ilog2 \<bar>v\<bar> = e" using ilog2_eq [OF assms(1,2)] vpos by simp
  with vpos assms(3) show ?thesis by (simp add: binary64_def Let_def max_def)
qed


subsection \<open>Powers of two\<close>

lemma two_powi_powr: "(2::real) powi e = 2 powr (of_int e)"
  by (simp add: powr_real_of_int')

lemma two_powi_mono: "a \<le> b \<Longrightarrow> (2::real) powi a \<le> 2 powi b"
  by (simp add: two_powi_powr)

lemma two_powi_strict_mono: "a < b \<Longrightarrow> (2::real) powi a < 2 powi b"
  by (simp add: two_powi_powr)

lemma two_powi_less_iff: "(2::real) powi a < 2 powi b \<longleftrightarrow> a < b"
  by (simp add: two_powi_powr)

lemma two_powi_add: "(2::real) powi (a + b) = 2 powi a * 2 powi b"
  by (simp add: power_int_add)

lemma two_powi_unit: "(2::real) powi e = 2 powi 52 * 2 powi (e - 52)"
  using two_powi_add [of 52 "e - 52"] by simp

lemma two_powi_unit': "(2::real) powi (e + 1) = 2 powi 53 * 2 powi (e - 52)"
  using two_powi_add [of 53 "e - 52"] by (simp add: add.commute)

subsection \<open>Rounding to an integer\<close>

lemma round_ties_even_bounds: "\<bar>of_int (round_ties_even q) - q\<bar> \<le> 1 / 2"
proof -
  have "of_int \<lfloor>q\<rfloor> \<le> q" "q < of_int \<lfloor>q\<rfloor> + 1" by linarith+
  then show ?thesis
    by (auto simp: round_ties_even_def Let_def)
qed

lemma round_ties_even_of_int: "round_ties_even (of_int n) = n"
  by (simp add: round_ties_even_def)

lemma round_ties_even_mono:
  assumes "p \<le> q" shows "round_ties_even p \<le> round_ties_even q"
proof (cases "\<lfloor>p\<rfloor> = \<lfloor>q\<rfloor>")
  case True
  with assms show ?thesis
    by (auto simp: round_ties_even_def Let_def)
next
  case False
  with assms have lt: "\<lfloor>p\<rfloor> + 1 \<le> \<lfloor>q\<rfloor>"
    using floor_mono [OF assms] by linarith
  have "round_ties_even p \<le> \<lfloor>p\<rfloor> + 1"
    by (auto simp: round_ties_even_def Let_def)
  moreover have "\<lfloor>q\<rfloor> \<le> round_ties_even q"
    by (auto simp: round_ties_even_def Let_def)
  ultimately show ?thesis using lt by linarith
qed

lemma round_ties_even_minus: "round_ties_even (- q) = - round_ties_even q"
proof (cases "q = of_int \<lfloor>q\<rfloor>")
  case True
  then obtain n where "q = of_int n" ..
  then show ?thesis
    by (simp add: round_ties_even_def flip: of_int_minus)
next
  case False
  then have lt: "of_int \<lfloor>q\<rfloor> < q" by linarith
  have "\<lfloor>- q\<rfloor> = - \<lfloor>q\<rfloor> - 1"
    using lt by (intro floor_unique) (auto, linarith)
  then show ?thesis
    by (auto simp: round_ties_even_def Let_def)
qed

lemma round_ties_even_below:
  assumes "q < of_int n - 1 / 2" shows "round_ties_even q \<le> n - 1"
proof -
  have "of_int (round_ties_even q) < (of_int n :: real)"
    using round_ties_even_bounds [of q] assms by linarith
  then show ?thesis by simp
qed

lemma round_ties_even_le: "q \<le> of_int n \<Longrightarrow> round_ties_even q \<le> n"
  using round_ties_even_mono [of q "of_int n"] by (simp add: round_ties_even_of_int)

lemma round_ties_even_ge: "of_int n \<le> q \<Longrightarrow> n \<le> round_ties_even q"
  using round_ties_even_mono [of "of_int n" q] by (simp add: round_ties_even_of_int)

subsection \<open>The binade of a real\<close>

lemma ilog2_bounds:
  assumes "0 < v"
  shows "2 powi (ilog2 v) \<le> v" "v < 2 powi (ilog2 v + 1)"
proof -
  define e where "e = \<lfloor>log 2 v\<rfloor>"
  have "2 powr (of_int e) \<le> v \<and> v < 2 powr (of_int (e + 1))"
    using floor_log_eq_powr_iff [of v 2 e] assms by (simp add: e_def)
  then have b: "2 powi e \<le> v" "v < 2 powi (e + 1)"
    by (simp_all only: two_powi_powr)
  then have "ilog2 v = e" by (rule ilog2_eq)
  with b show "2 powi (ilog2 v) \<le> v" "v < 2 powi (ilog2 v + 1)" by simp_all
qed

text \<open>
  The exponent \<open>e\<close> and the unit \<open>u\<close> that \<open>binary64\<close> uses for a positive real, with the
  bounds that the real satisfies in units.
\<close>

lemma binary64_pos:
  assumes "0 < v"
  defines "e \<equiv> max (ilog2 v) (- 1022)"
  defines "u \<equiv> 2 powi (e - 52)"
  shows "binary64 v = of_int (round_ties_even (v / u)) * u"
    and "v / u < 2 powi 53"
    and "- 1022 < e \<Longrightarrow> 2 powi 52 \<le> v / u"
    and "0 < u"
proof -
  show "binary64 v = of_int (round_ties_even (v / u)) * u"
    using assms by (simp add: binary64_def Let_def)
  show upos: "0 < u" by (simp add: u_def)
  have "v < 2 powi (ilog2 v + 1)" using ilog2_bounds(2) [OF assms(1)] .
  also have "\<dots> \<le> 2 powi (e + 1)" by (rule two_powi_mono) (simp add: e_def)
  also have "\<dots> = 2 powi 53 * u" unfolding u_def by (rule two_powi_unit')
  finally show "v / u < 2 powi 53" using upos by (simp add: field_simps)
  show "2 powi 52 \<le> v / u" if "- 1022 < e"
  proof -
    from that have "e = ilog2 v" by (simp add: e_def max_def split: if_splits)
    then have "2 powi e \<le> v" using ilog2_bounds(1) [OF assms(1)] by simp
    then have "2 powi 52 * u \<le> v" unfolding u_def by (simp only: two_powi_unit [symmetric])
    then show ?thesis using upos by (simp add: field_simps)
  qed
qed

lemma binary64_minus: "binary64 (- v) = - binary64 v"
  by (simp add: binary64_def Let_def round_ties_even_minus)

lemma binary64_zero: "binary64 0 = 0"
  by (simp add: binary64_def)

text \<open>Rounding is monotone.\<close>

lemma binary64_mono_pos:
  assumes "0 < a" "a \<le> b"
  shows "binary64 a \<le> binary64 b"
proof -
  define ea where "ea = max (ilog2 a) (- 1022)"
  define eb where "eb = max (ilog2 b) (- 1022)"
  define ua :: real where "ua = 2 powi (ea - 52)"
  define ub :: real where "ub = 2 powi (eb - 52)"
  have bpos: "0 < b" using assms by linarith
  note A = binary64_pos [OF assms(1), folded ea_def ua_def]
  note B = binary64_pos [OF bpos, folded eb_def ub_def]
  have "ilog2 a \<le> ilog2 b"
  proof (rule ccontr)
    assume "\<not> ilog2 a \<le> ilog2 b"
    then have "ilog2 b + 1 \<le> ilog2 a" by simp
    then have "(2::real) powi (ilog2 b + 1) \<le> 2 powi (ilog2 a)" by (rule two_powi_mono)
    with ilog2_bounds(1) [OF assms(1)] ilog2_bounds(2) [OF bpos] assms(2)
    show False by linarith
  qed
  then have le: "ea \<le> eb" by (simp add: ea_def eb_def)
  show ?thesis
  proof (cases "ea = eb")
    case True
    then have u: "ua = ub" by (simp add: ua_def ub_def)
    have "a / ub \<le> b / ub" using assms(2) B(4) by (simp add: divide_right_mono)
    then have "round_ties_even (a / ub) \<le> round_ties_even (b / ub)"
      by (rule round_ties_even_mono)
    then have "real_of_int (round_ties_even (a / ub)) * ub \<le>
               real_of_int (round_ties_even (b / ub)) * ub"
      using B(4) by (simp add: mult_right_mono)
    then show ?thesis unfolding A(1) B(1) u .
  next
    case False
    with le have lt: "ea + 1 \<le> eb" by simp
    then have eb: "- 1022 < eb" by (simp add: ea_def)
    have "a / ua \<le> real_of_int (2 ^ 53)" using A(2) by simp
    then have "round_ties_even (a / ua) \<le> 2 ^ 53" by (rule round_ties_even_le)
    then have "real_of_int (round_ties_even (a / ua)) \<le> 2 powi 53" by simp
    then have "binary64 a \<le> 2 powi 53 * ua"
      unfolding A(1) using A(4) by (simp add: mult_right_mono)
    also have "\<dots> = 2 powi (ea + 1)" unfolding ua_def by (rule two_powi_unit' [symmetric])
    also have "\<dots> \<le> 2 powi eb" using lt by (rule two_powi_mono)
    also have "\<dots> = 2 powi 52 * ub" unfolding ub_def by (rule two_powi_unit)
    also have "\<dots> \<le> binary64 b"
    proof -
      have "real_of_int (2 ^ 52) \<le> b / ub" using B(3) [OF eb] by simp
      then have "2 ^ 52 \<le> round_ties_even (b / ub)" by (rule round_ties_even_ge)
      then have "2 powi 52 \<le> real_of_int (round_ties_even (b / ub))" by simp
      then show ?thesis unfolding B(1) using B(4) by (simp add: mult_right_mono)
    qed
    finally show ?thesis .
  qed
qed

lemma binary64_mono:
  assumes "a \<le> b"
  shows "binary64 a \<le> binary64 b"
proof -
  consider "0 < a" | "a \<le> 0" "0 \<le> b" | "b < 0" by linarith
  then show ?thesis
  proof cases
    case 1
    then show ?thesis using assms by (rule binary64_mono_pos)
  next
    case 2
    then show ?thesis
      using binary64_nonpos [of a] binary64_nonneg [of b] by linarith
  next
    case 3
    then have "0 < - b" "- b \<le> - a" using assms by simp_all
    then have "binary64 (- b) \<le> binary64 (- a)" by (rule binary64_mono_pos)
    then show ?thesis by (simp add: binary64_minus)
  qed
qed

subsection \<open>The doubles\<close>

text \<open>
  A multiple of a power of two, with at most 53 significant bits and an exponent
  not below that of the subnormal doubles, is a double: rounding returns it.
\<close>

lemma binary64_exact_pos:
  assumes m: "0 < m" "m < 2 ^ 53" and k: "- 1074 \<le> k"
  shows "binary64 (of_int m * 2 powi k) = of_int m * 2 powi k"
proof -
  define v :: real where "v = of_int m * 2 powi k"
  have vpos: "0 < v" using m by (simp add: v_def)
  define e where "e = max (ilog2 v) (- 1022)"
  define u :: real where "u = 2 powi (e - 52)"
  note V = binary64_pos [OF vpos, folded e_def u_def]
  have ke: "e - 52 \<le> k"
  proof (rule ccontr)
    assume "\<not> e - 52 \<le> k"
    then have lt: "k + 53 \<le> e" by simp
    with k have e: "- 1022 < e" by simp
    have "v < 2 powi 53 * 2 powi k"
      using m(2) by (simp add: v_def)
    also have "\<dots> = 2 powi (k + 53)" by (simp add: two_powi_add)
    also have "\<dots> \<le> 2 powi e" using lt by (rule two_powi_mono)
    also have "\<dots> = 2 powi 52 * u" unfolding u_def by (rule two_powi_unit)
    finally have "v / u < 2 powi 52" using V(4) by (simp add: field_simps)
    with V(3) [OF e] show False by linarith
  qed
  define j where "j = nat (k - (e - 52))"
  have kj: "k = (e - 52) + int j" using ke by (simp add: j_def)
  have "(2::real) powi k = 2 powi (e - 52) * 2 ^ j"
    by (subst kj, subst two_powi_add) (simp add: power_int_of_nat)
  then have vu: "v = of_int (m * 2 ^ j) * u" by (simp add: v_def u_def)
  then have "v / u = of_int (m * 2 ^ j)" using V(4) by simp
  then have "round_ties_even (v / u) = m * 2 ^ j" by (simp only: round_ties_even_of_int)
  then have "binary64 v = v" unfolding V(1) using vu by simp
  then show ?thesis by (simp add: v_def)
qed

lemma binary64_exact:
  assumes m: "\<bar>m\<bar> \<le> 2 ^ 53" and k: "- 1074 \<le> k"
  shows "binary64 (of_int m * 2 powi k) = of_int m * 2 powi k"
proof -
  have pos: "binary64 (of_int n * 2 powi k) = of_int n * 2 powi k" if "0 < n" "n \<le> 2 ^ 53" for n
  proof (cases "n = 2 ^ 53")
    case True
    have "real_of_int n * 2 powi k = of_int (2 ^ 52) * 2 powi (k + 1)"
      by (simp add: True two_powi_add)
    moreover have "binary64 (of_int (2 ^ 52) * 2 powi (k + 1)) = of_int (2 ^ 52) * 2 powi (k + 1)"
      using k by (intro binary64_exact_pos) simp_all
    ultimately show ?thesis by simp
  next
    case False
    with that have "n < 2 ^ 53" by simp
    with that(1) show ?thesis using k by (intro binary64_exact_pos)
  qed
  consider "0 < m" | "m = 0" | "m < 0" by linarith
  then show ?thesis
  proof cases
    case 1 then show ?thesis using m by (intro pos) simp_all
  next
    case 2 then show ?thesis by (simp add: binary64_zero)
  next
    case 3
    then have "binary64 (of_int (- m) * 2 powi k) = of_int (- m) * 2 powi k"
      using m by (intro pos) simp_all
    then show ?thesis by (simp add: binary64_minus)
  qed
qed

lemma binary64_of_int:
  assumes "\<bar>n\<bar> \<le> 2 ^ 53"
  shows "binary64 (of_int n) = of_int n"
  using binary64_exact [OF assms, of 0] by simp

text \<open>The value of \<open>binary64\<close> is such a multiple, so rounding it again changes nothing.\<close>

lemma binary64_repr:
  "\<exists>m k. binary64 v = of_int m * 2 powi k \<and> \<bar>m\<bar> \<le> 2 ^ 53 \<and> - 1074 \<le> k"
proof -
  have pos: "\<exists>m k. binary64 w = of_int m * 2 powi k \<and> \<bar>m\<bar> \<le> 2 ^ 53 \<and> - 1074 \<le> k"
    if "0 < w" for w
  proof -
    define e where "e = max (ilog2 w) (- 1022)"
    define u :: real where "u = 2 powi (e - 52)"
    note W = binary64_pos [OF that, folded e_def u_def]
    have "0 \<le> w / u" using that W(4) by simp
    then have a: "0 \<le> round_ties_even (w / u)" by (rule round_ties_even_nonneg)
    have "w / u \<le> real_of_int (2 ^ 53)" using W(2) by simp
    then have b: "round_ties_even (w / u) \<le> 2 ^ 53" by (rule round_ties_even_le)
    have "- 1074 \<le> e - 52" by (simp add: e_def)
    with a b W(1) show ?thesis unfolding u_def by (intro exI conjI) (assumption, simp_all)
  qed
  consider "0 < v" | "v = 0" | "v < 0" by linarith
  then show ?thesis
  proof cases
    case 1 then show ?thesis by (rule pos)
  next
    case 2
    have "binary64 v = of_int 0 * 2 powi 0" by (simp add: 2 binary64_zero)
    then show ?thesis by (intro exI [of _ 0] exI [of _ "0::int"]) simp
  next
    case 3
    then have "0 < - v" by simp
    from pos [OF this] obtain m k where
      "binary64 (- v) = of_int m * 2 powi k" "\<bar>m\<bar> \<le> 2 ^ 53" "- 1074 \<le> k" by blast
    then have "binary64 v = of_int (- m) * 2 powi k \<and> \<bar>- m\<bar> \<le> 2 ^ 53 \<and> - 1074 \<le> k"
      by (simp add: binary64_minus)
    then show ?thesis by blast
  qed
qed

lemma binary64_idem: "binary64 (binary64 v) = binary64 v"
proof -
  obtain m k where "binary64 v = of_int m * 2 powi k" "\<bar>m\<bar> \<le> 2 ^ 53" "- 1074 \<le> k"
    using binary64_repr by blast
  then show ?thesis by (simp add: binary64_exact)
qed

lemma is_double_binary64: "is_double (binary64 v)"
  by (simp add: is_double_def binary64_idem)

lemma is_double_exact: "\<bar>m\<bar> \<le> 2 ^ 53 \<Longrightarrow> - 1074 \<le> k \<Longrightarrow> is_double (of_int m * 2 powi k)"
  by (simp add: is_double_def binary64_exact)

lemma is_double_of_int: "\<bar>n\<bar> \<le> 2 ^ 53 \<Longrightarrow> is_double (of_int n)"
  by (simp add: is_double_def binary64_of_int)

lemma binary64_le: "v \<le> b \<Longrightarrow> is_double b \<Longrightarrow> binary64 v \<le> b"
  using binary64_mono [of v b] by (simp add: is_double_def)

lemma binary64_ge: "a \<le> v \<Longrightarrow> is_double a \<Longrightarrow> a \<le> binary64 v"
  using binary64_mono [of a v] by (simp add: is_double_def)

subsection \<open>Interpolation between two doubles\<close>

text \<open>Every double is a multiple of the smallest one, \<open>2 powi - 1074\<close>.\<close>

lemma double_grid:
  assumes "is_double a"
  shows "\<exists>n. a = of_int n * 2 powi (- 1074)"
proof -
  obtain m k where mk: "binary64 a = of_int m * 2 powi k" "- 1074 \<le> k"
    using binary64_repr by blast
  define j where "j = nat (k + 1074)"
  have kj: "k = - 1074 + int j" using mk(2) by (simp add: j_def)
  have "(2::real) powi k = 2 powi (- 1074) * 2 ^ j"
    by (subst kj, subst two_powi_add) (simp only: power_int_of_nat)
  then have "binary64 a = of_int (m * 2 ^ j) * 2 powi (- 1074)"
    by (simp add: mk(1))
  with assms show ?thesis unfolding is_double_def by metis
qed

text \<open>Below the normal range every such multiple is a double.\<close>

lemma binary64_subnormal_exact:
  assumes t: "t = of_int n * 2 powi (- 1074)" and small: "\<bar>t\<bar> < 2 powi (- 1022)"
  shows "binary64 t = t"
proof -
  have g: "(0::real) < 2 powi (- 1074)" by (rule zero_less_power_int) simp
  have "(2::real) powi (- 1022) = 2 powi 52 * 2 powi (- 1074)"
    using two_powi_add [of 52 "- 1074"] by simp
  then have "\<bar>real_of_int n\<bar> * 2 powi (- 1074) < 2 powi 52 * 2 powi (- 1074)"
    using small g by (simp only: t abs_mult abs_of_pos)
  then have "\<bar>real_of_int n\<bar> < 2 powi 52"
    using g by (simp only: mult_less_cancel_right_pos)
  then have "real_of_int \<bar>n\<bar> < real_of_int (2 ^ 52)" by simp
  then have "\<bar>n\<bar> < 2 ^ 52" by (simp only: of_int_less_iff)
  then have "\<bar>n\<bar> \<le> 2 ^ 53" by simp
  then show ?thesis unfolding t by (intro binary64_exact) simp_all
qed

text \<open>
  If the difference \<open>t\<close> of two doubles is rounded up, then any real that is below the
  rounded difference by at least the factor \<open>1 - 2 powi - 53\<close> rounds to at most \<open>t\<close>.
\<close>

lemma binary64_scaled_below:
  assumes t: "0 < t" and grid: "t = of_int n * 2 powi (- 1074)"
    and d: "t < binary64 t"
    and v: "v \<le> binary64 t * (1 - 2 powi (- 53))"
  shows "binary64 v \<le> t"
proof -
  have normal: "2 powi (- 1022) \<le> t"
  proof (rule ccontr)
    assume "\<not> 2 powi (- 1022) \<le> t"
    then have "\<bar>t\<bar> < 2 powi (- 1022)" using t by simp
    with grid have "binary64 t = t" by (rule binary64_subnormal_exact)
    with d show False by simp
  qed
  define e where "e = max (ilog2 t) (- 1022)"
  define u :: real where "u = 2 powi (e - 52)"
  note T = binary64_pos [OF t, folded e_def u_def]
  have "(2::real) powi (- 1022) < 2 powi (ilog2 t + 1)"
    using normal ilog2_bounds(2) [OF t] by linarith
  then have "- 1022 < ilog2 t + 1"
    by (simp only: two_powi_less_iff)
  then have e_eq: "e = ilog2 t" by (simp add: e_def)
  have e_lo: "- 1022 \<le> e" by (simp add: e_def)
  have lo: "2 powi e \<le> t" unfolding e_eq by (rule ilog2_bounds(1) [OF t])
  define M where "M = round_ties_even (t / u)"
  have dM: "binary64 t = of_int M * u" unfolding M_def by (rule T(1))
  have "t / u \<le> real_of_int (2 ^ 53)" using T(2) by simp
  then have M_le: "M \<le> 2 ^ 53" unfolding M_def by (rule round_ties_even_le)
  have near: "of_int M - t / u \<le> 1 / 2"
    using round_ties_even_bounds [of "t / u"] unfolding M_def by linarith
  have tu: "t = (t / u) * u" using T(4) by simp
  have close: "of_int M * u - u / 2 \<le> t"
  proof -
    have "(of_int M - 1 / 2) * u \<le> (t / u) * u"
      using near T(4) by (intro mult_right_mono) simp_all
    then show ?thesis using tu by (simp add: algebra_simps)
  qed
  have half: "2 powi e * 2 powi (- 53) = u / 2"
  proof -
    have "(2::real) powi (e - 52) = 2 powi (e - 53) * 2"
      using two_powi_add [of "e - 53" 1] by simp
    moreover have "(2::real) powi (e - 53) = 2 powi e * 2 powi (- 53)"
      using two_powi_add [of e "- 53"] by simp
    ultimately show ?thesis by (simp add: u_def)
  qed
  have p53: "(0::real) < 2 powi (- 53)" by (rule zero_less_power_int) simp
  have "2 powi e < binary64 t" using lo d by linarith
  then have "2 powi e * 2 powi (- 53) < binary64 t * 2 powi (- 53)"
    using p53 by (simp only: mult_less_cancel_right_pos)
  then have "u / 2 < binary64 t * 2 powi (- 53)" by (simp only: half)
  moreover have "binary64 t * (1 - 2 powi (- 53)) = binary64 t - binary64 t * 2 powi (- 53)"
    by (simp add: algebra_simps)
  ultimately have vlt: "v < of_int M * u - u / 2" using v unfolding dM by linarith
  show ?thesis
  proof (cases "v < 2 powi e")
    case True
    have "binary64 (of_int 1 * 2 powi e) = of_int 1 * 2 powi e"
      using e_lo by (intro binary64_exact) simp_all
    then have "is_double (2 powi e)" by (simp add: is_double_def)
    then have "binary64 v \<le> 2 powi e" using True by (intro binary64_le) simp_all
    with lo show ?thesis by linarith
  next
    case False
    then have vlo: "2 powi e \<le> v" by simp
    have "of_int M * u \<le> 2 powi 53 * u"
      using M_le T(4) by (intro mult_right_mono) simp_all
    also have "\<dots> = 2 powi (e + 1)" unfolding u_def by (rule two_powi_unit' [symmetric])
    finally have "v < 2 powi (e + 1)" using vlt T(4) by linarith
    with vlo have b: "binary64 v = of_int (round_ties_even (v / u)) * u"
      unfolding u_def using e_lo by (intro binary64_binade)
    have "v / u < (of_int M * u - u / 2) / u"
      using vlt T(4) by (simp only: divide_strict_right_mono)
    also have "\<dots> = of_int M - 1 / 2" using T(4) by (simp add: field_simps)
    finally have "round_ties_even (v / u) \<le> M - 1" by (rule round_ties_even_below)
    then have "real_of_int (round_ties_even (v / u)) \<le> real_of_int (M - 1)"
      by (simp only: of_int_le_iff)
    then have "binary64 v \<le> real_of_int (M - 1) * u"
      unfolding b using T(4) by (intro mult_right_mono) simp_all
    also have "\<dots> = of_int M * u - u" by (simp add: algebra_simps)
    also have "\<dots> \<le> t" using close T(4) by linarith
    finally show ?thesis .
  qed
qed

text \<open>
  \<open>lo + r * (hi - lo)\<close> as JavaScript computes it, for doubles \<open>lo < hi\<close> and a factor
  \<open>r\<close> from 0 up to the largest double below 1, stays between \<open>lo\<close> and \<open>hi\<close>.
\<close>

lemma js_lerp_bounds:
  assumes lo: "is_double lo" and hi: "is_double hi" and lt: "lo < hi"
    and r: "0 \<le> r" "r \<le> 1 - 2 powi (- 53)"
  shows "lo \<le> binary64 (lo + binary64 (r * binary64 (hi - lo)))"
    and "binary64 (lo + binary64 (r * binary64 (hi - lo))) \<le> hi"
proof -
  define t where "t = hi - lo"
  define d where "d = binary64 t"
  define p where "p = binary64 (r * d)"
  have t: "0 < t" using lt by (simp add: t_def)
  obtain nl nh where "lo = of_int nl * 2 powi (- 1074)" "hi = of_int nh * 2 powi (- 1074)"
    using double_grid [OF lo] double_grid [OF hi] by blast
  then have grid: "t = of_int (nh - nl) * 2 powi (- 1074)"
    by (simp add: t_def algebra_simps)
  have p53: "(0::real) < 2 powi (- 53)" by (rule zero_less_power_int) simp
  have r1: "r \<le> 1" using r(2) p53 by linarith
  have d0: "0 \<le> d" unfolding d_def using t by (intro binary64_nonneg) simp
  have p0: "0 \<le> p" unfolding p_def using r(1) d0 by (intro binary64_nonneg) simp
  have pt: "p \<le> t"
  proof (cases "d \<le> t")
    case True
    have "r * d \<le> 1 * d" using r1 d0 by (intro mult_right_mono)
    then have "p \<le> d"
      unfolding p_def d_def by (intro binary64_le) (simp_all add: is_double_binary64)
    with True show ?thesis by linarith
  next
    case False
    then have up: "t < binary64 t" by (simp add: d_def)
    have "r * d \<le> (1 - 2 powi (- 53)) * d" using r(2) d0 by (intro mult_right_mono)
    then have "r * d \<le> binary64 t * (1 - 2 powi (- 53))" by (simp add: d_def mult.commute)
    with t grid up show ?thesis unfolding p_def by (rule binary64_scaled_below)
  qed
  show "lo \<le> binary64 (lo + binary64 (r * binary64 (hi - lo)))"
    using p0 lo unfolding p_def d_def t_def by (intro binary64_ge) simp_all
  show "binary64 (lo + binary64 (r * binary64 (hi - lo))) \<le> hi"
    using pt hi unfolding p_def d_def t_def by (intro binary64_le) simp_all
qed

text \<open>The largest double below 1 is \<open>1 - 2 powi - 53\<close>.\<close>

lemma double_below_one:
  assumes "is_double r" "r < 1"
  shows "r \<le> 1 - 2 powi (- 53)"
proof (cases "r < 1 / 2")
  case True
  have "(2::real) powi (- 53) \<le> 2 powi (- 1)" by (rule two_powi_mono) simp
  then have "(2::real) powi (- 53) \<le> 1 / 2" by simp
  with True show ?thesis by linarith
next
  case False
  then have "2 powi (- 1) \<le> r" by simp
  moreover have "r < 2 powi (- 1 + 1)" using assms(2) by simp
  ultimately have b: "binary64 r =
      of_int (round_ties_even (r / 2 powi (- 1 - 52))) * 2 powi (- 1 - 52)"
    by (intro binary64_binade) simp_all
  define m where "m = round_ties_even (r / 2 powi (- 53))"
  have p53: "(0::real) < 2 powi (- 53)" by (rule zero_less_power_int) simp
  have rm: "r = of_int m * 2 powi (- 53)"
    using b assms(1) by (simp add: is_double_def m_def)
  have one: "(1::real) = 2 powi 53 * 2 powi (- 53)"
    using two_powi_add [of 53 "- 53"] by simp
  have "r < 2 powi 53 * 2 powi (- 53)"
    using assms(2) one by linarith
  with rm [symmetric] have "real_of_int m * 2 powi (- 53) < 2 powi 53 * 2 powi (- 53)"
    by (rule ord_eq_less_trans)
  then have "real_of_int m < 2 powi 53"
    using p53 by (simp only: mult_less_cancel_right_pos)
  then have "real_of_int m < real_of_int (2 ^ 53)" by simp
  then have "m < 2 ^ 53" by (simp only: of_int_less_iff)
  then have "m \<le> 2 ^ 53 - 1" by simp
  then have "real_of_int m \<le> real_of_int (2 ^ 53 - 1)" by (simp only: of_int_le_iff)
  then have "real_of_int m * 2 powi (- 53) \<le> real_of_int (2 ^ 53 - 1) * 2 powi (- 53)"
    using p53 by (intro mult_right_mono) simp_all
  also have "\<dots> = 2 powi 53 * 2 powi (- 53) - 2 powi (- 53)"
    by (simp add: algebra_simps)
  also have "\<dots> = 1 - 2 powi (- 53)" using one by simp
  finally show ?thesis using rm by simp
qed

subsection \<open>Doubles among the literals\<close>

text \<open>The integers up to \<open>2 ^ 53\<close> and their halves are doubles.\<close>

lemma binary64_one: "binary64 1 = 1"
  using binary64_of_int [of 1] by simp

lemma binary64_numeral:
  "numeral n \<le> (9007199254740992::int) \<Longrightarrow> binary64 (numeral n) = numeral n"
  using binary64_of_int [of "numeral n"] by simp

lemma binary64_neg_numeral:
  "numeral n \<le> (9007199254740992::int) \<Longrightarrow> binary64 (- numeral n) = - numeral n"
  using binary64_of_int [of "- numeral n"] by simp

lemma binary64_neg_one: "binary64 (- 1) = - 1"
  using binary64_of_int [of "- 1"] by simp

lemma binary64_half: "binary64 (1 / 2) = 1 / 2"
  using binary64_exact [of 1 "- 1"] by simp

lemma binary64_numeral_half:
  "numeral n \<le> (9007199254740992::int) \<Longrightarrow> binary64 (numeral n / 2) = numeral n / 2"
  using binary64_exact [of "numeral n" "- 1"] by simp

lemmas binary64_literals =
  binary64_zero binary64_one binary64_neg_one binary64_numeral binary64_neg_numeral
  binary64_half binary64_numeral_half

lemma is_double_literals:
  "is_double 0" "is_double 1" "is_double (- 1)" "is_double (1 / 2)"
  "numeral n \<le> (9007199254740992::int) \<Longrightarrow> is_double (numeral n)"
  "numeral n \<le> (9007199254740992::int) \<Longrightarrow> is_double (- numeral n)"
  by (simp_all add: is_double_def binary64_literals)

text \<open>Evaluation of \<open>binary64\<close> on other literals.\<close>

lemma bitlen_numeral: "bitlen (numeral n) = bitlen (numeral n div 2) + 1"
  by (subst compute_bitlen) simp

lemma bitlen_one: "bitlen 1 = 1"
  by (subst compute_bitlen) simp

lemmas binary64_eval =
  binary64_def ilog2_def round_ties_even_def Let_def bitlen_numeral bitlen_one

section \<open>Properties\<close>

subsection \<open>Collision test\<close>

text \<open>
  C5 (collision symmetry). For any two entities, of whatever kinds, \<open>a.collidesWith(b)\<close>
  and \<open>b.collidesWith(a)\<close> are equal, and both are false as soon as one of the two is
  inactive.
\<close>

theorem collidesWith_symmetric:
  "collidesWith a b = collidesWith b a \<and>
   (\<not> Entity.active a \<or> \<not> Entity.active b \<longrightarrow> \<not> collidesWith a b \<and> \<not> collidesWith b a)"
  by (auto simp: collidesWith_def getBounds_def Let_def)

theorem collidesWith_symmetric_witness:
  "\<not> Entity.active ((new_Bomb 2 2 3 4)\<lparr>Entity.active := False\<rparr>) \<and>
   \<not> collidesWith (new_Bullet 0 0 10 0 True) ((new_Bomb 2 2 3 4)\<lparr>Entity.active := False\<rparr>) \<and>
   \<not> collidesWith ((new_Bomb 2 2 3 4)\<lparr>Entity.active := False\<rparr>) (new_Bullet 0 0 10 0 True) \<and>
   collidesWith (new_Bullet 0 0 10 0 True) (new_Bomb 2 2 3 4) \<and>
   collidesWith (new_Bomb 2 2 3 4) (new_Bullet 0 0 10 0 True)"
  using collidesWith_symmetric
          [of "new_Bullet 0 0 10 0 True" "(new_Bomb 2 2 3 4)\<lparr>Entity.active := False\<rparr>"]
        collidesWith_symmetric [of "new_Bullet 0 0 10 0 True" "new_Bomb 2 2 3 4"]
  by (simp add: collidesWith_def getBounds_def new_Bullet_def new_Bomb_def)

subsection \<open>Terrain\<close>

lemma createSegment_segments [simp]: "createSegment (t\<lparr>segments := ss\<rparr>) = createSegment t"
  by (intro ext) (simp add: createSegment_def noise_def)

lemma getBoundsAt_loop_find:
  "getBoundsAt_loop t px ss =
     (case find (covers px) ss of
        None \<Rightarrow> \<lparr>top = baseTopHeight (TerrainGenerator.config t),
                 bottom = js_sub (TerrainGenerator.canvasHeight t)
                            (baseBottomHeight (TerrainGenerator.config t))\<rparr>
      | Some s \<Rightarrow> \<lparr>top = topHeight s,
                   bottom = js_sub (TerrainGenerator.canvasHeight t) (bottomHeight s)\<rparr>)"
  by (induction ss) auto

text \<open>
  C7 (terrain bounds fallback). \<open>getBoundsAt\<close> is a total function: it has no error
  result. The sum \<open>x + width\<close> and the difference of the canvas height and a bottom
  height are those of JavaScript, rounded to the nearest double (\<open>js_add\<close>, \<open>js_sub\<close>); a
  segment covers a position that is not left of its \<open>x\<close> and is left of that rounded
  sum. The value is decided by the first segment that covers the queried position:
  that segment's top height and the canvas height minus its bottom height. So whenever
  some segment covers the position the answer is that of a covering segment, and when
  none does the answer is the stage's base top height and the canvas height minus the
  base bottom height. A segment that covers a double in this sense contains it also in
  exact arithmetic.
\<close>

theorem getBoundsAt_fallback:
  "getBoundsAt t px =
     (case find (covers px) (segments t) of
        None \<Rightarrow> \<lparr>top = baseTopHeight (TerrainGenerator.config t),
                 bottom = js_sub (TerrainGenerator.canvasHeight t)
                            (baseBottomHeight (TerrainGenerator.config t))\<rparr>
      | Some s \<Rightarrow> \<lparr>top = topHeight s,
                   bottom = js_sub (TerrainGenerator.canvasHeight t) (bottomHeight s)\<rparr>) \<and>
   ((\<exists>s \<in> set (segments t). covers px s) \<longrightarrow>
      (\<exists>s \<in> set (segments t). covers px s \<and>
         getBoundsAt t px =
           \<lparr>top = topHeight s,
            bottom = js_sub (TerrainGenerator.canvasHeight t) (bottomHeight s)\<rparr>)) \<and>
   ((\<forall>s \<in> set (segments t). \<not> covers px s) \<longrightarrow>
      getBoundsAt t px =
        \<lparr>top = baseTopHeight (TerrainGenerator.config t),
         bottom = js_sub (TerrainGenerator.canvasHeight t)
                    (baseBottomHeight (TerrainGenerator.config t))\<rparr>) \<and>
   (is_double px \<longrightarrow>
      (\<forall>s. covers px s \<longrightarrow> px < TerrainSegment.x s + TerrainSegment.width s))"
proof (intro conjI impI allI)
  show first: "getBoundsAt t px =
     (case find (covers px) (segments t) of
        None \<Rightarrow> \<lparr>top = baseTopHeight (TerrainGenerator.config t),
                 bottom = js_sub (TerrainGenerator.canvasHeight t)
                            (baseBottomHeight (TerrainGenerator.config t))\<rparr>
      | Some s \<Rightarrow> \<lparr>top = topHeight s,
                   bottom = js_sub (TerrainGenerator.canvasHeight t) (bottomHeight s)\<rparr>)"
    by (simp add: getBoundsAt_def getBoundsAt_loop_find)
  {
    assume "\<exists>s \<in> set (segments t). covers px s"
    then obtain s where fs: "find (covers px) (segments t) = Some s"
      by (cases "find (covers px) (segments t)") (auto simp: find_None_iff)
    then have "s \<in> set (segments t)" "covers px s"
      by (auto simp: find_Some_iff)
    with first fs
    show "\<exists>s \<in> set (segments t). covers px s \<and>
         getBoundsAt t px =
           \<lparr>top = topHeight s,
            bottom = js_sub (TerrainGenerator.canvasHeight t) (bottomHeight s)\<rparr>"
      by auto
  }
  {
    assume "\<forall>s \<in> set (segments t). \<not> covers px s"
    then have "find (covers px) (segments t) = None"
      by (auto simp: find_None_iff)
    with first
    show "getBoundsAt t px =
        \<lparr>top = baseTopHeight (TerrainGenerator.config t),
         bottom = js_sub (TerrainGenerator.canvasHeight t)
                    (baseBottomHeight (TerrainGenerator.config t))\<rparr>"
      by simp
  }
  {
    fix s
    assume d: "is_double px" and c: "covers px s"
    show "px < TerrainSegment.x s + TerrainSegment.width s"
    proof (rule ccontr)
      assume "\<not> px < TerrainSegment.x s + TerrainSegment.width s"
      then have "TerrainSegment.x s + TerrainSegment.width s \<le> px" by simp
      then have "js_add (TerrainSegment.x s) (TerrainSegment.width s) \<le> px"
        unfolding js_add_def using d by (rule binary64_le)
      with c show False by simp
    qed
  }
qed

theorem getBoundsAt_fallback_witness:
  "(\<exists>s \<in> set (segments ex_terrain). covers 2 s) \<and>
   getBoundsAt ex_terrain 2 = \<lparr>top = 50, bottom = 510\<rparr> \<and>
   find (covers 850) (segments ex_terrain) = None \<and>
   getBoundsAt ex_terrain 850 = \<lparr>top = 40, bottom = 520\<rparr> \<and>
   is_double 2 \<and> covers 2 (segments ex_terrain ! 1) \<and>
   (2::real) < TerrainSegment.x (segments ex_terrain ! 1) +
               TerrainSegment.width (segments ex_terrain ! 1)"
  using getBoundsAt_fallback [of ex_terrain 2] getBoundsAt_fallback [of ex_terrain 850]
  by (simp add: ex_terrain_def STAGES_def js_add_def js_sub_def binary64_literals
        is_double_literals)

text \<open>
  The right edge is the rounded sum: the segment of \<open>ex_edge\<close> starts at \<open>2 + 2 powi - 51\<close>
  and is 4 wide, its rounded right edge is 6, and the position 6, which is left of the
  exact sum, is not covered.
\<close>

lemma getBoundsAt_rounded_edge:
  "(6::real) < (2 + 1 / 2 ^ 51) + 4 \<and> js_add (2 + 1 / 2 ^ 51) 4 = 6 \<and>
   getBoundsAt ex_edge 6 = \<lparr>top = 40, bottom = 520\<rparr>"
proof -
  have e: "js_add (2 + 1 / 2 ^ 51) 4 = 6"
    by (simp add: js_add_def binary64_eval)
  have "js_sub 600 80 = 520"
    by (simp add: js_sub_def binary64_literals)
  then have "getBoundsAt ex_edge 6 = \<lparr>top = 40, bottom = 520\<rparr>"
    using e by (simp add: getBoundsAt_def ex_edge_def ex_terrain_def STAGES_def)
  with e show ?thesis by simp
qed

text \<open>
  C4 (terrain update step), as the code has it. One call of \<open>update\<close> moves every
  segment left by \<open>scrollSpeed\<close>: the new \<open>x\<close> is the difference that JavaScript computes,
  rounded to the nearest double (\<open>js_sub\<close>). It keeps of the moved segments exactly those
  whose rounded sum \<open>x + width\<close> is greater than -10, so it removes those with
  \<open>x + width \<le> -10\<close>, the boundary included; every segment whose exact \<open>x + width\<close> is
  at most -10 is among the removed. It then appends one new segment, placed at the
  last kept segment's \<open>x\<close> plus the segment width and generated for world position
  \<open>worldDistance\<close> plus that (rounded sums), exactly when a kept segment exists and
  the last one has \<open>x\<close> below the canvas width plus 50. At most one segment is appended.
\<close>

theorem TerrainGenerator_update_step:
  "(let shifted = map (TerrainSegment_update scroll) (segments t);
        kept = filter (\<lambda>s. \<not> (js_add (TerrainSegment.x s) (TerrainSegment.width s) \<le> - 10))
                 shifted;
        newX = js_add (TerrainSegment.x (last kept)) (segmentWidth t)
    in shifted =
         map (\<lambda>s. s\<lparr>TerrainSegment.x := js_sub (TerrainSegment.x s) scroll\<rparr>) (segments t) \<and>
       segments (TerrainGenerator_update scroll wd t) =
         (if kept \<noteq> [] \<and>
             TerrainSegment.x (last kept) < js_add (TerrainGenerator.canvasWidth t) 50
          then kept @ [createSegment t newX (js_add wd newX)]
          else kept) \<and>
       List.length (segments (TerrainGenerator_update scroll wd t)) \<le> List.length kept + 1 \<and>
       (\<forall>s \<in> set shifted.
          TerrainSegment.x s + TerrainSegment.width s \<le> - 10 \<longrightarrow> s \<notin> set kept))"
proof -
  have m10: "is_double (- 10)" by (simp add: is_double_literals)
  have "js_add a b \<le> - 10" if "a + b \<le> - 10" for a b
    unfolding js_add_def using that m10 by (rule binary64_le)
  then have "\<not> - 10 < js_add a b" if "a + b \<le> - 10" for a b
    using that by (simp add: not_less)
  then show ?thesis
    by (simp add: TerrainGenerator_update_def Let_def TerrainSegment_update_def not_le)
qed

theorem TerrainGenerator_update_step_witness:
  "segments (TerrainGenerator_update 1 7 ex_terrain) =
     [\<lparr>TerrainSegment.x = - 13, topHeight = 40, bottomHeight = 80, TerrainSegment.width = 4\<rparr>,
      \<lparr>TerrainSegment.x = - 1, topHeight = 50, bottomHeight = 90, TerrainSegment.width = 4\<rparr>,
      createSegment ex_terrain 3 10] \<and>
   segments (TerrainGenerator_update 3 7 ex_terrain) =
     [\<lparr>TerrainSegment.x = - 3, topHeight = 50, bottomHeight = 90, TerrainSegment.width = 4\<rparr>,
      createSegment ex_terrain 1 8] \<and>
   TerrainSegment.x (TerrainSegment_update 3 (hd (segments ex_terrain))) +
     TerrainSegment.width (TerrainSegment_update 3 (hd (segments ex_terrain))) \<le> - 10"
  using TerrainGenerator_update_step [of 1 ex_terrain 7]
        TerrainGenerator_update_step [of 3 ex_terrain 7]
  by (simp add: ex_terrain_def TerrainSegment_update_def js_add_def js_sub_def
        binary64_literals)

text \<open>
  The claim C4 as stated (removal of exactly the segments with \<open>x + width < -10\<close>) fails
  on the boundary: a segment that the shift brings to \<open>x + width = -10\<close> is removed.
\<close>

theorem TerrainGenerator_update_boundary_counterexample:
  "TerrainSegment.x (TerrainSegment_update 2 (hd (segments ex_terrain))) +
     TerrainSegment.width (TerrainSegment_update 2 (hd (segments ex_terrain))) = - 10 \<and>
   \<not> (TerrainSegment.x (TerrainSegment_update 2 (hd (segments ex_terrain))) +
        TerrainSegment.width (TerrainSegment_update 2 (hd (segments ex_terrain))) < - 10) \<and>
   TerrainSegment_update 2 (hd (segments ex_terrain))
     \<notin> set (segments (TerrainGenerator_update 2 0 ex_terrain))"
  by (simp add: ex_terrain_def TerrainGenerator_update_def TerrainSegment_update_def Let_def
        createSegment_def js_add_def js_sub_def binary64_literals)

text \<open>
  The shift is the rounded difference: from the double nearest to -12.2, a scroll by the
  double nearest to 1.8 leads to -14, not to the exact difference, and the segment,
  then at \<open>x + width = -10\<close>, is removed.
\<close>

lemma TerrainSegment_update_rounded:
  "TerrainSegment.x ex_drifted - binary64 (18 / 10) = - 14 + 3 / 2 ^ 52 \<and>
   TerrainSegment.x (TerrainSegment_update (binary64 (18 / 10)) ex_drifted) = - 14 \<and>
   segments (TerrainGenerator_update (binary64 (18 / 10)) wd
               (ex_terrain\<lparr>segments := [ex_drifted]\<rparr>)) = []"
proof -
  have a: "binary64 (- (122 / 10)) = - (3433994715870003 / 281474976710656)"
    by (simp add: binary64_eval)
  have b: "binary64 (18 / 10) = 8106479329266893 / 4503599627370496"
    by (simp add: binary64_eval)
  have c: "binary64 (- (3433994715870003 / 281474976710656) -
                     8106479329266893 / 4503599627370496) = - 14"
    by (simp add: binary64_eval)
  have d: "js_sub (TerrainSegment.x ex_drifted) (binary64 (18 / 10)) = - 14"
    unfolding js_sub_def ex_drifted_def using c by (simp only: a b TerrainSegment.simps)
  have w: "TerrainSegment.width ex_drifted = 4"
    by (simp add: ex_drifted_def)
  have e: "js_add (- 14) 4 = - 10"
    by (simp add: js_add_def binary64_literals)
  have "TerrainSegment.x ex_drifted - binary64 (18 / 10) = - 14 + 3 / 2 ^ 52"
    unfolding ex_drifted_def by (simp only: a b TerrainSegment.simps) simp
  moreover have "TerrainSegment.x (TerrainSegment_update (binary64 (18 / 10)) ex_drifted) = - 14"
    using d by (simp add: TerrainSegment_update_def)
  moreover have "segments (TerrainGenerator_update (binary64 (18 / 10)) wd
               (ex_terrain\<lparr>segments := [ex_drifted]\<rparr>)) = []"
    using d e w by (simp add: TerrainGenerator_update_def TerrainSegment_update_def Let_def
                      ex_terrain_def)
  ultimately show ?thesis by blast
qed

subsection \<open>Stage lookup\<close>

text \<open>
  C8 (stage-index clamping), as the code has it. \<open>getStage\<close> clamps the index from
  above only. For every integer index that is not negative it returns the stage of the
  table at \<open>min(index, 4)\<close>, hence the final stage for every index from 5 up; for a
  negative index it reads the table outside its range and returns \<open>undefined\<close>.
\<close>

theorem getStage_clamped:
  "(0 \<le> i \<longrightarrow> getStage i = Some (STAGES ! nat (min i (getTotalStages - 1))) \<and>
               nat (min i (getTotalStages - 1)) < List.length STAGES) \<and>
   (getTotalStages \<le> i \<longrightarrow> getStage i = Some (last STAGES)) \<and>
   (i < 0 \<longrightarrow> getStage i = None)"
  by (auto simp: getStage_def getTotalStages_def js_index_def STAGES_def min_def)

theorem getStage_clamped_witness:
  "(0::int) \<le> 2 \<and> getStage 2 = Some (STAGES ! 2) \<and>
   getTotalStages \<le> 7 \<and> getStage 7 = Some (last STAGES) \<and>
   (- 3 :: int) < 0 \<and> getStage (- 3) = None"
  using getStage_clamped [of 2] getStage_clamped [of 7] getStage_clamped [of "- 3"]
  by (simp add: getTotalStages_def STAGES_def)

text \<open>The claim C8 as stated fails at a negative index: no stage record is returned.\<close>

theorem getStage_negative_counterexample: "getStage (- 1) = None"
  by (simp add: getStage_def js_index_def STAGES_def)

subsection \<open>Spawning\<close>

text \<open>No stage of the table names anything but keys of the two type tables.\<close>

lemma STAGES_names_own:
  "list_all (\<lambda>st. list_all (\<lambda>n. map_of ENEMY_TYPES n \<noteq> None) (enemyTypes st) \<and>
                   list_all (\<lambda>n. map_of GROUND_TARGET_TYPES n \<noteq> None) (groundTargetTypes st))
     STAGES"
  by (simp add: STAGES_def ENEMY_TYPES_def GROUND_TARGET_TYPES_def)

text \<open>
  C6 (narrow-corridor spawn skip). \<open>spawnEnemy\<close> draws the type with the first random
  number (\<open>r 0\<close>) and, when it spawns, the height with the second (\<open>r 1\<close>, a double in
  the interval from 0 to 1, 1 excluded, as \<open>Math.random()\<close> returns). It has no error
  result. For a selected type of the table \<open>ENEMY_TYPES\<close>, with \<open>minY\<close> the safe zone's
  top plus 10 and \<open>maxY\<close> the safe zone's bottom minus the type's height minus 10, all
  as JavaScript computes them (rounded sums and differences): if \<open>maxY\<close> is not greater
  than \<open>minY\<close> nothing is spawned; otherwise an enemy is spawned whose \<open>y\<close>, the rounded
  value of \<open>minY + r * (maxY - minY)\<close>, lies between \<open>minY\<close> and \<open>maxY\<close> and whose \<open>x\<close>
  is the canvas width plus 50. A name that is no property of the table spawns
  nothing. A name that the table inherits from \<open>Object.prototype\<close> (such as
  \<open>constructor\<close>) is not an enemy type, and no stage of the game lists one; for such a
  name the code builds the malformed object described with \<open>spawnEnemy\<close>.
\<close>

theorem spawnEnemy_corridor:
  "0 \<le> r 1 \<Longrightarrow> r 1 < 1 \<Longrightarrow> is_double (r 1) \<Longrightarrow>
   (case lookupType ENEMY_TYPES (pickType (enemyTypes (SpawnManager.config sm)) (r 0)) of
      Undefined \<Rightarrow> fst (spawnEnemy sm tg r) = Null
    | Inherited ty \<Rightarrow> fst (spawnEnemy sm tg r) = Malformed ty
    | Own ty cfg \<Rightarrow>
        (let sz = getSafeZone tg; minY = js_add (top sz) 10;
             maxY = js_sub (js_sub (bottom sz) (EnemyConfig.height cfg)) 10
         in (\<not> maxY > minY \<longrightarrow> fst (spawnEnemy sm tg r) = Null) \<and>
            (maxY > minY \<longrightarrow>
               (\<exists>e. fst (spawnEnemy sm tg r) = Spawned e \<and>
                    minY \<le> Entity.y e \<and> Entity.y e \<le> maxY \<and>
                    Entity.x e = js_add (SpawnManager.canvasWidth sm) 50))))"
proof -
  assume r1: "0 \<le> r 1" "r 1 < 1" "is_double (r 1)"
  let ?sel = "lookupType ENEMY_TYPES (pickType (enemyTypes (SpawnManager.config sm)) (r 0))"
  show ?thesis
  proof (cases ?sel)
    case Undefined
    then show ?thesis
      by (simp add: spawnEnemy_def Let_def split_def Math_random_def)
  next
    case (Inherited ty)
    then show ?thesis
      by (simp add: spawnEnemy_def Let_def split_def Math_random_def)
  next
    case (Own ty cfg)
    define lo where "lo = js_add (top (getSafeZone tg)) 10"
    define hi where "hi = js_sub (js_sub (bottom (getSafeZone tg)) (EnemyConfig.height cfg)) 10"
    have dbl: "is_double lo" "is_double hi"
      by (simp_all add: lo_def hi_def js_add_def js_sub_def is_double_binary64)
    have narrow: "fst (spawnEnemy sm tg r) = Null" if "\<not> hi > lo"
      using that Own
      by (simp add: spawnEnemy_def Let_def split_def Math_random_def lo_def hi_def)
    have wide: "\<exists>e. fst (spawnEnemy sm tg r) = Spawned e \<and> lo \<le> Entity.y e \<and> Entity.y e \<le> hi \<and>
                  Entity.x e = js_add (SpawnManager.canvasWidth sm) 50" if "hi > lo"
    proof -
      have r53: "r 1 \<le> 1 - 2 powi (- 53)"
        using r1(3,2) by (rule double_below_one)
      have b: "lo \<le> js_add lo (js_mul (r 1) (js_sub hi lo))"
              "js_add lo (js_mul (r 1) (js_sub hi lo)) \<le> hi"
        unfolding js_add_def js_mul_def js_sub_def
        using js_lerp_bounds [OF dbl that r1(1) r53] by simp_all
      have "fst (spawnEnemy sm tg r) =
          Spawned (fst (new_Enemy (js_add (SpawnManager.canvasWidth sm) 50)
                          (js_add lo (js_mul (r 1) (js_sub hi lo))) ty cfg
                          (\<lambda>n. r (Suc (Suc n)))))"
        using that Own
        by (simp add: spawnEnemy_def Let_def split_def Math_random_def lo_def hi_def)
      with b show ?thesis
        by (simp add: new_Enemy_def split_def Let_def)
    qed
    show ?thesis
      using narrow wide Own by (simp add: Let_def lo_def hi_def)
  qed
qed

theorem spawnEnemy_corridor_witness:
  "(0::real) \<le> 1 / 2 \<and> (1 / 2 :: real) < 1 \<and> is_double (1 / 2) \<and>
   lookupType ENEMY_TYPES (pickType (enemyTypes (SpawnManager.config ex_spawn)) (1 / 2)) =
     Own ''rocket'' ex_rocket \<and>
   \<not> (js_sub (js_sub (bottom (getSafeZone ex_narrow)) (EnemyConfig.height ex_rocket)) 10
        > js_add (top (getSafeZone ex_narrow)) 10) \<and>
   fst (spawnEnemy ex_spawn ex_narrow (\<lambda>n. 1 / 2)) = Null \<and>
   js_add (top (getSafeZone ex_terrain)) 10 = 60 \<and>
   js_sub (js_sub (bottom (getSafeZone ex_terrain)) (EnemyConfig.height ex_rocket)) 10 = 488 \<and>
   (\<exists>e. fst (spawnEnemy ex_spawn ex_terrain (\<lambda>n. 1 / 2)) = Spawned e \<and>
        60 \<le> Entity.y e \<and> Entity.y e \<le> 488 \<and> Entity.x e = 850) \<and>
   fst (spawnEnemy (ex_spawn\<lparr>SpawnManager.config := (STAGES ! 0)\<lparr>enemyTypes := [''laser'']\<rparr>\<rparr>)
          ex_terrain (\<lambda>n. 1 / 2)) = Null \<and>
   fst (spawnEnemy
          (ex_spawn\<lparr>SpawnManager.config := (STAGES ! 0)\<lparr>enemyTypes := [''constructor'']\<rparr>\<rparr>)
          ex_terrain (\<lambda>n. 1 / 2)) = Malformed ''constructor''"
  using spawnEnemy_corridor [of "\<lambda>n. 1 / 2" ex_spawn ex_narrow]
        spawnEnemy_corridor [of "\<lambda>n. 1 / 2" ex_spawn ex_terrain]
        spawnEnemy_corridor [of "\<lambda>n. 1 / 2"
          "ex_spawn\<lparr>SpawnManager.config := (STAGES ! 0)\<lparr>enemyTypes := [''laser'']\<rparr>\<rparr>" ex_terrain]
        spawnEnemy_corridor [of "\<lambda>n. 1 / 2"
          "ex_spawn\<lparr>SpawnManager.config := (STAGES ! 0)\<lparr>enemyTypes := [''constructor'']\<rparr>\<rparr>"
          ex_terrain]
  by (simp add: ex_spawn_def ex_narrow_def ex_terrain_def ex_rocket_def new_SpawnManager_def
        STAGES_def ENEMY_TYPES_def lookupType_def pickType_def js_index_def getSafeZone_def
        Object_prototype_def js_add_def js_sub_def js_mul_def js_div_def binary64_literals
        is_double_literals)

text \<open>
  The margins are rounded sums: with a safe zone from \<open>250 - 2 powi - 45\<close> to 282 the
  upper margin \<open>minY\<close> is rounded to 260, which is \<open>maxY\<close> for a rocket, and nothing is
  spawned.
\<close>

lemma spawnEnemy_rounded_margin:
  "top (getSafeZone ex_margin) = 250 - 1 / 2 ^ 45 \<and> bottom (getSafeZone ex_margin) = 282 \<and>
   js_add (250 - 1 / 2 ^ 45) 10 = 260 \<and>
   fst (spawnEnemy ex_spawn ex_margin (\<lambda>n. 1 / 2)) = Null"
proof -
  have z: "getSafeZone ex_margin = \<lparr>top = 250 - 1 / 2 ^ 45, bottom = 282\<rparr>"
    by (simp add: getSafeZone_def ex_margin_def ex_terrain_def js_sub_def binary64_literals)
  have m: "js_add (250 - 1 / 2 ^ 45) 10 = 260"
    by (simp add: js_add_def binary64_eval)
  have t: "lookupType ENEMY_TYPES (pickType (enemyTypes (SpawnManager.config ex_spawn)) (1 / 2)) =
           Own ''rocket'' ex_rocket"
    by (simp add: ex_spawn_def new_SpawnManager_def STAGES_def ENEMY_TYPES_def lookupType_def
          pickType_def js_index_def js_mul_def binary64_literals ex_rocket_def)
  have h: "EnemyConfig.height ex_rocket = 12"
    by (simp add: ex_rocket_def ENEMY_TYPES_def)
  have x: "js_sub (js_sub 282 12) 10 = 260"
    by (simp add: js_sub_def binary64_literals)
  have "js_add (top (getSafeZone ex_margin)) 10 = 260"
    unfolding z by (simp only: ZoneBounds.simps m)
  moreover have "js_sub (js_sub (bottom (getSafeZone ex_margin)) (EnemyConfig.height ex_rocket)) 10
                 = 260"
    unfolding z h by (simp only: ZoneBounds.simps x)
  ultimately have "fst (spawnEnemy ex_spawn ex_margin (\<lambda>n. 1 / 2)) = Null"
    using t by (simp add: spawnEnemy_def Let_def split_def Math_random_def)
  with z m show ?thesis by simp
qed
subsection \<open>The fuel line\<close>

lemma drainFuel_nonneg: "0 \<le> drainFuel rate f"
  by (simp add: drainFuel_def Let_def)

lemma drainFuel_empty: "f \<le> rate \<Longrightarrow> drainFuel rate f = 0"
  using binary64_nonpos [of "f - rate"] by (simp add: drainFuel_def Let_def js_sub_def)


subsection \<open>Frame lemmas: what each step of a frame leaves alone\<close>

lemma pushExplosion_alt:
  "pushExplosion px py c n g =
     g\<lparr>particles := particles g @ fst (createExplosion px py c n (random g)),
       random := snd (createExplosion px py c n (random g))\<rparr>"
  by (simp add: pushExplosion_def split_def Let_def)

lemma setState_alt:
  "setState st g =
     g\<lparr>state := st,
       stateTimer := (if st = STAGE_TRANSITION then 120 else 0),
       bestScore := (if (st = GAME_OVER \<or> st = VICTORY) \<and> score g > bestScore g
                     then score g else bestScore g)\<rparr>"
  by (cases st) (simp_all add: setState_def onStateEnter_def saveBestScore_def)


lemma pushExplosion_keeps [simp]:
  "canvas_width (pushExplosion px py c n g) = canvas_width g \<and>
   canvas_height (pushExplosion px py c n g) = canvas_height g \<and>
   state (pushExplosion px py c n g) = state g \<and>
   stateTimer (pushExplosion px py c n g) = stateTimer g \<and>
   player (pushExplosion px py c n g) = player g \<and>
   enemies (pushExplosion px py c n g) = enemies g \<and>
   groundTargets (pushExplosion px py c n g) = groundTargets g \<and>
   bullets (pushExplosion px py c n g) = bullets g \<and>
   bombs (pushExplosion px py c n g) = bombs g \<and>
   terrain (pushExplosion px py c n g) = terrain g \<and>
   spawnManager (pushExplosion px py c n g) = spawnManager g \<and>
   score (pushExplosion px py c n g) = score g \<and>
   bestScore (pushExplosion px py c n g) = bestScore g \<and>
   currentStage (pushExplosion px py c n g) = currentStage g \<and>
   distance (pushExplosion px py c n g) = distance g \<and>
   Game.scrollSpeed (pushExplosion px py c n g) = Game.scrollSpeed g \<and>
   input (pushExplosion px py c n g) = input g"
  by (simp add: pushExplosion_alt)

lemma setState_keeps [simp]:
  "canvas_width (setState st g) = canvas_width g \<and>
   canvas_height (setState st g) = canvas_height g \<and>
   player (setState st g) = player g \<and>
   enemies (setState st g) = enemies g \<and>
   groundTargets (setState st g) = groundTargets g \<and>
   bullets (setState st g) = bullets g \<and>
   bombs (setState st g) = bombs g \<and>
   particles (setState st g) = particles g \<and>
   terrain (setState st g) = terrain g \<and>
   spawnManager (setState st g) = spawnManager g \<and>
   score (setState st g) = score g \<and>
   currentStage (setState st g) = currentStage g \<and>
   distance (setState st g) = distance g \<and>
   Game.scrollSpeed (setState st g) = Game.scrollSpeed g \<and>
   input (setState st g) = input g \<and>
   random (setState st g) = random g"
  by (simp add: setState_alt)

lemma addScore_keeps [simp]:
  "canvas_width (addScore pts g) = canvas_width g \<and>
   canvas_height (addScore pts g) = canvas_height g \<and>
   state (addScore pts g) = state g \<and>
   stateTimer (addScore pts g) = stateTimer g \<and>
   player (addScore pts g) = player g \<and>
   enemies (addScore pts g) = enemies g \<and>
   groundTargets (addScore pts g) = groundTargets g \<and>
   bullets (addScore pts g) = bullets g \<and>
   bombs (addScore pts g) = bombs g \<and>
   particles (addScore pts g) = particles g \<and>
   terrain (addScore pts g) = terrain g \<and>
   spawnManager (addScore pts g) = spawnManager g \<and>
   bestScore (addScore pts g) = bestScore g \<and>
   currentStage (addScore pts g) = currentStage g \<and>
   distance (addScore pts g) = distance g \<and>
   Game.scrollSpeed (addScore pts g) = Game.scrollSpeed g \<and>
   input (addScore pts g) = input g \<and>
   random (addScore pts g) = random g"
  by (simp add: addScore_def)


lemma playerHit_alt:
  "playerHit g =
     (if isInvincible (player g) then g
      else let p1 = (player g)\<lparr>lives := lives (player g) - 1, isInvincible := True,
                                invincibleTimer := invincibleDuration (player g)\<rparr>;
               g2 = pushExplosion (getCenterX p1) (getCenterY p1) ''#ff8c00'' 15 (g\<lparr>player := p1\<rparr>)
           in if lives p1 \<le> 0 then setState GAME_OVER g2 else g2)"
  by (simp add: playerHit_def Player_hit_def Let_def)

lemma destroyTarget_alt:
  "destroyTarget t n g =
     (let g2 = pushExplosion (getCenterX t) (getCenterY t) (GroundTarget.color t) n
                 (g\<lparr>score := score g + GroundTarget.points t\<rparr>)
      in if GroundTarget.givesFuel t
         then g2\<lparr>player := (player g)\<lparr>fuel := min (maxFuel (player g))
                                 (js_add (fuel (player g)) (GroundTarget.fuelAmount t))\<rparr>\<rparr>
         else g2)"
  by (simp add: destroyTarget_def addScore_def addFuel_def Let_def pushExplosion_alt)

lemma playerHit_keeps [simp]:
  "canvas_width (playerHit g) = canvas_width g \<and>
   canvas_height (playerHit g) = canvas_height g \<and>
   enemies (playerHit g) = enemies g \<and>
   groundTargets (playerHit g) = groundTargets g \<and>
   bullets (playerHit g) = bullets g \<and>
   bombs (playerHit g) = bombs g \<and>
   terrain (playerHit g) = terrain g \<and>
   spawnManager (playerHit g) = spawnManager g \<and>
   score (playerHit g) = score g \<and>
   currentStage (playerHit g) = currentStage g \<and>
   distance (playerHit g) = distance g \<and>
   Game.scrollSpeed (playerHit g) = Game.scrollSpeed g \<and>
   input (playerHit g) = input g"
  by (simp add: playerHit_alt Let_def)

lemma destroyTarget_keeps [simp]:
  "canvas_width (destroyTarget t n g) = canvas_width g \<and>
   canvas_height (destroyTarget t n g) = canvas_height g \<and>
   state (destroyTarget t n g) = state g \<and>
   stateTimer (destroyTarget t n g) = stateTimer g \<and>
   enemies (destroyTarget t n g) = enemies g \<and>
   groundTargets (destroyTarget t n g) = groundTargets g \<and>
   bullets (destroyTarget t n g) = bullets g \<and>
   bombs (destroyTarget t n g) = bombs g \<and>
   terrain (destroyTarget t n g) = terrain g \<and>
   spawnManager (destroyTarget t n g) = spawnManager g \<and>
   bestScore (destroyTarget t n g) = bestScore g \<and>
   currentStage (destroyTarget t n g) = currentStage g \<and>
   distance (destroyTarget t n g) = distance g \<and>
   Game.scrollSpeed (destroyTarget t n g) = Game.scrollSpeed g \<and>
   input (destroyTarget t n g) = input g"
  by (simp add: destroyTarget_alt Let_def)


text \<open>The player after a hit: only lives and the invincibility change.\<close>

lemma playerHit_player:
  "player (playerHit g) =
     (if isInvincible (player g) then player g
      else (player g)\<lparr>lives := lives (player g) - 1, isInvincible := True,
                        invincibleTimer := invincibleDuration (player g)\<rparr>)"
  by (simp add: playerHit_alt Let_def)


lemma bulletVsEnemies_keeps:
  "canvas_width (snd (snd (bulletVsEnemies b es g))) = canvas_width g \<and>
   canvas_height (snd (snd (bulletVsEnemies b es g))) = canvas_height g \<and>
   state (snd (snd (bulletVsEnemies b es g))) = state g \<and>
   stateTimer (snd (snd (bulletVsEnemies b es g))) = stateTimer g \<and>
   player (snd (snd (bulletVsEnemies b es g))) = player g \<and>
   groundTargets (snd (snd (bulletVsEnemies b es g))) = groundTargets g \<and>
   bullets (snd (snd (bulletVsEnemies b es g))) = bullets g \<and>
   bombs (snd (snd (bulletVsEnemies b es g))) = bombs g \<and>
   terrain (snd (snd (bulletVsEnemies b es g))) = terrain g \<and>
   spawnManager (snd (snd (bulletVsEnemies b es g))) = spawnManager g \<and>
   bestScore (snd (snd (bulletVsEnemies b es g))) = bestScore g \<and>
   currentStage (snd (snd (bulletVsEnemies b es g))) = currentStage g \<and>
   distance (snd (snd (bulletVsEnemies b es g))) = distance g \<and>
   Game.scrollSpeed (snd (snd (bulletVsEnemies b es g))) = Game.scrollSpeed g \<and>
   input (snd (snd (bulletVsEnemies b es g))) = input g"
  by (induction es) (simp_all add: split_def Let_def)

lemma playerBulletsVsEnemies_keeps:
  "canvas_width (snd (playerBulletsVsEnemies bs g)) = canvas_width g \<and>
   canvas_height (snd (playerBulletsVsEnemies bs g)) = canvas_height g \<and>
   state (snd (playerBulletsVsEnemies bs g)) = state g \<and>
   stateTimer (snd (playerBulletsVsEnemies bs g)) = stateTimer g \<and>
   player (snd (playerBulletsVsEnemies bs g)) = player g \<and>
   groundTargets (snd (playerBulletsVsEnemies bs g)) = groundTargets g \<and>
   bullets (snd (playerBulletsVsEnemies bs g)) = bullets g \<and>
   bombs (snd (playerBulletsVsEnemies bs g)) = bombs g \<and>
   terrain (snd (playerBulletsVsEnemies bs g)) = terrain g \<and>
   spawnManager (snd (playerBulletsVsEnemies bs g)) = spawnManager g \<and>
   bestScore (snd (playerBulletsVsEnemies bs g)) = bestScore g \<and>
   currentStage (snd (playerBulletsVsEnemies bs g)) = currentStage g \<and>
   distance (snd (playerBulletsVsEnemies bs g)) = distance g \<and>
   Game.scrollSpeed (snd (playerBulletsVsEnemies bs g)) = Game.scrollSpeed g \<and>
   input (snd (playerBulletsVsEnemies bs g)) = input g"
  by (induction bs arbitrary: g) (simp_all add: split_def Let_def bulletVsEnemies_keeps)

lemma bombVsTargets_keeps:
  "canvas_width (snd (snd (bombVsTargets b ts g))) = canvas_width g \<and>
   canvas_height (snd (snd (bombVsTargets b ts g))) = canvas_height g \<and>
   state (snd (snd (bombVsTargets b ts g))) = state g \<and>
   stateTimer (snd (snd (bombVsTargets b ts g))) = stateTimer g \<and>
   enemies (snd (snd (bombVsTargets b ts g))) = enemies g \<and>
   bullets (snd (snd (bombVsTargets b ts g))) = bullets g \<and>
   bombs (snd (snd (bombVsTargets b ts g))) = bombs g \<and>
   terrain (snd (snd (bombVsTargets b ts g))) = terrain g \<and>
   spawnManager (snd (snd (bombVsTargets b ts g))) = spawnManager g \<and>
   bestScore (snd (snd (bombVsTargets b ts g))) = bestScore g \<and>
   currentStage (snd (snd (bombVsTargets b ts g))) = currentStage g \<and>
   distance (snd (snd (bombVsTargets b ts g))) = distance g \<and>
   Game.scrollSpeed (snd (snd (bombVsTargets b ts g))) = Game.scrollSpeed g \<and>
   input (snd (snd (bombVsTargets b ts g))) = input g"
  by (induction ts) (simp_all add: split_def Let_def)

lemma bombsVsTargets_keeps:
  "canvas_width (snd (bombsVsTargets bs g)) = canvas_width g \<and>
   canvas_height (snd (bombsVsTargets bs g)) = canvas_height g \<and>
   state (snd (bombsVsTargets bs g)) = state g \<and>
   stateTimer (snd (bombsVsTargets bs g)) = stateTimer g \<and>
   enemies (snd (bombsVsTargets bs g)) = enemies g \<and>
   bullets (snd (bombsVsTargets bs g)) = bullets g \<and>
   bombs (snd (bombsVsTargets bs g)) = bombs g \<and>
   terrain (snd (bombsVsTargets bs g)) = terrain g \<and>
   spawnManager (snd (bombsVsTargets bs g)) = spawnManager g \<and>
   bestScore (snd (bombsVsTargets bs g)) = bestScore g \<and>
   currentStage (snd (bombsVsTargets bs g)) = currentStage g \<and>
   distance (snd (bombsVsTargets bs g)) = distance g \<and>
   Game.scrollSpeed (snd (bombsVsTargets bs g)) = Game.scrollSpeed g \<and>
   input (snd (bombsVsTargets bs g)) = input g"
  by (induction bs arbitrary: g) (simp_all add: split_def Let_def bombVsTargets_keeps)

lemma bulletVsTargets_keeps:
  "canvas_width (snd (snd (bulletVsTargets b ts g))) = canvas_width g \<and>
   canvas_height (snd (snd (bulletVsTargets b ts g))) = canvas_height g \<and>
   state (snd (snd (bulletVsTargets b ts g))) = state g \<and>
   stateTimer (snd (snd (bulletVsTargets b ts g))) = stateTimer g \<and>
   enemies (snd (snd (bulletVsTargets b ts g))) = enemies g \<and>
   bullets (snd (snd (bulletVsTargets b ts g))) = bullets g \<and>
   bombs (snd (snd (bulletVsTargets b ts g))) = bombs g \<and>
   terrain (snd (snd (bulletVsTargets b ts g))) = terrain g \<and>
   spawnManager (snd (snd (bulletVsTargets b ts g))) = spawnManager g \<and>
   bestScore (snd (snd (bulletVsTargets b ts g))) = bestScore g \<and>
   currentStage (snd (snd (bulletVsTargets b ts g))) = currentStage g \<and>
   distance (snd (snd (bulletVsTargets b ts g))) = distance g \<and>
   Game.scrollSpeed (snd (snd (bulletVsTargets b ts g))) = Game.scrollSpeed g \<and>
   input (snd (snd (bulletVsTargets b ts g))) = input g"
  by (induction ts) (simp_all add: split_def Let_def)

lemma playerBulletsVsTargets_keeps:
  "canvas_width (snd (playerBulletsVsTargets bs g)) = canvas_width g \<and>
   canvas_height (snd (playerBulletsVsTargets bs g)) = canvas_height g \<and>
   state (snd (playerBulletsVsTargets bs g)) = state g \<and>
   stateTimer (snd (playerBulletsVsTargets bs g)) = stateTimer g \<and>
   enemies (snd (playerBulletsVsTargets bs g)) = enemies g \<and>
   bullets (snd (playerBulletsVsTargets bs g)) = bullets g \<and>
   bombs (snd (playerBulletsVsTargets bs g)) = bombs g \<and>
   terrain (snd (playerBulletsVsTargets bs g)) = terrain g \<and>
   spawnManager (snd (playerBulletsVsTargets bs g)) = spawnManager g \<and>
   bestScore (snd (playerBulletsVsTargets bs g)) = bestScore g \<and>
   currentStage (snd (playerBulletsVsTargets bs g)) = currentStage g \<and>
   distance (snd (playerBulletsVsTargets bs g)) = distance g \<and>
   Game.scrollSpeed (snd (playerBulletsVsTargets bs g)) = Game.scrollSpeed g \<and>
   input (snd (playerBulletsVsTargets bs g)) = input g"
  by (induction bs arbitrary: g) (simp_all add: split_def Let_def bulletVsTargets_keeps)

lemma enemyBulletsVsPlayer_keeps:
  "canvas_width (snd (enemyBulletsVsPlayer bs g)) = canvas_width g \<and>
   canvas_height (snd (enemyBulletsVsPlayer bs g)) = canvas_height g \<and>
   enemies (snd (enemyBulletsVsPlayer bs g)) = enemies g \<and>
   groundTargets (snd (enemyBulletsVsPlayer bs g)) = groundTargets g \<and>
   bullets (snd (enemyBulletsVsPlayer bs g)) = bullets g \<and>
   bombs (snd (enemyBulletsVsPlayer bs g)) = bombs g \<and>
   terrain (snd (enemyBulletsVsPlayer bs g)) = terrain g \<and>
   spawnManager (snd (enemyBulletsVsPlayer bs g)) = spawnManager g \<and>
   score (snd (enemyBulletsVsPlayer bs g)) = score g \<and>
   currentStage (snd (enemyBulletsVsPlayer bs g)) = currentStage g \<and>
   distance (snd (enemyBulletsVsPlayer bs g)) = distance g \<and>
   Game.scrollSpeed (snd (enemyBulletsVsPlayer bs g)) = Game.scrollSpeed g \<and>
   input (snd (enemyBulletsVsPlayer bs g)) = input g"
  by (induction bs) (simp_all add: split_def Let_def)

lemma playerVsEnemies_keeps:
  "canvas_width (snd (playerVsEnemies es g)) = canvas_width g \<and>
   canvas_height (snd (playerVsEnemies es g)) = canvas_height g \<and>
   enemies (snd (playerVsEnemies es g)) = enemies g \<and>
   groundTargets (snd (playerVsEnemies es g)) = groundTargets g \<and>
   bullets (snd (playerVsEnemies es g)) = bullets g \<and>
   bombs (snd (playerVsEnemies es g)) = bombs g \<and>
   terrain (snd (playerVsEnemies es g)) = terrain g \<and>
   spawnManager (snd (playerVsEnemies es g)) = spawnManager g \<and>
   score (snd (playerVsEnemies es g)) = score g \<and>
   currentStage (snd (playerVsEnemies es g)) = currentStage g \<and>
   distance (snd (playerVsEnemies es g)) = distance g \<and>
   Game.scrollSpeed (snd (playerVsEnemies es g)) = Game.scrollSpeed g \<and>
   input (snd (playerVsEnemies es g)) = input g"
  by (induction es) (simp_all add: split_def Let_def)

lemma onlyFuel_refl [simp]: "onlyFuel p p"
  by (simp add: onlyFuel_def)

lemma onlyFuel_trans: "onlyFuel p0 p1 \<Longrightarrow> onlyFuel p1 p2 \<Longrightarrow> onlyFuel p0 p2"
  unfolding onlyFuel_def
proof -
  assume a: "p1 = p0\<lparr>fuel := fuel p1\<rparr>" and b: "p2 = p1\<lparr>fuel := fuel p2\<rparr>"
  have "p2 = (p0\<lparr>fuel := fuel p1\<rparr>)\<lparr>fuel := fuel p2\<rparr>"
    by (subst b, subst a) (rule refl)
  then show "p2 = p0\<lparr>fuel := fuel p2\<rparr>" by simp
qed

lemma onlyFuel_destroyTarget: "onlyFuel (player g) (player (destroyTarget t n g))"
  by (simp add: onlyFuel_def destroyTarget_alt Let_def)

lemma bombVsTargets_player:
  "onlyFuel (player g) (player (snd (snd (bombVsTargets b ts g))))"
  by (induction ts) (simp_all add: split_def Let_def onlyFuel_destroyTarget)

lemma bulletVsTargets_player:
  "onlyFuel (player g) (player (snd (snd (bulletVsTargets b ts g))))"
  by (induction ts) (simp_all add: split_def Let_def onlyFuel_destroyTarget)

lemma bombsVsTargets_player:
  "onlyFuel (player g) (player (snd (bombsVsTargets bs g)))"
proof (induction bs arbitrary: g)
  case Nil
  show ?case by simp
next
  case (Cons b bs)
  show ?case
  proof (cases "Entity.active b")
    case False
    with Cons show ?thesis by (simp add: split_def Let_def)
  next
    case True
    let ?r = "bombVsTargets b (groundTargets g) g"
    let ?g1 = "(snd (snd ?r))\<lparr>groundTargets := fst (snd ?r)\<rparr>"
    have "onlyFuel (player g) (player ?g1)"
      using bombVsTargets_player [of g b "groundTargets g"] by simp
    moreover have "onlyFuel (player ?g1) (player (snd (bombsVsTargets bs ?g1)))"
      by (rule Cons.IH)
    ultimately have "onlyFuel (player g) (player (snd (bombsVsTargets bs ?g1)))"
      by (rule onlyFuel_trans)
    with True show ?thesis by (simp add: split_def Let_def)
  qed
qed

lemma playerBulletsVsTargets_player:
  "onlyFuel (player g) (player (snd (playerBulletsVsTargets bs g)))"
proof (induction bs arbitrary: g)
  case Nil
  show ?case by simp
next
  case (Cons b bs)
  show ?case
  proof (cases "\<not> isPlayerBullet b \<or> \<not> Entity.active b")
    case True
    with Cons show ?thesis by (simp add: split_def Let_def)
  next
    case False
    let ?r = "bulletVsTargets b (groundTargets g) g"
    let ?g1 = "(snd (snd ?r))\<lparr>groundTargets := fst (snd ?r)\<rparr>"
    have "onlyFuel (player g) (player ?g1)"
      using bulletVsTargets_player [of g b "groundTargets g"] by simp
    moreover have "onlyFuel (player ?g1) (player (snd (playerBulletsVsTargets bs ?g1)))"
      by (rule Cons.IH)
    ultimately have "onlyFuel (player g) (player (snd (playerBulletsVsTargets bs ?g1)))"
      by (rule onlyFuel_trans)
    with False show ?thesis by (simp add: split_def Let_def)
  qed
qed

lemma hitOrNot_refl [simp]: "hitOrNot p p"
  by (simp add: hitOrNot_def)

lemma hitOrNot_playerHit: "hitOrNot (player g) (player (playerHit g))"
  by (simp add: hitOrNot_def playerHit_player)

lemma hitOrNot_trans: "hitOrNot p p' \<Longrightarrow> hitOrNot p' p'' \<Longrightarrow> hitOrNot p p''"
  by (auto simp: hitOrNot_def)

lemma enemyBulletsVsPlayer_player:
  "hitOrNot (player g) (player (snd (enemyBulletsVsPlayer bs g)))"
  by (induction bs) (simp_all add: split_def Let_def hitOrNot_playerHit)

lemma playerVsEnemies_player:
  "hitOrNot (player g) (player (snd (playerVsEnemies es g)))"
proof (induction es)
  case Nil
  show ?case by simp
next
  case (Cons e es)
  have "hitOrNot (player g)
          (player (playerHit (pushExplosion (getCenterX e) (getCenterY e) (Enemy.color e) 10 g)))"
    using hitOrNot_playerHit
            [of "pushExplosion (getCenterX e) (getCenterY e) (Enemy.color e) 10 g"]
    by simp
  with Cons show ?case by (simp add: split_def Let_def)
qed

text \<open>The state machine after a combat hit: as before, or \<open>GAME_OVER\<close>.\<close>

lemma playerHit_state:
  "state (playerHit g) = (if \<not> isInvincible (player g) \<and> lives (player g) \<le> 1 then GAME_OVER else state g)"
  by (simp add: playerHit_alt Let_def setState_alt pushExplosion_alt)

lemma enemyBulletsVsPlayer_state:
  "state (snd (enemyBulletsVsPlayer bs g)) = state g \<or>
   (\<not> isInvincible (player g) \<and> state (snd (enemyBulletsVsPlayer bs g)) = GAME_OVER)"
  by (induction bs) (simp_all add: split_def Let_def playerHit_state)

lemma playerVsEnemies_state:
  "state (snd (playerVsEnemies es g)) = state g \<or>
   (\<not> isInvincible (player g) \<and> state (snd (playerVsEnemies es g)) = GAME_OVER)"
  by (induction es) (simp_all add: split_def Let_def playerHit_state)

lemma collideBulletsEnemies_keeps [simp]:
  "canvas_width (collideBulletsEnemies g) = canvas_width g \<and>
   canvas_height (collideBulletsEnemies g) = canvas_height g \<and>
   state (collideBulletsEnemies g) = state g \<and>
   stateTimer (collideBulletsEnemies g) = stateTimer g \<and>
   player (collideBulletsEnemies g) = player g \<and>
   groundTargets (collideBulletsEnemies g) = groundTargets g \<and>
   bombs (collideBulletsEnemies g) = bombs g \<and>
   terrain (collideBulletsEnemies g) = terrain g \<and>
   spawnManager (collideBulletsEnemies g) = spawnManager g \<and>
   bestScore (collideBulletsEnemies g) = bestScore g \<and>
   currentStage (collideBulletsEnemies g) = currentStage g \<and>
   distance (collideBulletsEnemies g) = distance g \<and>
   Game.scrollSpeed (collideBulletsEnemies g) = Game.scrollSpeed g \<and>
   input (collideBulletsEnemies g) = input g"
  by (simp add: collideBulletsEnemies_def split_def Let_def playerBulletsVsEnemies_keeps)

lemma collideBombsTargets_keeps [simp]:
  "canvas_width (collideBombsTargets g) = canvas_width g \<and>
   canvas_height (collideBombsTargets g) = canvas_height g \<and>
   state (collideBombsTargets g) = state g \<and>
   stateTimer (collideBombsTargets g) = stateTimer g \<and>
   enemies (collideBombsTargets g) = enemies g \<and>
   bullets (collideBombsTargets g) = bullets g \<and>
   terrain (collideBombsTargets g) = terrain g \<and>
   spawnManager (collideBombsTargets g) = spawnManager g \<and>
   bestScore (collideBombsTargets g) = bestScore g \<and>
   currentStage (collideBombsTargets g) = currentStage g \<and>
   distance (collideBombsTargets g) = distance g \<and>
   Game.scrollSpeed (collideBombsTargets g) = Game.scrollSpeed g \<and>
   input (collideBombsTargets g) = input g"
  by (simp add: collideBombsTargets_def split_def Let_def bombsVsTargets_keeps)

lemma collideBulletsTargets_keeps [simp]:
  "canvas_width (collideBulletsTargets g) = canvas_width g \<and>
   canvas_height (collideBulletsTargets g) = canvas_height g \<and>
   state (collideBulletsTargets g) = state g \<and>
   stateTimer (collideBulletsTargets g) = stateTimer g \<and>
   enemies (collideBulletsTargets g) = enemies g \<and>
   bombs (collideBulletsTargets g) = bombs g \<and>
   terrain (collideBulletsTargets g) = terrain g \<and>
   spawnManager (collideBulletsTargets g) = spawnManager g \<and>
   bestScore (collideBulletsTargets g) = bestScore g \<and>
   currentStage (collideBulletsTargets g) = currentStage g \<and>
   distance (collideBulletsTargets g) = distance g \<and>
   Game.scrollSpeed (collideBulletsTargets g) = Game.scrollSpeed g \<and>
   input (collideBulletsTargets g) = input g"
  by (simp add: collideBulletsTargets_def split_def Let_def playerBulletsVsTargets_keeps)

lemma collideBulletsPlayer_keeps [simp]:
  "canvas_width (collideBulletsPlayer g) = canvas_width g \<and>
   canvas_height (collideBulletsPlayer g) = canvas_height g \<and>
   enemies (collideBulletsPlayer g) = enemies g \<and>
   groundTargets (collideBulletsPlayer g) = groundTargets g \<and>
   bombs (collideBulletsPlayer g) = bombs g \<and>
   terrain (collideBulletsPlayer g) = terrain g \<and>
   spawnManager (collideBulletsPlayer g) = spawnManager g \<and>
   score (collideBulletsPlayer g) = score g \<and>
   currentStage (collideBulletsPlayer g) = currentStage g \<and>
   distance (collideBulletsPlayer g) = distance g \<and>
   Game.scrollSpeed (collideBulletsPlayer g) = Game.scrollSpeed g \<and>
   input (collideBulletsPlayer g) = input g"
  by (simp add: collideBulletsPlayer_def split_def Let_def enemyBulletsVsPlayer_keeps)

lemma collidePlayerEnemies_keeps [simp]:
  "canvas_width (collidePlayerEnemies g) = canvas_width g \<and>
   canvas_height (collidePlayerEnemies g) = canvas_height g \<and>
   groundTargets (collidePlayerEnemies g) = groundTargets g \<and>
   bullets (collidePlayerEnemies g) = bullets g \<and>
   bombs (collidePlayerEnemies g) = bombs g \<and>
   terrain (collidePlayerEnemies g) = terrain g \<and>
   spawnManager (collidePlayerEnemies g) = spawnManager g \<and>
   score (collidePlayerEnemies g) = score g \<and>
   currentStage (collidePlayerEnemies g) = currentStage g \<and>
   distance (collidePlayerEnemies g) = distance g \<and>
   Game.scrollSpeed (collidePlayerEnemies g) = Game.scrollSpeed g \<and>
   input (collidePlayerEnemies g) = input g"
  by (simp add: collidePlayerEnemies_def split_def Let_def playerVsEnemies_keeps)

lemma checkCollisions_keeps [simp]:
  "canvas_width (checkCollisions g) = canvas_width g \<and>
   canvas_height (checkCollisions g) = canvas_height g \<and>
   terrain (checkCollisions g) = terrain g \<and>
   spawnManager (checkCollisions g) = spawnManager g \<and>
   currentStage (checkCollisions g) = currentStage g \<and>
   distance (checkCollisions g) = distance g \<and>
   Game.scrollSpeed (checkCollisions g) = Game.scrollSpeed g \<and>
   input (checkCollisions g) = input g"
  by (simp add: checkCollisions_def Let_def)


lemma onlyFuel_sel:
  assumes "onlyFuel p p'"
  shows "lives p' = lives p" "isInvincible p' = isInvincible p"
    "invincibleTimer p' = invincibleTimer p" "invincibleDuration p' = invincibleDuration p"
    "Entity.x p' = Entity.x p" "Entity.y p' = Entity.y p" "Entity.width p' = Entity.width p"
    "Entity.height p' = Entity.height p" "Entity.active p' = Entity.active p"
    "maxFuel p' = maxFuel p" "fuelDrainRate p' = fuelDrainRate p"
proof -
  from assms have e: "p' = p\<lparr>fuel := fuel p'\<rparr>" by (simp only: onlyFuel_def)
  show "lives p' = lives p" by (subst e) simp
  show "isInvincible p' = isInvincible p" by (subst e) simp
  show "invincibleTimer p' = invincibleTimer p" by (subst e) simp
  show "invincibleDuration p' = invincibleDuration p" by (subst e) simp
  show "Entity.x p' = Entity.x p" by (subst e) simp
  show "Entity.y p' = Entity.y p" by (subst e) simp
  show "Entity.width p' = Entity.width p" by (subst e) simp
  show "Entity.height p' = Entity.height p" by (subst e) simp
  show "Entity.active p' = Entity.active p" by (subst e) simp
  show "maxFuel p' = maxFuel p" by (subst e) simp
  show "fuelDrainRate p' = fuelDrainRate p" by (subst e) simp
qed

lemma hitOrNot_sel:
  assumes "hitOrNot p p'"
  shows "lives p' \<le> lives p" "lives p - 1 \<le> lives p'"
    "Entity.x p' = Entity.x p" "Entity.y p' = Entity.y p" "Entity.width p' = Entity.width p"
    "Entity.height p' = Entity.height p" "Entity.active p' = Entity.active p"
    "fuel p' = fuel p" "isInvincible p \<Longrightarrow> p' = p" "isInvincible p \<Longrightarrow> isInvincible p'"
  using assms by (auto simp: hitOrNot_def)

lemma collideBombsTargets_player: "onlyFuel (player g) (player (collideBombsTargets g))"
  using bombsVsTargets_player [of g "bombs g"] by (simp add: collideBombsTargets_def split_def Let_def)

lemma collideBulletsTargets_player: "onlyFuel (player g) (player (collideBulletsTargets g))"
  using playerBulletsVsTargets_player [of g "bullets g"]
  by (simp add: collideBulletsTargets_def split_def Let_def)

lemma collideBulletsPlayer_player: "hitOrNot (player g) (player (collideBulletsPlayer g))"
  using enemyBulletsVsPlayer_player [of g "bullets g"]
  by (simp add: collideBulletsPlayer_def split_def Let_def)

lemma collidePlayerEnemies_player: "hitOrNot (player g) (player (collidePlayerEnemies g))"
  using playerVsEnemies_player [of g "enemies g"]
  by (simp add: collidePlayerEnemies_def split_def Let_def)

lemma checkCollisions_player:
  "\<exists>p1 p2. onlyFuel (player g) p1 \<and> hitOrNot p1 p2 \<and> hitOrNot p2 (player (checkCollisions g))"
proof -
  define g1 where "g1 = collideBulletsEnemies g"
  define g2 where "g2 = collideBombsTargets g1"
  define g3 where "g3 = collideBulletsTargets g2"
  define g4 where "g4 = collideBulletsPlayer g3"
  have cc: "checkCollisions g = collidePlayerEnemies g4"
    by (simp add: checkCollisions_def Let_def g1_def g2_def g3_def g4_def)
  have p1: "player g1 = player g"
    by (simp add: g1_def)
  have p2: "onlyFuel (player g1) (player g2)"
    unfolding g2_def by (rule collideBombsTargets_player)
  have p3: "onlyFuel (player g2) (player g3)"
    unfolding g3_def by (rule collideBulletsTargets_player)
  have p4: "hitOrNot (player g3) (player g4)"
    unfolding g4_def by (rule collideBulletsPlayer_player)
  have p5: "hitOrNot (player g4) (player (checkCollisions g))"
    unfolding cc by (rule collidePlayerEnemies_player)
  from p2 p3 have "onlyFuel (player g) (player g3)"
    unfolding p1 by (rule onlyFuel_trans)
  with p4 p5 show ?thesis by blast
qed

lemma checkCollisions_lives: "lives (player (checkCollisions g)) \<le> lives (player g)"
proof -
  obtain p1 p2 where a: "onlyFuel (player g) p1" and b: "hitOrNot p1 p2"
      and c: "hitOrNot p2 (player (checkCollisions g))"
    using checkCollisions_player by blast
  have "lives (player (checkCollisions g)) \<le> lives p2" using c by (rule hitOrNot_sel)
  also have "\<dots> \<le> lives p1" using b by (rule hitOrNot_sel)
  also have "\<dots> = lives (player g)" using a by (rule onlyFuel_sel)
  finally show ?thesis .
qed

lemma updateEnemies_loop_keeps:
  "canvas_width (snd (updateEnemies_loop es g)) = canvas_width g \<and>
   canvas_height (snd (updateEnemies_loop es g)) = canvas_height g \<and>
   state (snd (updateEnemies_loop es g)) = state g \<and>
   stateTimer (snd (updateEnemies_loop es g)) = stateTimer g \<and>
   player (snd (updateEnemies_loop es g)) = player g \<and>
   enemies (snd (updateEnemies_loop es g)) = enemies g \<and>
   groundTargets (snd (updateEnemies_loop es g)) = groundTargets g \<and>
   bombs (snd (updateEnemies_loop es g)) = bombs g \<and>
   particles (snd (updateEnemies_loop es g)) = particles g \<and>
   terrain (snd (updateEnemies_loop es g)) = terrain g \<and>
   spawnManager (snd (updateEnemies_loop es g)) = spawnManager g \<and>
   score (snd (updateEnemies_loop es g)) = score g \<and>
   bestScore (snd (updateEnemies_loop es g)) = bestScore g \<and>
   currentStage (snd (updateEnemies_loop es g)) = currentStage g \<and>
   distance (snd (updateEnemies_loop es g)) = distance g \<and>
   Game.scrollSpeed (snd (updateEnemies_loop es g)) = Game.scrollSpeed g \<and>
   input (snd (updateEnemies_loop es g)) = input g"
  by (induction es arbitrary: g) (simp_all add: split_def Let_def)

lemma updateEnemies_keeps [simp]:
  "canvas_width (updateEnemies g) = canvas_width g \<and>
   canvas_height (updateEnemies g) = canvas_height g \<and>
   state (updateEnemies g) = state g \<and>
   stateTimer (updateEnemies g) = stateTimer g \<and>
   player (updateEnemies g) = player g \<and>
   groundTargets (updateEnemies g) = groundTargets g \<and>
   bombs (updateEnemies g) = bombs g \<and>
   particles (updateEnemies g) = particles g \<and>
   terrain (updateEnemies g) = terrain g \<and>
   spawnManager (updateEnemies g) = spawnManager g \<and>
   score (updateEnemies g) = score g \<and>
   bestScore (updateEnemies g) = bestScore g \<and>
   currentStage (updateEnemies g) = currentStage g \<and>
   distance (updateEnemies g) = distance g \<and>
   Game.scrollSpeed (updateEnemies g) = Game.scrollSpeed g \<and>
   input (updateEnemies g) = input g"
  by (simp add: updateEnemies_def split_def Let_def updateEnemies_loop_keeps)

lemma updateGroundTargets_loop_keeps:
  "canvas_width (snd (updateGroundTargets_loop ts g)) = canvas_width g \<and>
   canvas_height (snd (updateGroundTargets_loop ts g)) = canvas_height g \<and>
   state (snd (updateGroundTargets_loop ts g)) = state g \<and>
   stateTimer (snd (updateGroundTargets_loop ts g)) = stateTimer g \<and>
   player (snd (updateGroundTargets_loop ts g)) = player g \<and>
   enemies (snd (updateGroundTargets_loop ts g)) = enemies g \<and>
   groundTargets (snd (updateGroundTargets_loop ts g)) = groundTargets g \<and>
   bombs (snd (updateGroundTargets_loop ts g)) = bombs g \<and>
   particles (snd (updateGroundTargets_loop ts g)) = particles g \<and>
   terrain (snd (updateGroundTargets_loop ts g)) = terrain g \<and>
   spawnManager (snd (updateGroundTargets_loop ts g)) = spawnManager g \<and>
   score (snd (updateGroundTargets_loop ts g)) = score g \<and>
   bestScore (snd (updateGroundTargets_loop ts g)) = bestScore g \<and>
   currentStage (snd (updateGroundTargets_loop ts g)) = currentStage g \<and>
   distance (snd (updateGroundTargets_loop ts g)) = distance g \<and>
   Game.scrollSpeed (snd (updateGroundTargets_loop ts g)) = Game.scrollSpeed g \<and>
   input (snd (updateGroundTargets_loop ts g)) = input g"
  by (induction ts arbitrary: g) (simp_all add: split_def Let_def)

lemma updateGroundTargets_keeps [simp]:
  "canvas_width (updateGroundTargets g) = canvas_width g \<and>
   canvas_height (updateGroundTargets g) = canvas_height g \<and>
   state (updateGroundTargets g) = state g \<and>
   stateTimer (updateGroundTargets g) = stateTimer g \<and>
   player (updateGroundTargets g) = player g \<and>
   enemies (updateGroundTargets g) = enemies g \<and>
   bombs (updateGroundTargets g) = bombs g \<and>
   particles (updateGroundTargets g) = particles g \<and>
   terrain (updateGroundTargets g) = terrain g \<and>
   spawnManager (updateGroundTargets g) = spawnManager g \<and>
   score (updateGroundTargets g) = score g \<and>
   bestScore (updateGroundTargets g) = bestScore g \<and>
   currentStage (updateGroundTargets g) = currentStage g \<and>
   distance (updateGroundTargets g) = distance g \<and>
   Game.scrollSpeed (updateGroundTargets g) = Game.scrollSpeed g \<and>
   input (updateGroundTargets g) = input g"
  by (simp add: updateGroundTargets_def split_def Let_def updateGroundTargets_loop_keeps)

lemma updateBullets_keeps [simp]:
  "canvas_width (updateBullets g) = canvas_width g \<and>
   canvas_height (updateBullets g) = canvas_height g \<and>
   state (updateBullets g) = state g \<and>
   stateTimer (updateBullets g) = stateTimer g \<and>
   player (updateBullets g) = player g \<and>
   enemies (updateBullets g) = enemies g \<and>
   groundTargets (updateBullets g) = groundTargets g \<and>
   bombs (updateBullets g) = bombs g \<and>
   particles (updateBullets g) = particles g \<and>
   terrain (updateBullets g) = terrain g \<and>
   spawnManager (updateBullets g) = spawnManager g \<and>
   score (updateBullets g) = score g \<and>
   bestScore (updateBullets g) = bestScore g \<and>
   currentStage (updateBullets g) = currentStage g \<and>
   distance (updateBullets g) = distance g \<and>
   Game.scrollSpeed (updateBullets g) = Game.scrollSpeed g \<and>
   input (updateBullets g) = input g \<and>
   random (updateBullets g) = random g"
  by (simp add: updateBullets_def)

lemma updateBombs_loop_keeps:
  "canvas_width (snd (updateBombs_loop bs g)) = canvas_width g \<and>
   canvas_height (snd (updateBombs_loop bs g)) = canvas_height g \<and>
   state (snd (updateBombs_loop bs g)) = state g \<and>
   stateTimer (snd (updateBombs_loop bs g)) = stateTimer g \<and>
   player (snd (updateBombs_loop bs g)) = player g \<and>
   enemies (snd (updateBombs_loop bs g)) = enemies g \<and>
   groundTargets (snd (updateBombs_loop bs g)) = groundTargets g \<and>
   bullets (snd (updateBombs_loop bs g)) = bullets g \<and>
   bombs (snd (updateBombs_loop bs g)) = bombs g \<and>
   terrain (snd (updateBombs_loop bs g)) = terrain g \<and>
   spawnManager (snd (updateBombs_loop bs g)) = spawnManager g \<and>
   score (snd (updateBombs_loop bs g)) = score g \<and>
   bestScore (snd (updateBombs_loop bs g)) = bestScore g \<and>
   currentStage (snd (updateBombs_loop bs g)) = currentStage g \<and>
   distance (snd (updateBombs_loop bs g)) = distance g \<and>
   Game.scrollSpeed (snd (updateBombs_loop bs g)) = Game.scrollSpeed g \<and>
   input (snd (updateBombs_loop bs g)) = input g"
  by (induction bs arbitrary: g) (simp_all add: split_def Let_def)

lemma updateBombs_keeps [simp]:
  "canvas_width (updateBombs g) = canvas_width g \<and>
   canvas_height (updateBombs g) = canvas_height g \<and>
   state (updateBombs g) = state g \<and>
   stateTimer (updateBombs g) = stateTimer g \<and>
   player (updateBombs g) = player g \<and>
   enemies (updateBombs g) = enemies g \<and>
   groundTargets (updateBombs g) = groundTargets g \<and>
   bullets (updateBombs g) = bullets g \<and>
   terrain (updateBombs g) = terrain g \<and>
   spawnManager (updateBombs g) = spawnManager g \<and>
   score (updateBombs g) = score g \<and>
   bestScore (updateBombs g) = bestScore g \<and>
   currentStage (updateBombs g) = currentStage g \<and>
   distance (updateBombs g) = distance g \<and>
   Game.scrollSpeed (updateBombs g) = Game.scrollSpeed g \<and>
   input (updateBombs g) = input g"
  by (simp add: updateBombs_def split_def Let_def updateBombs_loop_keeps)

lemma updateParticles_keeps [simp]:
  "canvas_width (updateParticles g) = canvas_width g \<and>
   canvas_height (updateParticles g) = canvas_height g \<and>
   state (updateParticles g) = state g \<and>
   stateTimer (updateParticles g) = stateTimer g \<and>
   player (updateParticles g) = player g \<and>
   enemies (updateParticles g) = enemies g \<and>
   groundTargets (updateParticles g) = groundTargets g \<and>
   bullets (updateParticles g) = bullets g \<and>
   bombs (updateParticles g) = bombs g \<and>
   terrain (updateParticles g) = terrain g \<and>
   spawnManager (updateParticles g) = spawnManager g \<and>
   score (updateParticles g) = score g \<and>
   bestScore (updateParticles g) = bestScore g \<and>
   currentStage (updateParticles g) = currentStage g \<and>
   distance (updateParticles g) = distance g \<and>
   Game.scrollSpeed (updateParticles g) = Game.scrollSpeed g \<and>
   input (updateParticles g) = input g \<and>
   random (updateParticles g) = random g"
  by (simp add: updateParticles_def)


lemma Player_movement_sel [simp]:
  "lives (Player_movement inp tb bb p) = lives p"
  "fuel (Player_movement inp tb bb p) = fuel p"
  "fuelDrainRate (Player_movement inp tb bb p) = fuelDrainRate p"
  "maxFuel (Player_movement inp tb bb p) = maxFuel p"
  by (simp_all add: Player_movement_def Let_def)

lemma Player_cooldowns_sel [simp]:
  "lives (Player_cooldowns p) = lives p"
  "fuel (Player_cooldowns p) = fuel p"
  "fuelDrainRate (Player_cooldowns p) = fuelDrainRate p"
  "maxFuel (Player_cooldowns p) = maxFuel p"
  by (simp_all add: Player_cooldowns_def Let_def)

lemma Player_invincibility_sel [simp]:
  "lives (Player_invincibility p) = lives p"
  "fuel (Player_invincibility p) = fuel p"
  "fuelDrainRate (Player_invincibility p) = fuelDrainRate p"
  "maxFuel (Player_invincibility p) = maxFuel p"
  by (simp_all add: Player_invincibility_def Let_def)

lemma Player_fuelDrain_sel [simp]:
  "lives (Player_fuelDrain p) = lives p"
  "fuel (Player_fuelDrain p) = drainFuel (fuelDrainRate p) (fuel p)"
  "fuelDrainRate (Player_fuelDrain p) = fuelDrainRate p"
  "maxFuel (Player_fuelDrain p) = maxFuel p"
  by (simp_all add: Player_fuelDrain_def Let_def drainFuel_def)

lemma Player_update_sel [simp]:
  "lives (Player_update inp tb bb p) = lives p"
  "fuel (Player_update inp tb bb p) = drainFuel (fuelDrainRate p) (fuel p)"
  "fuelDrainRate (Player_update inp tb bb p) = fuelDrainRate p"
  "maxFuel (Player_update inp tb bb p) = maxFuel p"
  by (simp_all add: Player_update_def Let_def)

lemma playerShooting_alt:
  "playerShooting g =
     (if shoot (input g) \<and> \<not> shootCooldown (player g) > 0
      then g\<lparr>player := (player g)\<lparr>shootCooldown := shootCooldownMax (player g)\<rparr>,
             bullets := bullets g @
               [new_Bullet (Entity.x (player g) + Entity.width (player g))
                  (getCenterY (player g) - 2) 10 0 True]\<rparr>
      else g)"
  by (simp add: playerShooting_def Player_shoot_def Let_def getCenterY_def)

lemma playerBombing_alt:
  "playerBombing g =
     (if bomb (input g) \<and> \<not> bombCooldown (player g) > 0
      then g\<lparr>player := (player g)\<lparr>bombCooldown := bombCooldownMax (player g)\<rparr>,
             bombs := bombs g @
               [new_Bomb (getCenterX (player g))
                  (Entity.y (player g) + Entity.height (player g)) 3 4]\<rparr>
      else g)"
  by (simp add: playerBombing_def Player_bomb_def Let_def getCenterX_def)

lemma scrollTerrain_keeps [simp]:
  "canvas_width (scrollTerrain g) = canvas_width g \<and>
   canvas_height (scrollTerrain g) = canvas_height g \<and>
   state (scrollTerrain g) = state g \<and>
   stateTimer (scrollTerrain g) = stateTimer g \<and>
   player (scrollTerrain g) = player g \<and>
   enemies (scrollTerrain g) = enemies g \<and>
   groundTargets (scrollTerrain g) = groundTargets g \<and>
   bullets (scrollTerrain g) = bullets g \<and>
   bombs (scrollTerrain g) = bombs g \<and>
   particles (scrollTerrain g) = particles g \<and>
   spawnManager (scrollTerrain g) = spawnManager g \<and>
   score (scrollTerrain g) = score g \<and>
   bestScore (scrollTerrain g) = bestScore g \<and>
   currentStage (scrollTerrain g) = currentStage g \<and>
   Game.scrollSpeed (scrollTerrain g) = Game.scrollSpeed g \<and>
   input (scrollTerrain g) = input g \<and>
   random (scrollTerrain g) = random g"
  by (simp add: scrollTerrain_def Let_def)

lemma movePlayer_keeps [simp]:
  "canvas_width (movePlayer g) = canvas_width g \<and>
   canvas_height (movePlayer g) = canvas_height g \<and>
   state (movePlayer g) = state g \<and>
   stateTimer (movePlayer g) = stateTimer g \<and>
   enemies (movePlayer g) = enemies g \<and>
   groundTargets (movePlayer g) = groundTargets g \<and>
   bullets (movePlayer g) = bullets g \<and>
   bombs (movePlayer g) = bombs g \<and>
   particles (movePlayer g) = particles g \<and>
   terrain (movePlayer g) = terrain g \<and>
   spawnManager (movePlayer g) = spawnManager g \<and>
   score (movePlayer g) = score g \<and>
   bestScore (movePlayer g) = bestScore g \<and>
   currentStage (movePlayer g) = currentStage g \<and>
   distance (movePlayer g) = distance g \<and>
   Game.scrollSpeed (movePlayer g) = Game.scrollSpeed g \<and>
   input (movePlayer g) = input g \<and>
   random (movePlayer g) = random g"
  by (simp add: movePlayer_def Let_def)

lemma playerShooting_keeps [simp]:
  "canvas_width (playerShooting g) = canvas_width g \<and>
   canvas_height (playerShooting g) = canvas_height g \<and>
   state (playerShooting g) = state g \<and>
   stateTimer (playerShooting g) = stateTimer g \<and>
   enemies (playerShooting g) = enemies g \<and>
   groundTargets (playerShooting g) = groundTargets g \<and>
   bombs (playerShooting g) = bombs g \<and>
   particles (playerShooting g) = particles g \<and>
   terrain (playerShooting g) = terrain g \<and>
   spawnManager (playerShooting g) = spawnManager g \<and>
   score (playerShooting g) = score g \<and>
   bestScore (playerShooting g) = bestScore g \<and>
   currentStage (playerShooting g) = currentStage g \<and>
   distance (playerShooting g) = distance g \<and>
   Game.scrollSpeed (playerShooting g) = Game.scrollSpeed g \<and>
   input (playerShooting g) = input g \<and>
   random (playerShooting g) = random g"
  by (simp add: playerShooting_alt)

lemma playerBombing_keeps [simp]:
  "canvas_width (playerBombing g) = canvas_width g \<and>
   canvas_height (playerBombing g) = canvas_height g \<and>
   state (playerBombing g) = state g \<and>
   stateTimer (playerBombing g) = stateTimer g \<and>
   enemies (playerBombing g) = enemies g \<and>
   groundTargets (playerBombing g) = groundTargets g \<and>
   bullets (playerBombing g) = bullets g \<and>
   particles (playerBombing g) = particles g \<and>
   terrain (playerBombing g) = terrain g \<and>
   spawnManager (playerBombing g) = spawnManager g \<and>
   score (playerBombing g) = score g \<and>
   bestScore (playerBombing g) = bestScore g \<and>
   currentStage (playerBombing g) = currentStage g \<and>
   distance (playerBombing g) = distance g \<and>
   Game.scrollSpeed (playerBombing g) = Game.scrollSpeed g \<and>
   input (playerBombing g) = input g \<and>
   random (playerBombing g) = random g"
  by (simp add: playerBombing_alt)

lemma spawnEntities_keeps [simp]:
  "canvas_width (spawnEntities g) = canvas_width g \<and>
   canvas_height (spawnEntities g) = canvas_height g \<and>
   state (spawnEntities g) = state g \<and>
   stateTimer (spawnEntities g) = stateTimer g \<and>
   player (spawnEntities g) = player g \<and>
   bullets (spawnEntities g) = bullets g \<and>
   bombs (spawnEntities g) = bombs g \<and>
   particles (spawnEntities g) = particles g \<and>
   terrain (spawnEntities g) = terrain g \<and>
   score (spawnEntities g) = score g \<and>
   bestScore (spawnEntities g) = bestScore g \<and>
   currentStage (spawnEntities g) = currentStage g \<and>
   distance (spawnEntities g) = distance g \<and>
   Game.scrollSpeed (spawnEntities g) = Game.scrollSpeed g \<and>
   input (spawnEntities g) = input g"
  by (simp add: spawnEntities_def Let_def split_def)

lemma moveFrame_keeps [simp]:
  "canvas_width (moveFrame g) = canvas_width g \<and>
   canvas_height (moveFrame g) = canvas_height g \<and>
   state (moveFrame g) = state g \<and>
   stateTimer (moveFrame g) = stateTimer g \<and>
   score (moveFrame g) = score g \<and>
   bestScore (moveFrame g) = bestScore g \<and>
   currentStage (moveFrame g) = currentStage g \<and>
   Game.scrollSpeed (moveFrame g) = Game.scrollSpeed g \<and>
   input (moveFrame g) = input g"
  by (simp add: moveFrame_def Let_def)

lemma simulateFrame_keeps [simp]:
  "canvas_width (simulateFrame g) = canvas_width g \<and>
   canvas_height (simulateFrame g) = canvas_height g \<and>
   currentStage (simulateFrame g) = currentStage g \<and>
   Game.scrollSpeed (simulateFrame g) = Game.scrollSpeed g \<and>
   input (simulateFrame g) = input g"
  by (simp add: simulateFrame_def)


lemma playerShooting_sel [simp]:
  "lives (player (playerShooting g)) = lives (player g)"
  "fuel (player (playerShooting g)) = fuel (player g)"
  "fuelDrainRate (player (playerShooting g)) = fuelDrainRate (player g)"
  "maxFuel (player (playerShooting g)) = maxFuel (player g)"
  by (simp_all add: playerShooting_alt)

lemma playerBombing_sel [simp]:
  "lives (player (playerBombing g)) = lives (player g)"
  "fuel (player (playerBombing g)) = fuel (player g)"
  "fuelDrainRate (player (playerBombing g)) = fuelDrainRate (player g)"
  "maxFuel (player (playerBombing g)) = maxFuel (player g)"
  by (simp_all add: playerBombing_alt)

lemma movePlayer_sel [simp]:
  "lives (player (movePlayer g)) = lives (player g)"
  "fuel (player (movePlayer g)) = drainFuel (fuelDrainRate (player g)) (fuel (player g))"
  "fuelDrainRate (player (movePlayer g)) = fuelDrainRate (player g)"
  "maxFuel (player (movePlayer g)) = maxFuel (player g)"
  by (simp_all add: movePlayer_def Let_def)

lemma moveFrame_player:
  "player (moveFrame g) = player (playerBombing (playerShooting (movePlayer (scrollTerrain g))))"
  by (simp add: moveFrame_def Let_def)

lemma moveFrame_sel [simp]:
  "lives (player (moveFrame g)) = lives (player g)"
  "fuel (player (moveFrame g)) = drainFuel (fuelDrainRate (player g)) (fuel (player g))"
  "fuelDrainRate (player (moveFrame g)) = fuelDrainRate (player g)"
  "maxFuel (player (moveFrame g)) = maxFuel (player g)"
  by (simp_all add: moveFrame_player)

subsection \<open>A frame in which nothing is in flight and nothing spawns\<close>

lemma quiet_spawn:
  "enemyDensity (SpawnManager.config (spawnManager g)) \<le> random g 0 \<Longrightarrow>
   groundTargetDensity (SpawnManager.config (spawnManager g)) \<le> random g 1 \<Longrightarrow>
   enemies (spawnEntities g) = enemies g \<and> groundTargets (spawnEntities g) = groundTargets g"
  by (simp add: spawnEntities_def SpawnManager_update_def Let_def split_def Math_random_def
        entities_def)

lemma checkCollisions_empty:
  assumes "bullets g = []" "bombs g = []" "enemies g = []"
  shows "checkCollisions g = g"
proof -
  have 1: "collideBulletsEnemies g = g"
    using assms by (cases g) (simp add: collideBulletsEnemies_def)
  have 2: "collideBombsTargets g = g"
    using assms by (cases g) (simp add: collideBombsTargets_def)
  have 3: "collideBulletsTargets g = g"
    using assms by (cases g) (simp add: collideBulletsTargets_def)
  have 4: "collideBulletsPlayer g = g"
    using assms by (cases g) (simp add: collideBulletsPlayer_def)
  have 5: "collidePlayerEnemies g = g"
    using assms by (cases g) (simp add: collidePlayerEnemies_def)
  show ?thesis by (simp add: checkCollisions_def 1 2 3 4 5)
qed

lemma quiet_moveFrame:
  assumes "enemies g = []" "groundTargets g = []" "bullets g = []" "bombs g = []"
    "\<not> shoot (input g)" "\<not> bomb (input g)"
    "enemyDensity (SpawnManager.config (spawnManager g)) \<le> random g 0"
    "groundTargetDensity (SpawnManager.config (spawnManager g)) \<le> random g 1"
  shows "enemies (moveFrame g) = [] \<and> groundTargets (moveFrame g) = [] \<and>
         bullets (moveFrame g) = [] \<and> bombs (moveFrame g) = [] \<and>
         simulateFrame g = moveFrame g"
proof -
  define g4 where "g4 = playerBombing (playerShooting (movePlayer (scrollTerrain g)))"
  have g4: "enemies g4 = []" "groundTargets g4 = []" "bullets g4 = []" "bombs g4 = []"
    "random g4 = random g" "spawnManager g4 = spawnManager g"
    using assms by (simp_all add: g4_def playerBombing_alt playerShooting_alt)
  define g5 where "g5 = spawnEntities g4"
  have g5: "enemies g5 = []" "groundTargets g5 = []" "bullets g5 = []" "bombs g5 = []"
    using quiet_spawn [of g4] assms g4 by (simp_all add: g5_def)
  have mf: "moveFrame g = updateBombs (updateBullets (updateGroundTargets (updateEnemies g5)))"
    by (simp add: moveFrame_def Let_def g5_def g4_def)
  have e: "enemies (moveFrame g) = []"
    using g5 by (simp add: mf updateEnemies_def)
  have t: "groundTargets (moveFrame g) = []"
    using g5 by (simp add: mf updateGroundTargets_def)
  have b: "bullets (moveFrame g) = []"
    using g5 by (simp add: mf updateBullets_def updateGroundTargets_def updateEnemies_def)
  have m: "bombs (moveFrame g) = []"
    using g5 by (simp add: mf updateBombs_def)
  from e t b m show ?thesis
    by (simp add: simulateFrame_def checkCollisions_empty)
qed

text \<open>The spawn densities of the first stage are below 1/2.\<close>

lemma density_first:
  "enemyDensity (STAGES ! 0) \<le> 1 / 2" "groundTargetDensity (STAGES ! 0) \<le> 1 / 2"
proof -
  have "binary64 (8 / 1000) \<le> 1 / 2" "binary64 (12 / 1000) \<le> 1 / 2"
    by (intro binary64_le; simp add: is_double_literals)+
  then show "enemyDensity (STAGES ! 0) \<le> 1 / 2" "groundTargetDensity (STAGES ! 0) \<le> 1 / 2"
    by (simp_all add: STAGES_def)
qed

lemma ex_game_quiet:
  "enemies ex_game = []" "groundTargets ex_game = []" "bullets ex_game = []" "bombs ex_game = []"
    "\<not> shoot (input ex_game)" "\<not> bomb (input ex_game)"
    "enemyDensity (SpawnManager.config (spawnManager ex_game)) \<le> random ex_game 0"
    "groundTargetDensity (SpawnManager.config (spawnManager ex_game)) \<le> random ex_game 1"
  using density_first
  by (simp_all add: ex_game_def no_input_def ex_spawn_def new_SpawnManager_def)

lemma ex_crash_quiet:
  "enemies ex_crash = []" "groundTargets ex_crash = []" "bullets ex_crash = []" "bombs ex_crash = []"
    "\<not> shoot (input ex_crash)" "\<not> bomb (input ex_crash)"
    "enemyDensity (SpawnManager.config (spawnManager ex_crash)) \<le> random ex_crash 0"
    "groundTargetDensity (SpawnManager.config (spawnManager ex_crash)) \<le> random ex_crash 1"
  using ex_game_quiet by (simp_all add: ex_crash_def)

lemma ex_last_quiet:
  "enemies ex_last = []" "groundTargets ex_last = []" "bullets ex_last = []" "bombs ex_last = []"
    "\<not> shoot (input ex_last)" "\<not> bomb (input ex_last)"
    "enemyDensity (SpawnManager.config (spawnManager ex_last)) \<le> random ex_last 0"
    "groundTargetDensity (SpawnManager.config (spawnManager ex_last)) \<le> random ex_last 1"
  using ex_game_quiet by (simp_all add: ex_last_def)

lemma new_Player_rate: "0 \<le> fuelDrainRate (new_Player cw ch)"
  by (simp add: new_Player_def binary64_nonneg)


lemma ex_crash_frame:
  "simulateFrame ex_crash = moveFrame ex_crash"
  "fuel (player (simulateFrame ex_crash)) = 0"
  "lives (player (simulateFrame ex_crash)) = 3"
  "state (simulateFrame ex_crash) = PLAYING"
proof -
  show s: "simulateFrame ex_crash = moveFrame ex_crash"
    using quiet_moveFrame [OF ex_crash_quiet] by simp
  show "fuel (player (simulateFrame ex_crash)) = 0"
    using new_Player_rate [of 800 600] unfolding s by (simp add: ex_crash_def drainFuel_empty)
  show "lives (player (simulateFrame ex_crash)) = 3"
    unfolding s by (simp add: ex_crash_def new_Player_def)
  show "state (simulateFrame ex_crash) = PLAYING"
    unfolding s by (simp add: ex_crash_def ex_game_def)
qed

lemma ex_last_frame:
  "simulateFrame ex_last = moveFrame ex_last"
  "fuel (player (simulateFrame ex_last)) = 0"
  "lives (player (simulateFrame ex_last)) = 1"
proof -
  show s: "simulateFrame ex_last = moveFrame ex_last"
    using quiet_moveFrame [OF ex_last_quiet] by simp
  show "fuel (player (simulateFrame ex_last)) = 0"
    using new_Player_rate [of 800 600] unfolding s by (simp add: ex_last_def drainFuel_empty)
  show "lives (player (simulateFrame ex_last)) = 1"
    unfolding s by (simp add: ex_last_def)
qed

subsection \<open>Hits and crashes\<close>

lemma playerCrash_alt:
  "playerCrash g =
     (let g1 = pushExplosion (getCenterX (player g)) (getCenterY (player g)) ''#ff8c00'' 20 g;
          l = lives (player g) - 1
      in if l \<le> 0 then setState GAME_OVER (g1\<lparr>player := (player g)\<lparr>lives := l\<rparr>\<rparr>)
         else g1\<lparr>player := (player g)
                \<lparr>lives := l, Entity.x := 60,
                 Entity.y := canvas_height g / 2 - Entity.height (player g) / 2,
                 isInvincible := True, invincibleTimer := 120,
                 fuel := max (fuel (player g)) 30\<rparr>\<rparr>)"
  by (simp add: playerCrash_def Let_def)

lemma playerCrash_lives: "lives (player (playerCrash g)) = lives (player g) - 1"
  by (simp add: playerCrash_alt Let_def)

lemma playerCrash_state:
  "state (playerCrash g) = (if lives (player g) - 1 \<le> 0 then GAME_OVER else state g)"
  by (simp add: playerCrash_alt Let_def setState_alt)

lemma playerCrash_reset:
  "0 < lives (player g) - 1 \<Longrightarrow>
   player (playerCrash g) =
     (player g)\<lparr>lives := lives (player g) - 1, Entity.x := 60,
                 Entity.y := canvas_height g / 2 - Entity.height (player g) / 2,
                 isInvincible := True, invincibleTimer := 120,
                 fuel := max (fuel (player g)) 30\<rparr>"
  by (simp add: playerCrash_alt Let_def)

lemma updatePlaying_crash:
  "checkCollision (terrain (simulateFrame g)) (player (simulateFrame g)) \<noteq> None \<or>
   fuel (player (simulateFrame g)) \<le> 0 \<Longrightarrow>
   updatePlaying g = Inr (playerCrash (simulateFrame g))"
  by (auto simp: updatePlaying_def Let_def)

text \<open>
  C1 (crash resolution). In a frame of the \<open>PLAYING\<close> state, \<open>update\<close> runs
  \<open>updatePlaying\<close>. With \<open>f\<close> the game as \<open>checkCollisions\<close> leaves it in that frame: if
  the player then touches a terrain wall or the fuel is at or below zero, the frame ends in
  \<open>playerCrash\<close>, once. The lives are those of \<open>f\<close> minus exactly 1, whether or not the
  player is invincible. If lives remain, the player is back at \<open>x = 60\<close>, vertically
  centred on the canvas, invincible with a timer of 120 frames, and the fuel is the
  larger of the fuel of \<open>f\<close> and 30, and the state is unchanged; if no life remains the
  state is \<open>GAME_OVER\<close>.
\<close>

theorem playerCrash_resolution:
  "checkCollision (terrain (simulateFrame g)) (player (simulateFrame g)) \<noteq> None \<or>
   fuel (player (simulateFrame g)) \<le> 0 \<Longrightarrow>
   (\<exists>g'. updatePlaying g = Inr g' \<and> g' = playerCrash (simulateFrame g) \<and>
      lives (player g') = lives (player (simulateFrame g)) - 1 \<and>
      (0 < lives (player g') \<longrightarrow>
         Entity.x (player g') = 60 \<and>
         Entity.y (player g') = canvas_height g / 2 - Entity.height (player g') / 2 \<and>
         getCenterY (player g') = canvas_height g / 2 \<and>
         isInvincible (player g') \<and> invincibleTimer (player g') = 120 \<and>
         fuel (player g') = max (fuel (player (simulateFrame g))) 30 \<and>
         state g' = state (simulateFrame g)) \<and>
      (lives (player g') \<le> 0 \<longrightarrow> state g' = GAME_OVER)) \<and>
   (state g = PLAYING \<longrightarrow> Game_update g = updatePlaying (updateParticles g))"
proof -
  assume h: "checkCollision (terrain (simulateFrame g)) (player (simulateFrame g)) \<noteq> None \<or>
   fuel (player (simulateFrame g)) \<le> 0"
  let ?f = "simulateFrame g"
  have u: "updatePlaying g = Inr (playerCrash ?f)"
    using h by (rule updatePlaying_crash)
  have l: "lives (player (playerCrash ?f)) = lives (player ?f) - 1"
    by (rule playerCrash_lives)
  have pos: "Entity.x (player (playerCrash ?f)) = 60 \<and>
         Entity.y (player (playerCrash ?f)) =
           canvas_height g / 2 - Entity.height (player (playerCrash ?f)) / 2 \<and>
         getCenterY (player (playerCrash ?f)) = canvas_height g / 2 \<and>
         isInvincible (player (playerCrash ?f)) \<and> invincibleTimer (player (playerCrash ?f)) = 120 \<and>
         fuel (player (playerCrash ?f)) = max (fuel (player ?f)) 30 \<and>
         state (playerCrash ?f) = state ?f"
    if "0 < lives (player (playerCrash ?f))"
  proof -
    from that have "0 < lives (player ?f) - 1" by (simp add: playerCrash_lives)
    then show ?thesis
      by (simp add: playerCrash_reset playerCrash_state getCenterY_def)
  qed
  have over: "state (playerCrash ?f) = GAME_OVER" if "lives (player (playerCrash ?f)) \<le> 0"
    using that by (simp add: playerCrash_lives playerCrash_state)
  have gu: "Game_update g = updatePlaying (updateParticles g)" if "state g = PLAYING"
    using that by (simp add: Game_update_def Let_def)
  show ?thesis
    using u l pos over gu by blast
qed

theorem playerCrash_resolution_witness:
  "fuel (player (simulateFrame ex_crash)) \<le> 0 \<and> isInvincible (player ex_crash) \<and>
   (\<exists>g'. updatePlaying ex_crash = Inr g' \<and> lives (player g') = 2 \<and>
      Entity.x (player g') = 60 \<and> getCenterY (player g') = 300 \<and>
      isInvincible (player g') \<and> invincibleTimer (player g') = 120 \<and>
      fuel (player g') = 30 \<and> state g' = PLAYING) \<and>
   fuel (player (simulateFrame ex_last)) \<le> 0 \<and>
   (\<exists>g'. updatePlaying ex_last = Inr g' \<and> lives (player g') = 0 \<and> state g' = GAME_OVER)"
proof -
  have i: "isInvincible (player ex_crash)" "canvas_height ex_crash = 600"
    by (simp_all add: ex_crash_def ex_game_def)
  show ?thesis
    using playerCrash_resolution [of ex_crash] playerCrash_resolution [of ex_last]
      ex_crash_frame ex_last_frame i
    by auto
qed

lemma collideBulletsPlayer_state:
  "state (collideBulletsPlayer g) = state g \<or>
   (\<not> isInvincible (player g) \<and> state (collideBulletsPlayer g) = GAME_OVER)"
  using enemyBulletsVsPlayer_state [of "bullets g" g]
  by (simp add: collideBulletsPlayer_def split_def Let_def)

lemma collidePlayerEnemies_state:
  "state (collidePlayerEnemies g) = state g \<or>
   (\<not> isInvincible (player g) \<and> state (collidePlayerEnemies g) = GAME_OVER)"
  using playerVsEnemies_state [of "enemies g" g]
  by (simp add: collidePlayerEnemies_def split_def Let_def)

lemma checkCollisions_invincible:
  assumes inv: "isInvincible (player g)"
  shows "lives (player (checkCollisions g)) = lives (player g)"
    "invincibleTimer (player (checkCollisions g)) = invincibleTimer (player g)"
    "isInvincible (player (checkCollisions g))"
    "state (checkCollisions g) = state g"
proof -
  define g1 where "g1 = collideBulletsEnemies g"
  define g2 where "g2 = collideBombsTargets g1"
  define g3 where "g3 = collideBulletsTargets g2"
  define g4 where "g4 = collideBulletsPlayer g3"
  have cc: "checkCollisions g = collidePlayerEnemies g4"
    by (simp add: checkCollisions_def Let_def g1_def g2_def g3_def g4_def)
  have p1: "player g1 = player g" by (simp add: g1_def)
  have p2: "onlyFuel (player g1) (player g2)"
    unfolding g2_def by (rule collideBombsTargets_player)
  have p3: "onlyFuel (player g2) (player g3)"
    unfolding g3_def by (rule collideBulletsTargets_player)
  from p2 p3 have of: "onlyFuel (player g) (player g3)"
    unfolding p1 by (rule onlyFuel_trans)
  have i3: "isInvincible (player g3)" using onlyFuel_sel(2) [OF of] inv by simp
  have p4: "player g4 = player g3"
    using hitOrNot_sel(9) [OF collideBulletsPlayer_player [of g3] i3] by (simp add: g4_def)
  have p5: "player (checkCollisions g) = player g4"
    using hitOrNot_sel(9) [OF collidePlayerEnemies_player [of g4]] i3 p4 by (simp add: cc)
  have eq: "player (checkCollisions g) = player g3" by (simp add: p5 p4)
  show "lives (player (checkCollisions g)) = lives (player g)"
    unfolding eq by (rule onlyFuel_sel [OF of])
  show "invincibleTimer (player (checkCollisions g)) = invincibleTimer (player g)"
    unfolding eq by (rule onlyFuel_sel [OF of])
  show "isInvincible (player (checkCollisions g))"
    unfolding eq by (rule i3)
  have s3: "state g3 = state g" by (simp add: g3_def g2_def g1_def)
  have s4: "state g4 = state g3"
    using collideBulletsPlayer_state [of g3] i3 by (simp add: g4_def)
  have s5: "state (checkCollisions g) = state g4"
    using collidePlayerEnemies_state [of g4] i3 p4 by (simp add: cc)
  show "state (checkCollisions g) = state g" by (simp add: s5 s4 s3)
qed

lemma playerHit_invincible: "isInvincible (player g) \<Longrightarrow> playerHit g = g"
  by (simp add: playerHit_alt)

text \<open>
  C2 (invincibility idempotence). While the player is invincible \<open>Player.hit\<close> answers
  \<open>false\<close> and changes nothing, so any number of \<open>playerHit\<close> calls leaves the whole game
  as it is; and a full collision pass, with whatever hostile bullets and enemies touch
  the player, leaves the lives, the invincibility timer, the invincibility flag and the
  state of the state machine unchanged.
\<close>

theorem invincible_hit_idempotent:
  "isInvincible (player g) \<Longrightarrow>
   Player_hit (player g) = (False, player g) \<and>
   (playerHit ^^ n) g = g \<and>
   lives (player (checkCollisions g)) = lives (player g) \<and>
   invincibleTimer (player (checkCollisions g)) = invincibleTimer (player g) \<and>
   isInvincible (player (checkCollisions g)) \<and>
   state (checkCollisions g) = state g"
proof -
  assume inv: "isInvincible (player g)"
  have "(playerHit ^^ n) g = g"
    by (induction n) (simp_all add: playerHit_invincible inv)
  moreover have "Player_hit (player g) = (False, player g)"
    using inv by (simp add: Player_hit_def)
  ultimately show ?thesis
    using checkCollisions_invincible [OF inv] by simp
qed


theorem invincible_hit_idempotent_witness:
  "isInvincible (player ex_invincible) \<and>
   collidesWith (hd (bullets ex_invincible)) (player ex_invincible) \<and>
   collidesWith (player ex_invincible) (hd (enemies ex_invincible)) \<and>
   Player_hit (player ex_invincible) = (False, player ex_invincible) \<and>
   (playerHit ^^ 7) ex_invincible = ex_invincible \<and>
   lives (player (checkCollisions ex_invincible)) = 3 \<and>
   invincibleTimer (player (checkCollisions ex_invincible)) = 50 \<and>
   isInvincible (player (checkCollisions ex_invincible)) \<and>
   state (checkCollisions ex_invincible) = PLAYING"
  using invincible_hit_idempotent [of ex_invincible 7]
  by (simp add: ex_invincible_def ex_game_def new_Player_def new_Bullet_def new_Enemy_def
        ex_rocket_def ENEMY_TYPES_def collidesWith_def getBounds_def Let_def split_def)

subsection \<open>Lives\<close>

lemma simulateFrame_lives: "lives (player (simulateFrame g)) \<le> lives (player g)"
  using checkCollisions_lives [of "moveFrame g"] by (simp add: simulateFrame_def)

lemma updatePlaying_cases:
  "updatePlaying g = Inr g' \<Longrightarrow>
   g' = playerCrash (simulateFrame g) \<or> g' = setState STAGE_TRANSITION (simulateFrame g) \<or>
   g' = simulateFrame g"
  by (auto simp: updatePlaying_def Let_def split: if_splits option.splits)

lemma updatePlaying_lives:
  "updatePlaying g = Inr g' \<Longrightarrow> lives (player g') \<le> lives (player g)"
  using simulateFrame_lives [of g]
  by (auto dest!: updatePlaying_cases simp: playerCrash_lives)

lemma initStage_player: "initStage g = Inr g' \<Longrightarrow> player g' = player g"
  by (auto simp: initStage_def Let_def split_def split: option.splits)

lemma advanceStage_player: "advanceStage g = Inr g' \<Longrightarrow> player g' = player g"
  by (auto simp: advanceStage_def Let_def split: if_splits sum.splits dest!: initStage_player)

lemma Game_update_lives:
  "Game_update g = Inr g' \<Longrightarrow> lives (player g') \<le> lives (player g)"
proof -
  assume u: "Game_update g = Inr g'"
  show ?thesis
  proof (cases "state g")
    case PLAYING
    with u have "updatePlaying (updateParticles g) = Inr g'"
      by (simp add: Game_update_def Let_def)
    from updatePlaying_lives [OF this] show ?thesis by simp
  next
    case STAGE_TRANSITION
    with u have "g' = (updateParticles g)\<lparr>stateTimer := stateTimer g - 1\<rparr> \<or>
        advanceStage ((updateParticles g)\<lparr>stateTimer := stateTimer g - 1\<rparr>) = Inr g'"
      by (auto simp: Game_update_def Let_def split: if_splits)
    then show ?thesis
      by (auto dest!: advanceStage_player)
  qed (use u in \<open>auto simp: Game_update_def Let_def\<close>)
qed

lemma Game_start_lives: "Game_start g = Inr g' \<Longrightarrow> lives (player g') = 3"
  by (auto simp: Game_start_def Let_def split_def new_Player_def split: option.splits)

text \<open>
  C9 (lives), as the code has it. Within a run no operation adds a life: the player's
  own update, shoot, bomb, hit and addFuel, and the game's hit and crash resolution,
  collision pass, entity and particle updates, scoring, state changes, pause, input,
  \<open>updatePlaying\<close>, stage initialisation and advance and the per-frame update all
  leave the lives at most what they were. The operations that
  begin a run, \<open>Player.reset\<close> and \<open>Game.start\<close> (and \<open>restart\<close>, which is \<open>start\<close>), set the
  lives to 3 whatever they were.
\<close>

theorem lives_not_incremented_within_run:
  "lives (Player_update inp tb bb p) \<le> lives p \<and>
   lives (snd (Player_shoot p)) \<le> lives p \<and>
   lives (snd (Player_bomb p)) \<le> lives p \<and>
   lives (snd (Player_hit p)) \<le> lives p \<and>
   lives (addFuel amount p) \<le> lives p \<and>
   lives (player (playerHit g)) \<le> lives (player g) \<and>
   lives (player (playerCrash g)) \<le> lives (player g) \<and>
   lives (player (checkCollisions g)) \<le> lives (player g) \<and>
   lives (player (updateEnemies g)) \<le> lives (player g) \<and>
   lives (player (updateGroundTargets g)) \<le> lives (player g) \<and>
   lives (player (updateBullets g)) \<le> lives (player g) \<and>
   lives (player (updateBombs g)) \<le> lives (player g) \<and>
   lives (player (updateParticles g)) \<le> lives (player g) \<and>
   lives (player (addScore pts g)) \<le> lives (player g) \<and>
   lives (player (saveBestScore g)) \<le> lives (player g) \<and>
   lives (player (setState st g)) \<le> lives (player g) \<and>
   lives (player (pause g)) \<le> lives (player g) \<and>
   lives (player (setInput k v g)) \<le> lives (player g) \<and>
   (\<forall>g'. updatePlaying g = Inr g' \<longrightarrow> lives (player g') \<le> lives (player g)) \<and>
   (\<forall>g'. initStage g = Inr g' \<longrightarrow> lives (player g') \<le> lives (player g)) \<and>
   (\<forall>g'. advanceStage g = Inr g' \<longrightarrow> lives (player g') \<le> lives (player g)) \<and>
   (\<forall>g'. Game_update g = Inr g' \<longrightarrow> lives (player g') \<le> lives (player g)) \<and>
   lives (Player_reset cw ch p) = 3 \<and>
   (\<forall>g'. Game_start g = Inr g' \<longrightarrow> lives (player g') = 3) \<and>
   (\<forall>g'. restart g = Inr g' \<longrightarrow> lives (player g') = 3)"
proof -
  have "lives (player (playerHit g)) \<le> lives (player g)"
    using hitOrNot_sel(1) [OF hitOrNot_playerHit [of g]] .
  moreover have "lives (player (pause g)) \<le> lives (player g)"
    by (simp add: pause_def)
  moreover have "lives (snd (Player_hit p)) \<le> lives p"
    by (simp add: Player_hit_def)
  ultimately show ?thesis
    using updatePlaying_lives [of g] Game_update_lives [of g] advanceStage_player [of g]
      initStage_player [of g] Game_start_lives [of g] checkCollisions_lives [of g]
    by (simp add: playerCrash_lives addFuel_def Player_reset_def setInput_def restart_def
          Player_shoot_def Player_bomb_def saveBestScore_def Let_def)
qed

theorem lives_not_incremented_within_run_witness:
  "(\<exists>g'. updatePlaying ex_crash = Inr g' \<and> lives (player g') \<le> 3) \<and>
   (\<exists>g'. Game_update ex_final = Inr g' \<and> state g' = VICTORY \<and> lives (player g') \<le> 3) \<and>
   (\<exists>g'. advanceStage ex_final = Inr g' \<and> lives (player g') \<le> 3) \<and>
   (\<exists>g'. Game_start ex_last = Inr g' \<and> lives (player g') = 3) \<and>
   (\<exists>g'. restart ex_last = Inr g' \<and> lives (player g') = 3) \<and>
   lives (player ex_last) = 1"
proof -
  have a: "updatePlaying ex_crash = Inr (playerCrash (simulateFrame ex_crash))"
    by (rule updatePlaying_crash) (simp add: ex_crash_frame(2))
  have b: "Game_update ex_final =
             Inr (setState VICTORY (ex_final\<lparr>stateTimer := 0, currentStage := 5\<rparr>))"
    by (simp add: Game_update_def advanceStage_def Let_def ex_final_def ex_game_def
          updateParticles_def getTotalStages_def STAGES_def)
  have c: "advanceStage ex_final = Inr (setState VICTORY (ex_final\<lparr>currentStage := 5\<rparr>))"
    by (simp add: advanceStage_def Let_def ex_final_def ex_game_def getTotalStages_def STAGES_def)
  have d: "\<exists>g'. Game_start ex_last = Inr g'"
    by (simp add: Game_start_def Let_def split_def getStage_def js_index_def STAGES_def)
  have l: "lives (player ex_crash) = 3" "lives (player ex_final) = 3" "lives (player ex_last) = 1"
    by (simp_all add: ex_crash_def ex_final_def ex_last_def ex_game_def new_Player_def)
  show ?thesis
    using lives_not_incremented_within_run [where g = ex_crash]
      lives_not_incremented_within_run [where g = ex_final]
      lives_not_incremented_within_run [where g = ex_last] a b c d l
    by (auto simp: restart_def setState_alt)
qed

text \<open>
  The claim C9 as stated (no public operation ever raises the lives) fails for
  \<open>Player.reset\<close>: a player down to one life has three after it.
\<close>

theorem Player_reset_lives_counterexample:
  "lives ((new_Player 800 600)\<lparr>lives := 1\<rparr>) = 1 \<and>
   lives (Player_reset 800 600 ((new_Player 800 600)\<lparr>lives := 1\<rparr>)) = 3"
  by (simp add: Player_reset_def new_Player_def)

subsection \<open>Hostile bullets\<close>

lemma pushExplosion_bullets:
  "pushExplosion px py c n (g\<lparr>bullets := X\<rparr>) = (pushExplosion px py c n g)\<lparr>bullets := X\<rparr>"
  by (simp add: pushExplosion_alt)

lemma addScore_bullets: "addScore pts (g\<lparr>bullets := X\<rparr>) = (addScore pts g)\<lparr>bullets := X\<rparr>"
  by (simp add: addScore_def)

lemma destroyTarget_bullets:
  "destroyTarget t n (g\<lparr>bullets := X\<rparr>) = (destroyTarget t n g)\<lparr>bullets := X\<rparr>"
  by (simp add: destroyTarget_alt Let_def pushExplosion_alt)

lemma bulletVsEnemies_bullets:
  "bulletVsEnemies b es (g\<lparr>bullets := X\<rparr>) =
     (fst (bulletVsEnemies b es g), fst (snd (bulletVsEnemies b es g)),
      (snd (snd (bulletVsEnemies b es g)))\<lparr>bullets := X\<rparr>)"
  by (induction es) (simp_all add: split_def Let_def pushExplosion_bullets addScore_bullets)

lemma bulletVsEnemies_bullet:
  "fst (bulletVsEnemies b es g) = b \<or> fst (bulletVsEnemies b es g) = b\<lparr>Entity.active := False\<rparr>"
  by (induction es) (simp_all add: split_def Let_def)

lemma bulletVsTargets_bullets:
  "bulletVsTargets b ts (g\<lparr>bullets := X\<rparr>) =
     (fst (bulletVsTargets b ts g), fst (snd (bulletVsTargets b ts g)),
      (snd (snd (bulletVsTargets b ts g)))\<lparr>bullets := X\<rparr>)"
  by (induction ts) (simp_all add: split_def Let_def destroyTarget_bullets)

lemma bulletVsTargets_bullet:
  "fst (bulletVsTargets b ts g) = b \<or> fst (bulletVsTargets b ts g) = b\<lparr>Entity.active := False\<rparr>"
  by (induction ts) (simp_all add: split_def Let_def)

lemma bombVsTargets_bullets:
  "bombVsTargets b ts (g\<lparr>bullets := X\<rparr>) =
     (fst (bombVsTargets b ts g), fst (snd (bombVsTargets b ts g)),
      (snd (snd (bombVsTargets b ts g)))\<lparr>bullets := X\<rparr>)"
  by (induction ts) (simp_all add: split_def Let_def destroyTarget_bullets)


lemma playerBulletsVsEnemies_bullets:
  "playerBulletsVsEnemies bs (g\<lparr>bullets := X\<rparr>) =
     (fst (playerBulletsVsEnemies bs g), (snd (playerBulletsVsEnemies bs g))\<lparr>bullets := X\<rparr>)"
proof (induction bs arbitrary: g)
  case Nil
  show ?case by simp
next
  case (Cons b bs)
  show ?case
  proof (cases "\<not> isPlayerBullet b \<or> \<not> Entity.active b")
    case True
    then show ?thesis by (simp add: Cons.IH split_def Let_def)
  next
    case False
    let ?r = "bulletVsEnemies b (enemies g) g"
    have c: "(snd (snd ?r))\<lparr>bullets := X, enemies := fst (snd ?r)\<rparr> =
             (snd (snd ?r))\<lparr>enemies := fst (snd ?r), bullets := X\<rparr>"
      by simp
    from False show ?thesis
      by (simp add: bulletVsEnemies_bullets split_def Let_def c Cons.IH)
  qed
qed

lemma playerBulletsVsTargets_bullets:
  "playerBulletsVsTargets bs (g\<lparr>bullets := X\<rparr>) =
     (fst (playerBulletsVsTargets bs g), (snd (playerBulletsVsTargets bs g))\<lparr>bullets := X\<rparr>)"
proof (induction bs arbitrary: g)
  case Nil
  show ?case by simp
next
  case (Cons b bs)
  show ?case
  proof (cases "\<not> isPlayerBullet b \<or> \<not> Entity.active b")
    case True
    then show ?thesis by (simp add: Cons.IH split_def Let_def)
  next
    case False
    let ?r = "bulletVsTargets b (groundTargets g) g"
    have c: "(snd (snd ?r))\<lparr>bullets := X, groundTargets := fst (snd ?r)\<rparr> =
             (snd (snd ?r))\<lparr>groundTargets := fst (snd ?r), bullets := X\<rparr>"
      by simp
    from False show ?thesis
      by (simp add: bulletVsTargets_bullets split_def Let_def c Cons.IH)
  qed
qed

lemma bombsVsTargets_bullets:
  "bombsVsTargets bs (g\<lparr>bullets := X\<rparr>) =
     (fst (bombsVsTargets bs g), (snd (bombsVsTargets bs g))\<lparr>bullets := X\<rparr>)"
proof (induction bs arbitrary: g)
  case Nil
  show ?case by simp
next
  case (Cons b bs)
  show ?case
  proof (cases "\<not> Entity.active b")
    case True
    then show ?thesis by (simp add: Cons.IH split_def Let_def)
  next
    case False
    let ?r = "bombVsTargets b (groundTargets g) g"
    have c: "(snd (snd ?r))\<lparr>bullets := X, groundTargets := fst (snd ?r)\<rparr> =
             (snd (snd ?r))\<lparr>groundTargets := fst (snd ?r), bullets := X\<rparr>"
      by simp
    from False show ?thesis
      by (simp add: bombVsTargets_bullets split_def Let_def c Cons.IH)
  qed
qed

text \<open>A hostile bullet is passed over by the two loops of the player's bullets.\<close>

lemma playerBulletsVsEnemies_filter:
  "playerBulletsVsEnemies (filter isPlayerBullet bs) g =
     (filter isPlayerBullet (fst (playerBulletsVsEnemies bs g)),
      snd (playerBulletsVsEnemies bs g)) \<and>
   filter (\<lambda>b. \<not> isPlayerBullet b) (fst (playerBulletsVsEnemies bs g)) =
     filter (\<lambda>b. \<not> isPlayerBullet b) bs"
proof (induction bs arbitrary: g)
  case Nil
  show ?case by simp
next
  case (Cons b bs)
  show ?case
  proof (cases "isPlayerBullet b \<and> Entity.active b")
    case False
    then show ?thesis by (auto simp: Cons.IH split_def Let_def)
  next
    case True
    have "isPlayerBullet (fst (bulletVsEnemies b (enemies g) g))"
      using bulletVsEnemies_bullet [of b "enemies g" g] True by auto
    with True show ?thesis by (simp add: Cons.IH split_def Let_def)
  qed
qed

lemma playerBulletsVsTargets_filter:
  "playerBulletsVsTargets (filter isPlayerBullet bs) g =
     (filter isPlayerBullet (fst (playerBulletsVsTargets bs g)),
      snd (playerBulletsVsTargets bs g)) \<and>
   filter (\<lambda>b. \<not> isPlayerBullet b) (fst (playerBulletsVsTargets bs g)) =
     filter (\<lambda>b. \<not> isPlayerBullet b) bs"
proof (induction bs arbitrary: g)
  case Nil
  show ?case by simp
next
  case (Cons b bs)
  show ?case
  proof (cases "isPlayerBullet b \<and> Entity.active b")
    case False
    then show ?thesis by (auto simp: Cons.IH split_def Let_def)
  next
    case True
    have "isPlayerBullet (fst (bulletVsTargets b (groundTargets g) g))"
      using bulletVsTargets_bullet [of b "groundTargets g" g] True by auto
    with True show ?thesis by (simp add: Cons.IH split_def Let_def)
  qed
qed

text \<open>The three passes of the player's weapons commute with the removal of hostile bullets.\<close>

lemma collideBulletsEnemies_hostileFree:
  "collideBulletsEnemies (hostileFree g) = hostileFree (collideBulletsEnemies g)"
  by (simp add: collideBulletsEnemies_def hostileFree_def split_def Let_def
        playerBulletsVsEnemies_bullets playerBulletsVsEnemies_filter)

lemma collideBulletsTargets_hostileFree:
  "collideBulletsTargets (hostileFree g) = hostileFree (collideBulletsTargets g)"
  by (simp add: collideBulletsTargets_def hostileFree_def split_def Let_def
        playerBulletsVsTargets_bullets playerBulletsVsTargets_filter)

lemma collideBombsTargets_hostileFree:
  "collideBombsTargets (hostileFree g) = hostileFree (collideBombsTargets g)"
  by (simp add: collideBombsTargets_def hostileFree_def split_def Let_def
        bombsVsTargets_bullets bombsVsTargets_keeps)

lemma collideBulletsEnemies_hostile:
  "filter (\<lambda>b. \<not> isPlayerBullet b) (bullets (collideBulletsEnemies g)) =
   filter (\<lambda>b. \<not> isPlayerBullet b) (bullets g)"
  by (simp add: collideBulletsEnemies_def split_def Let_def playerBulletsVsEnemies_filter)

lemma collideBulletsTargets_hostile:
  "filter (\<lambda>b. \<not> isPlayerBullet b) (bullets (collideBulletsTargets g)) =
   filter (\<lambda>b. \<not> isPlayerBullet b) (bullets g)"
  by (simp add: collideBulletsTargets_def split_def Let_def playerBulletsVsTargets_filter)


text \<open>The pass of the hostile bullets: without hostile bullets it does nothing.\<close>

lemma enemyBulletsVsPlayer_none:
  "\<forall>b \<in> set bs. isPlayerBullet b \<Longrightarrow> enemyBulletsVsPlayer bs g = (bs, g)"
  by (induction bs) simp_all

lemma collideBulletsPlayer_hostileFree:
  "collideBulletsPlayer (hostileFree g) = hostileFree g"
  by (simp add: collideBulletsPlayer_def hostileFree_def enemyBulletsVsPlayer_none)

text \<open>
  With hostile bullets it changes no bullet of the player's, and of a hostile bullet at
  most the \<open>active\<close> flag.
\<close>

lemma enemyBulletsVsPlayer_bullets:
  "filter isPlayerBullet (fst (enemyBulletsVsPlayer bs g)) = filter isPlayerBullet bs \<and>
   map (\<lambda>b. b\<lparr>Entity.active := False\<rparr>) (fst (enemyBulletsVsPlayer bs g)) =
     map (\<lambda>b. b\<lparr>Entity.active := False\<rparr>) bs"
  by (induction bs) (simp_all add: split_def Let_def)

lemma enemyBulletsVsPlayer_hostile:
  "map (\<lambda>b. b\<lparr>Entity.active := False\<rparr>)
     (filter (\<lambda>b. \<not> isPlayerBullet b) (fst (enemyBulletsVsPlayer bs g))) =
   map (\<lambda>b. b\<lparr>Entity.active := False\<rparr>) (filter (\<lambda>b. \<not> isPlayerBullet b) bs)"
  by (induction bs) (simp_all add: split_def Let_def)

lemma collideBulletsPlayer_bullets:
  "filter isPlayerBullet (bullets (collideBulletsPlayer g)) = filter isPlayerBullet (bullets g)"
  "map (\<lambda>b. b\<lparr>Entity.active := False\<rparr>)
     (filter (\<lambda>b. \<not> isPlayerBullet b) (bullets (collideBulletsPlayer g))) =
   map (\<lambda>b. b\<lparr>Entity.active := False\<rparr>) (filter (\<lambda>b. \<not> isPlayerBullet b) (bullets g))"
  by (simp_all add: collideBulletsPlayer_def split_def Let_def enemyBulletsVsPlayer_bullets
        enemyBulletsVsPlayer_hostile)

text \<open>
  Which enemies the player runs into depends on the player's box only, not on lives
  or invincibility.
\<close>

lemma collidesWith_box:
  "Entity.x p = Entity.x q \<Longrightarrow> Entity.y p = Entity.y q \<Longrightarrow>
   Entity.width p = Entity.width q \<Longrightarrow> Entity.height p = Entity.height q \<Longrightarrow>
   Entity.active p = Entity.active q \<Longrightarrow> collidesWith p e = collidesWith q e"
  by (simp add: collidesWith_def getBounds_def)

lemma playerVsEnemies_box:
  assumes "Entity.x (player g) = Entity.x (player h)" "Entity.y (player g) = Entity.y (player h)"
    "Entity.width (player g) = Entity.width (player h)"
    "Entity.height (player g) = Entity.height (player h)"
    "Entity.active (player g) = Entity.active (player h)"
  shows "fst (playerVsEnemies es g) = fst (playerVsEnemies es h)"
proof (induction es)
  case Nil
  show ?case by simp
next
  case (Cons e es)
  have "collidesWith (player g) e = collidesWith (player h) e"
    using assms by (rule collidesWith_box)
  with Cons show ?case by (simp add: split_def Let_def)
qed

lemma collidePlayerEnemies_box:
  assumes "Entity.x (player g) = Entity.x (player h)" "Entity.y (player g) = Entity.y (player h)"
    "Entity.width (player g) = Entity.width (player h)"
    "Entity.height (player g) = Entity.height (player h)"
    "Entity.active (player g) = Entity.active (player h)"
    "enemies g = enemies h"
  shows "enemies (collidePlayerEnemies g) = enemies (collidePlayerEnemies h)"
  using playerVsEnemies_box [OF assms(1-5), of "enemies h"] assms(6)
  by (simp add: collidePlayerEnemies_def split_def Let_def)

text \<open>
  C10 (hostile bullets interact only with the player). The first and the third pass of
  \<open>checkCollisions\<close> skip every bullet whose \<open>isPlayerBullet\<close> flag is false, so what the
  collision pass does to the enemies, the ground targets, the score, the fuel, the
  bombs and the player's own bullets is exactly what it does in the game without its
  hostile bullets; and of a hostile bullet the pass changes at most the \<open>active\<close> flag.
\<close>

theorem hostile_bullets_only_player:
  "enemies (checkCollisions g) = enemies (checkCollisions (hostileFree g)) \<and>
   groundTargets (checkCollisions g) = groundTargets (checkCollisions (hostileFree g)) \<and>
   score (checkCollisions g) = score (checkCollisions (hostileFree g)) \<and>
   fuel (player (checkCollisions g)) = fuel (player (checkCollisions (hostileFree g))) \<and>
   bombs (checkCollisions g) = bombs (checkCollisions (hostileFree g)) \<and>
   filter isPlayerBullet (bullets (checkCollisions g)) = bullets (checkCollisions (hostileFree g)) \<and>
   map (\<lambda>b. b\<lparr>Entity.active := False\<rparr>)
     (filter (\<lambda>b. \<not> isPlayerBullet b) (bullets (checkCollisions g))) =
   map (\<lambda>b. b\<lparr>Entity.active := False\<rparr>) (filter (\<lambda>b. \<not> isPlayerBullet b) (bullets g))"
proof -
  define g3 where "g3 = collideBulletsTargets (collideBombsTargets (collideBulletsEnemies g))"
  define g4 where "g4 = collideBulletsPlayer g3"
  have A: "checkCollisions g = collidePlayerEnemies g4"
    by (simp add: checkCollisions_def Let_def g3_def g4_def)
  have B: "checkCollisions (hostileFree g) = collidePlayerEnemies (hostileFree g3)"
    by (simp add: checkCollisions_def Let_def g3_def collideBulletsEnemies_hostileFree
          collideBombsTargets_hostileFree collideBulletsTargets_hostileFree
          collideBulletsPlayer_hostileFree)
  have h: "hitOrNot (player g3) (player g4)"
    unfolding g4_def by (rule collideBulletsPlayer_player)
  have h5: "hitOrNot (player g4) (player (collidePlayerEnemies g4))"
    by (rule collidePlayerEnemies_player)
  have h5': "hitOrNot (player g3) (player (collidePlayerEnemies (hostileFree g3)))"
    using collidePlayerEnemies_player [of "hostileFree g3"] by (simp add: hostileFree_def)
  have e: "enemies (collidePlayerEnemies g4) = enemies (collidePlayerEnemies (hostileFree g3))"
  proof (rule collidePlayerEnemies_box)
    show "enemies g4 = enemies (hostileFree g3)" by (simp add: g4_def hostileFree_def)
  qed (use hitOrNot_sel [OF h] in \<open>simp_all add: hostileFree_def\<close>)
  have t: "groundTargets (collidePlayerEnemies g4) = groundTargets (collidePlayerEnemies (hostileFree g3))"
    "score (collidePlayerEnemies g4) = score (collidePlayerEnemies (hostileFree g3))"
    "bombs (collidePlayerEnemies g4) = bombs (collidePlayerEnemies (hostileFree g3))"
    by (simp_all add: g4_def hostileFree_def)
  have f: "fuel (player (collidePlayerEnemies g4)) =
           fuel (player (collidePlayerEnemies (hostileFree g3)))"
    using hitOrNot_sel(8) [OF h] hitOrNot_sel(8) [OF h5] hitOrNot_sel(8) [OF h5'] by simp
  have b: "filter isPlayerBullet (bullets (collidePlayerEnemies g4)) =
           bullets (collidePlayerEnemies (hostileFree g3))"
    by (simp add: g4_def collideBulletsPlayer_bullets hostileFree_def)
  have "map (\<lambda>b. b\<lparr>Entity.active := False\<rparr>)
          (filter (\<lambda>b. \<not> isPlayerBullet b) (bullets (collidePlayerEnemies g4))) =
        map (\<lambda>b. b\<lparr>Entity.active := False\<rparr>) (filter (\<lambda>b. \<not> isPlayerBullet b) (bullets g3))"
    by (simp add: g4_def collideBulletsPlayer_bullets)
  also have "filter (\<lambda>b. \<not> isPlayerBullet b) (bullets g3) =
             filter (\<lambda>b. \<not> isPlayerBullet b) (bullets g)"
    by (simp add: g3_def collideBulletsTargets_hostile collideBulletsEnemies_hostile)
  finally have m: "map (\<lambda>b. b\<lparr>Entity.active := False\<rparr>)
          (filter (\<lambda>b. \<not> isPlayerBullet b) (bullets (collidePlayerEnemies g4))) =
        map (\<lambda>b. b\<lparr>Entity.active := False\<rparr>) (filter (\<lambda>b. \<not> isPlayerBullet b) (bullets g))" .
  show ?thesis
    unfolding A B using e t f b m by simp
qed

theorem hostile_bullets_only_player_witness:
  "bullets ex_hostile = [new_Bullet 402 302 (- 6) 0 False] \<and>
   collidesWith (hd (bullets ex_hostile)) (hd (enemies ex_hostile)) \<and>
   collidesWith (hd (bullets ex_hostile)) (hd (groundTargets ex_hostile)) \<and>
   enemies (checkCollisions ex_hostile) = enemies ex_hostile \<and>
   groundTargets (checkCollisions ex_hostile) = groundTargets ex_hostile \<and>
   score (checkCollisions ex_hostile) = 0 \<and>
   fuel (player (checkCollisions ex_hostile)) = 100"
proof -
  have q: "checkCollisions (hostileFree ex_hostile) = hostileFree ex_hostile"
    by (simp add: checkCollisions_def collideBulletsEnemies_def collideBombsTargets_def
          collideBulletsTargets_def collideBulletsPlayer_def collidePlayerEnemies_def
          hostileFree_def ex_hostile_def ex_game_def new_Bullet_def new_Enemy_def
          new_GroundTarget_def new_Player_def ex_rocket_def ENEMY_TYPES_def
          GROUND_TARGET_TYPES_def collidesWith_def getBounds_def Let_def split_def)
  show ?thesis
    using hostile_bullets_only_player [of ex_hostile]
    unfolding q
    by (simp add: hostileFree_def ex_hostile_def ex_game_def new_Bullet_def new_Enemy_def
          new_GroundTarget_def new_Player_def ex_rocket_def ENEMY_TYPES_def
          GROUND_TARGET_TYPES_def collidesWith_def getBounds_def Let_def split_def)
qed

subsection \<open>The fuel gauge in binary64\<close>

text \<open>
  One frame of drain that ends in the binade of exponent \<open>e\<close>, whose unit is \<open>u\<close>: if the
  gauge is \<open>j\<close> units and the rate \<open>d\<close> is nearer to \<open>c\<close> units than to any other multiple,
  the rounded difference is \<open>j - c\<close> units. A run of \<open>n\<close> such frames takes \<open>n * c\<close> units.
\<close>

lemma drain_step:
  assumes u: "u = 2 powi (e - 52)" and e: "- 1022 \<le> e"
    and near: "\<bar>d / u - of_int c\<bar> < 1 / 2"
    and lo: "2 powi e \<le> of_int j * u - d" and hi: "of_int j * u - d < 2 powi (e + 1)"
  shows "drainFuel d (of_int j * u) = of_int (j - c) * u"
proof -
  have upos: "0 < u" by (simp add: u)
  define v where "v = of_int j * u - d"
  have q: "v / u = of_int j - d / u"
    using upos by (simp add: v_def field_simps)
  have "\<bar>v / u - of_int (j - c)\<bar> < 1 / 2"
    using near by (simp add: q abs_minus_commute)
  then have r: "round_ties_even (v / u) = j - c"
    by (rule round_ties_even_near)
  have b: "binary64 v = of_int (j - c) * u"
    using binary64_binade [of e v] lo hi e by (simp add: v_def [symmetric] u [symmetric] r)
  have "(1::real) \<le> 2 powi e / u"
    by (simp add: u power_int_diff)
  also have "2 powi e / u \<le> v / u"
    using lo upos unfolding v_def [symmetric] by (rule divide_right_mono [OF _ less_imp_le])
  finally have "1 \<le> v / u" .
  moreover have "real_of_int c - d / u < 1 / 2" using near by linarith
  ultimately have "real_of_int c < real_of_int j" unfolding q by linarith
  then have "0 < real_of_int (j - c)" by simp
  then have "0 < of_int (j - c) * u" using upos by simp
  then show ?thesis
    by (simp add: drainFuel_def js_sub_def Let_def v_def [symmetric] b not_le)
qed

lemma drain_run:
  assumes u: "u = 2 powi (e - 52)" and e: "- 1022 \<le> e"
    and near: "\<bar>d / u - of_int c\<bar> < 1 / 2" and c: "0 \<le> c"
    and hi: "of_int j * u - d < 2 powi (e + 1)"
    and lo: "2 powi e \<le> of_int (j - (int n - 1) * c) * u - d"
  shows "(drainFuel d ^^ n) (of_int j * u) = of_int (j - int n * c) * u"
  using hi lo
proof (induction n arbitrary: j)
  case 0
  show ?case by simp
next
  case (Suc n)
  have upos: "0 < u" by (simp add: u)
  have "real_of_int (j - int n * c) \<le> real_of_int j"
    using c by simp
  then have "of_int (j - int n * c) * u - d \<le> of_int j * u - d"
    using upos by (simp add: mult_right_mono)
  moreover have "2 powi e \<le> of_int (j - int n * c) * u - d"
    using Suc.prems(2) by simp
  ultimately have lo0: "2 powi e \<le> of_int j * u - d" by linarith
  have s: "drainFuel d (of_int j * u) = of_int (j - c) * u"
    using u e near lo0 Suc.prems(1) by (rule drain_step)
  have "real_of_int (j - c) \<le> real_of_int j" using c by simp
  then have "of_int (j - c) * u - d \<le> of_int j * u - d"
    using upos by (simp add: mult_right_mono)
  with Suc.prems(1) have hi1: "of_int (j - c) * u - d < 2 powi (e + 1)" by linarith
  have eq: "j - c - (int n - 1) * c = j - int n * c" by (simp add: algebra_simps)
  have lo1: "2 powi e \<le> of_int (j - c - (int n - 1) * c) * u - d"
    unfolding eq using Suc.prems(2) by simp
  have "(drainFuel d ^^ n) (of_int (j - c) * u) = of_int (j - c - int n * c) * u"
    using hi1 lo1 by (rule Suc.IH)
  moreover have "j - c - int n * c = j - int (Suc n) * c" by (simp add: algebra_simps)
  ultimately show ?case
    by (simp add: funpow_swap1 s)
qed

text \<open>
  \<open>binary64\<close> on literals whose doubles are known: 0.05 is \<open>0x1.999999999999ap-5\<close>, 0.1
  is \<open>0x1.999999999999ap-4\<close>, 100 is itself, and \<open>100 - 0.05\<close> is
  \<open>0x1.8fccccccccccdp+6\<close>.
\<close>

lemma rate_binary64: "binary64 (5 / 100) = 3602879701896397 / 72057594037927936"
  by (simp add: binary64_def ilog2_def round_ties_even_def Let_def bitlen_numeral bitlen_one)

lemma binary64_known_doubles:
  "binary64 100 = 100"
  "binary64 (1 / 10) = 3602879701896397 / 36028797018963968"
  "binary64 (100 - 3602879701896397 / 72057594037927936) = 7033355980557517 / 70368744177664"
  by (simp_all add: binary64_def ilog2_def round_ties_even_def Let_def bitlen_numeral bitlen_one)

text \<open>
  The 2000 frames from a full tank: nine runs, one through each binade from \<open>2 ^ 6\<close>
  down to \<open>2 powi - 2\<close> (1995 frames), then five single frames, two of them ties.
\<close>

lemma drain_run_1_720:
  "(drainFuel (3602879701896397 / 72057594037927936) ^^ 720) (100) = 281474976710665 / 4398046511104"
proof -
  have "(drainFuel (3602879701896397 / 72057594037927936) ^^ 720) (of_int 7036874417766400 * (1 / 70368744177664)) =
        of_int (7036874417766400 - int 720 * 3518437208883) * (1 / 70368744177664)"
    by (rule drain_run [where e = "6"]) simp_all
  then show ?thesis by simp
qed

lemma drain_run_721_1360:
  "(drainFuel (3602879701896397 / 72057594037927936) ^^ 640) (281474976710665 / 4398046511104) = 140737488355345 / 4398046511104"
proof -
  have "(drainFuel (3602879701896397 / 72057594037927936) ^^ 640) (of_int 9007199254741280 * (1 / 140737488355328)) =
        of_int (9007199254741280 - int 640 * 7036874417766) * (1 / 140737488355328)"
    by (rule drain_run [where e = "5"]) simp_all
  then show ?thesis by simp
qed

lemma drain_run_1361_1680:
  "(drainFuel (3602879701896397 / 72057594037927936) ^^ 320) (140737488355345 / 4398046511104) = 4398046511105 / 274877906944"
proof -
  have "(drainFuel (3602879701896397 / 72057594037927936) ^^ 320) (of_int 9007199254742080 * (1 / 281474976710656)) =
        of_int (9007199254742080 - int 320 * 14073748835533) * (1 / 281474976710656)"
    by (rule drain_run [where e = "4"]) simp_all
  then show ?thesis by simp
qed

lemma drain_run_1681_1840:
  "(drainFuel (3602879701896397 / 72057594037927936) ^^ 160) (4398046511105 / 274877906944) = 70368744177695 / 8796093022208"
proof -
  have "(drainFuel (3602879701896397 / 72057594037927936) ^^ 160) (of_int 9007199254743040 * (1 / 562949953421312)) =
        of_int (9007199254743040 - int 160 * 28147497671066) * (1 / 562949953421312)"
    by (rule drain_run [where e = "3"]) simp_all
  then show ?thesis by simp
qed

lemma drain_run_1841_1920:
  "(drainFuel (3602879701896397 / 72057594037927936) ^^ 80) (70368744177695 / 8796093022208) = 281474976710905 / 70368744177664"
proof -
  have "(drainFuel (3602879701896397 / 72057594037927936) ^^ 80) (of_int 9007199254744960 * (1 / 1125899906842624)) =
        of_int (9007199254744960 - int 80 * 56294995342131) * (1 / 1125899906842624)"
    by (rule drain_run [where e = "2"]) simp_all
  then show ?thesis by simp
qed

lemma drain_run_1921_1960:
  "(drainFuel (3602879701896397 / 72057594037927936) ^^ 40) (281474976710905 / 70368744177664) = 281474976711155 / 140737488355328"
proof -
  have "(drainFuel (3602879701896397 / 72057594037927936) ^^ 40) (of_int 9007199254748960 * (1 / 2251799813685248)) =
        of_int (9007199254748960 - int 40 * 112589990684262) * (1 / 2251799813685248)"
    by (rule drain_run [where e = "1"]) simp_all
  then show ?thesis by simp
qed

lemma drain_run_1961_1980:
  "(drainFuel (3602879701896397 / 72057594037927936) ^^ 20) (281474976711155 / 140737488355328) = 1125899906846615 / 1125899906842624"
proof -
  have "(drainFuel (3602879701896397 / 72057594037927936) ^^ 20) (of_int 9007199254756960 * (1 / 4503599627370496)) =
        of_int (9007199254756960 - int 20 * 225179981368525) * (1 / 4503599627370496)"
    by (rule drain_run [where e = "0"]) simp_all
  then show ?thesis by simp
qed

lemma drain_run_1981_1990:
  "(drainFuel (3602879701896397 / 72057594037927936) ^^ 10) (1125899906846615 / 1125899906842624) = 1125899906850605 / 2251799813685248"
proof -
  have "(drainFuel (3602879701896397 / 72057594037927936) ^^ 10) (of_int 9007199254772920 * (1 / 9007199254740992)) =
        of_int (9007199254772920 - int 10 * 450359962737050) * (1 / 9007199254740992)"
    by (rule drain_run [where e = "-1"]) simp_all
  then show ?thesis by simp
qed

lemma drain_run_1991_1995:
  "(drainFuel (3602879701896397 / 72057594037927936) ^^ 5) (1125899906850605 / 2251799813685248) = 4503599627434345 / 18014398509481984"
proof -
  have "(drainFuel (3602879701896397 / 72057594037927936) ^^ 5) (of_int 9007199254804840 * (1 / 18014398509481984)) =
        of_int (9007199254804840 - int 5 * 900719925474099) * (1 / 18014398509481984)"
    by (rule drain_run [where e = "-2"]) simp_all
  then show ?thesis by simp
qed

lemma drain_step_1996:
  "drainFuel (3602879701896397 / 72057594037927936) (4503599627434345 / 18014398509481984) = 1801439850980123 / 9007199254740992"
  by (simp add: drainFuel_def js_sub_def binary64_def ilog2_def round_ties_even_def Let_def
        bitlen_numeral bitlen_one)

lemma drain_step_1997:
  "drainFuel (3602879701896397 / 72057594037927936) (1801439850980123 / 9007199254740992) = 2702159776486147 / 18014398509481984"
  by (simp add: drainFuel_def js_sub_def binary64_def ilog2_def round_ties_even_def Let_def
        bitlen_numeral bitlen_one)

lemma drain_step_1998:
  "drainFuel (3602879701896397 / 72057594037927936) (2702159776486147 / 18014398509481984) = 7205759404048191 / 72057594037927936"
  by (simp add: drainFuel_def js_sub_def binary64_def ilog2_def round_ties_even_def Let_def
        bitlen_numeral bitlen_one)

lemma drain_step_1999:
  "drainFuel (3602879701896397 / 72057594037927936) (7205759404048191 / 72057594037927936) = 1801439851075897 / 36028797018963968"
  by (simp add: drainFuel_def js_sub_def binary64_def ilog2_def round_ties_even_def Let_def
        bitlen_numeral bitlen_one)

lemma drain_step_2000:
  "drainFuel (3602879701896397 / 72057594037927936) (1801439851075897 / 36028797018963968) = 255397 / 72057594037927936"
  by (simp add: drainFuel_def js_sub_def binary64_def ilog2_def round_ties_even_def Let_def
        bitlen_numeral bitlen_one)

text \<open>The gauge after each of these stretches.\<close>

lemma drained_720: "(drainFuel (3602879701896397 / 72057594037927936) ^^ 720) 100 = 281474976710665 / 4398046511104"
  using drain_run_1_720 by simp

lemma drained_1360: "(drainFuel (3602879701896397 / 72057594037927936) ^^ 1360) 100 = 140737488355345 / 4398046511104"
proof -
  have "(1360::nat) = 640 + 720" by simp
  then have "(drainFuel (3602879701896397 / 72057594037927936) ^^ 1360) 100 =
             (drainFuel (3602879701896397 / 72057594037927936) ^^ 640) ((drainFuel (3602879701896397 / 72057594037927936) ^^ 720) 100)"
    by (simp only: funpow_add o_apply)
  then show ?thesis by (simp only: drained_720 drain_run_721_1360)
qed

lemma drained_1680: "(drainFuel (3602879701896397 / 72057594037927936) ^^ 1680) 100 = 4398046511105 / 274877906944"
proof -
  have "(1680::nat) = 320 + 1360" by simp
  then have "(drainFuel (3602879701896397 / 72057594037927936) ^^ 1680) 100 =
             (drainFuel (3602879701896397 / 72057594037927936) ^^ 320) ((drainFuel (3602879701896397 / 72057594037927936) ^^ 1360) 100)"
    by (simp only: funpow_add o_apply)
  then show ?thesis by (simp only: drained_1360 drain_run_1361_1680)
qed

lemma drained_1840: "(drainFuel (3602879701896397 / 72057594037927936) ^^ 1840) 100 = 70368744177695 / 8796093022208"
proof -
  have "(1840::nat) = 160 + 1680" by simp
  then have "(drainFuel (3602879701896397 / 72057594037927936) ^^ 1840) 100 =
             (drainFuel (3602879701896397 / 72057594037927936) ^^ 160) ((drainFuel (3602879701896397 / 72057594037927936) ^^ 1680) 100)"
    by (simp only: funpow_add o_apply)
  then show ?thesis by (simp only: drained_1680 drain_run_1681_1840)
qed

lemma drained_1920: "(drainFuel (3602879701896397 / 72057594037927936) ^^ 1920) 100 = 281474976710905 / 70368744177664"
proof -
  have "(1920::nat) = 80 + 1840" by simp
  then have "(drainFuel (3602879701896397 / 72057594037927936) ^^ 1920) 100 =
             (drainFuel (3602879701896397 / 72057594037927936) ^^ 80) ((drainFuel (3602879701896397 / 72057594037927936) ^^ 1840) 100)"
    by (simp only: funpow_add o_apply)
  then show ?thesis by (simp only: drained_1840 drain_run_1841_1920)
qed

lemma drained_1960: "(drainFuel (3602879701896397 / 72057594037927936) ^^ 1960) 100 = 281474976711155 / 140737488355328"
proof -
  have "(1960::nat) = 40 + 1920" by simp
  then have "(drainFuel (3602879701896397 / 72057594037927936) ^^ 1960) 100 =
             (drainFuel (3602879701896397 / 72057594037927936) ^^ 40) ((drainFuel (3602879701896397 / 72057594037927936) ^^ 1920) 100)"
    by (simp only: funpow_add o_apply)
  then show ?thesis by (simp only: drained_1920 drain_run_1921_1960)
qed

lemma drained_1980: "(drainFuel (3602879701896397 / 72057594037927936) ^^ 1980) 100 = 1125899906846615 / 1125899906842624"
proof -
  have "(1980::nat) = 20 + 1960" by simp
  then have "(drainFuel (3602879701896397 / 72057594037927936) ^^ 1980) 100 =
             (drainFuel (3602879701896397 / 72057594037927936) ^^ 20) ((drainFuel (3602879701896397 / 72057594037927936) ^^ 1960) 100)"
    by (simp only: funpow_add o_apply)
  then show ?thesis by (simp only: drained_1960 drain_run_1961_1980)
qed

lemma drained_1990: "(drainFuel (3602879701896397 / 72057594037927936) ^^ 1990) 100 = 1125899906850605 / 2251799813685248"
proof -
  have "(1990::nat) = 10 + 1980" by simp
  then have "(drainFuel (3602879701896397 / 72057594037927936) ^^ 1990) 100 =
             (drainFuel (3602879701896397 / 72057594037927936) ^^ 10) ((drainFuel (3602879701896397 / 72057594037927936) ^^ 1980) 100)"
    by (simp only: funpow_add o_apply)
  then show ?thesis by (simp only: drained_1980 drain_run_1981_1990)
qed

lemma drained_1995: "(drainFuel (3602879701896397 / 72057594037927936) ^^ 1995) 100 = 4503599627434345 / 18014398509481984"
proof -
  have "(1995::nat) = 5 + 1990" by simp
  then have "(drainFuel (3602879701896397 / 72057594037927936) ^^ 1995) 100 =
             (drainFuel (3602879701896397 / 72057594037927936) ^^ 5) ((drainFuel (3602879701896397 / 72057594037927936) ^^ 1990) 100)"
    by (simp only: funpow_add o_apply)
  then show ?thesis by (simp only: drained_1990 drain_run_1991_1995)
qed

lemma drained_1996: "(drainFuel (3602879701896397 / 72057594037927936) ^^ 1996) 100 = 1801439850980123 / 9007199254740992"
proof -
  have "(1996::nat) = Suc 1995" by simp
  then have "(drainFuel (3602879701896397 / 72057594037927936) ^^ 1996) 100 =
             drainFuel (3602879701896397 / 72057594037927936) ((drainFuel (3602879701896397 / 72057594037927936) ^^ 1995) 100)"
    by (simp only: funpow.simps o_apply)
  then show ?thesis by (simp only: drained_1995 drain_step_1996)
qed

lemma drained_1997: "(drainFuel (3602879701896397 / 72057594037927936) ^^ 1997) 100 = 2702159776486147 / 18014398509481984"
proof -
  have "(1997::nat) = Suc 1996" by simp
  then have "(drainFuel (3602879701896397 / 72057594037927936) ^^ 1997) 100 =
             drainFuel (3602879701896397 / 72057594037927936) ((drainFuel (3602879701896397 / 72057594037927936) ^^ 1996) 100)"
    by (simp only: funpow.simps o_apply)
  then show ?thesis by (simp only: drained_1996 drain_step_1997)
qed

lemma drained_1998: "(drainFuel (3602879701896397 / 72057594037927936) ^^ 1998) 100 = 7205759404048191 / 72057594037927936"
proof -
  have "(1998::nat) = Suc 1997" by simp
  then have "(drainFuel (3602879701896397 / 72057594037927936) ^^ 1998) 100 =
             drainFuel (3602879701896397 / 72057594037927936) ((drainFuel (3602879701896397 / 72057594037927936) ^^ 1997) 100)"
    by (simp only: funpow.simps o_apply)
  then show ?thesis by (simp only: drained_1997 drain_step_1998)
qed

lemma drained_1999: "(drainFuel (3602879701896397 / 72057594037927936) ^^ 1999) 100 = 1801439851075897 / 36028797018963968"
proof -
  have "(1999::nat) = Suc 1998" by simp
  then have "(drainFuel (3602879701896397 / 72057594037927936) ^^ 1999) 100 =
             drainFuel (3602879701896397 / 72057594037927936) ((drainFuel (3602879701896397 / 72057594037927936) ^^ 1998) 100)"
    by (simp only: funpow.simps o_apply)
  then show ?thesis by (simp only: drained_1998 drain_step_1999)
qed

lemma drained_2000: "(drainFuel (3602879701896397 / 72057594037927936) ^^ 2000) 100 = 255397 / 72057594037927936"
proof -
  have "(2000::nat) = Suc 1999" by simp
  then have "(drainFuel (3602879701896397 / 72057594037927936) ^^ 2000) 100 =
             drainFuel (3602879701896397 / 72057594037927936) ((drainFuel (3602879701896397 / 72057594037927936) ^^ 1999) 100)"
    by (simp only: funpow.simps o_apply)
  then show ?thesis by (simp only: drained_1999 drain_step_2000)
qed

lemma fuelAfter_values:
  "fuelAfter 1999 = 1801439851075897 / 36028797018963968"
  "fuelAfter 2000 = 255397 / 72057594037927936"
  "fuelAfter 2001 = 0"
proof -
  show "fuelAfter 1999 = 1801439851075897 / 36028797018963968"
    by (simp only: fuelAfter_def rate_binary64 drained_1999)
  show b: "fuelAfter 2000 = 255397 / 72057594037927936"
    by (simp only: fuelAfter_def rate_binary64 drained_2000)
  have "fuelAfter 2001 = drainFuel (binary64 (5 / 100)) (fuelAfter 2000)"
  proof -
    have "(2001::nat) = Suc 2000" by simp
    then show ?thesis by (simp only: fuelAfter_def funpow.simps o_apply)
  qed
  also have "\<dots> = 0"
    unfolding b rate_binary64 by (rule drainFuel_empty) simp
  finally show "fuelAfter 2001 = 0" .
qed

text \<open>The gauge depends on the number of updates only, not on input or bounds.\<close>

lemma Player_update_funpow_fuel:
  "fuel ((Player_update inp tb bb ^^ n) p) = (drainFuel (fuelDrainRate p) ^^ n) (fuel p) \<and>
   fuelDrainRate ((Player_update inp tb bb ^^ n) p) = fuelDrainRate p"
  by (induction n) simp_all

lemma Player_frames_fuel:
  "fuel (foldl (\<lambda>q (i, t, b). Player_update i t b q) p frames) =
     (drainFuel (fuelDrainRate p) ^^ List.length frames) (fuel p) \<and>
   fuelDrainRate (foldl (\<lambda>q (i, t, b). Player_update i t b q) p frames) = fuelDrainRate p"
  by (induction frames rule: rev_induct) (simp_all add: split_def)

lemma moveFrame_terrain:
  "terrain (moveFrame g) =
     TerrainGenerator_update (Game.scrollSpeed g) (js_add (distance g) (Game.scrollSpeed g))
       (terrain g)"
  by (simp add: moveFrame_def Let_def scrollTerrain_def)

lemma moveFrame_distance: "distance (moveFrame g) = js_add (distance g) (Game.scrollSpeed g)"
  by (simp add: moveFrame_def Let_def scrollTerrain_def)

lemma moveFrame_box_idle:
  "input g = no_input \<Longrightarrow>
   Entity.x (player (moveFrame g)) = Entity.x (player g) \<and>
   Entity.y (player (moveFrame g)) = Entity.y (player g) \<and>
   Entity.width (player (moveFrame g)) = Entity.width (player g) \<and>
   Entity.height (player (moveFrame g)) = Entity.height (player g) \<and>
   Entity.active (player (moveFrame g)) = Entity.active (player g)"
  by (simp add: moveFrame_player playerBombing_alt playerShooting_alt movePlayer_def Let_def
        no_input_def Player_update_def Player_movement_def Player_cooldowns_def
        Player_invincibility_def Player_fuelDrain_def)

text \<open>A terrain whose segments all end left of an entity does not touch it.\<close>

lemma checkCollision_loop_left:
  "\<forall>s \<in> set ss. TerrainSegment.x s + TerrainSegment.width s \<le> Entity.x p \<Longrightarrow>
   checkCollision_loop p ch ss = None"
  by (induction ss) (simp_all add: collidesWithEntity_def getBounds_def Let_def)

text \<open>
  Scrolling moves no segment to the right, and a new segment starts one segment width
  after the last one: the segments of the example terrain stay left of 8.
\<close>

lemma ex_terrain_left:
  assumes "0 \<le> sc"
  shows "\<forall>s \<in> set (segments (TerrainGenerator_update sc wd ex_terrain)).
           TerrainSegment.x s + TerrainSegment.width s \<le> 8"
proof -
  have a: "js_sub (- 12) sc \<le> - 12"
    unfolding js_sub_def using assms by (intro binary64_le) (simp_all add: is_double_literals)
  have b: "js_sub 0 sc \<le> 0"
    unfolding js_sub_def using assms by (intro binary64_le) (simp_all add: is_double_literals)
  have c: "js_add (js_sub (- 12) sc) 4 \<le> 4"
    unfolding js_add_def using a by (intro binary64_le) (simp_all add: is_double_literals)
  have d: "js_add (js_sub 0 sc) 4 \<le> 4"
    unfolding js_add_def using b by (intro binary64_le) (simp_all add: is_double_literals)
  show ?thesis
    using a b c d
    by (simp add: TerrainGenerator_update_def TerrainSegment_update_def ex_terrain_def
          Let_def createSegment_def)
qed

lemma ex_terrain_clear:
  assumes "Entity.x p = 60" "0 \<le> sc"
  shows "checkCollision (TerrainGenerator_update sc wd ex_terrain) p = None"
proof -
  have "\<forall>s \<in> set (segments (TerrainGenerator_update sc wd ex_terrain)).
          TerrainSegment.x s + TerrainSegment.width s \<le> Entity.x p"
    using ex_terrain_left [OF assms(2), of wd] assms(1) by fastforce
  then show ?thesis
    unfolding checkCollision_def by (rule checkCollision_loop_left)
qed

text \<open>The scroll speed of the first stage, the double nearest to 1.8, is between 0 and 2.\<close>

lemma scrollSpeed_first:
  "0 \<le> Stage.scrollSpeed (STAGES ! 0)" "Stage.scrollSpeed (STAGES ! 0) \<le> 2"
  "js_add 0 (Stage.scrollSpeed (STAGES ! 0)) \<le> 2"
proof -
  show a: "0 \<le> Stage.scrollSpeed (STAGES ! 0)"
    by (simp add: STAGES_def binary64_nonneg)
  have "binary64 (18 / 10) \<le> 2"
    by (intro binary64_le) (simp_all add: is_double_literals)
  then show b: "Stage.scrollSpeed (STAGES ! 0) \<le> 2"
    by (simp add: STAGES_def)
  show "js_add 0 (Stage.scrollSpeed (STAGES ! 0)) \<le> 2"
    unfolding js_add_def using b by (intro binary64_le) (simp_all add: is_double_literals)
qed


lemma rate_binary64_simp: "binary64 (1 / 20) = 3602879701896397 / 72057594037927936"
  using rate_binary64 by simp

lemma ex_frame2000_quiet:
  "enemies ex_frame2000 = []" "groundTargets ex_frame2000 = []" "bullets ex_frame2000 = []"
    "bombs ex_frame2000 = []"
    "\<not> shoot (input ex_frame2000)" "\<not> bomb (input ex_frame2000)"
    "enemyDensity (SpawnManager.config (spawnManager ex_frame2000)) \<le> random ex_frame2000 0"
    "groundTargetDensity (SpawnManager.config (spawnManager ex_frame2000)) \<le> random ex_frame2000 1"
  using ex_game_quiet by (simp_all add: ex_frame2000_def)

lemma ex_frame2001_quiet:
  "enemies ex_frame2001 = []" "groundTargets ex_frame2001 = []" "bullets ex_frame2001 = []"
    "bombs ex_frame2001 = []"
    "\<not> shoot (input ex_frame2001)" "\<not> bomb (input ex_frame2001)"
    "enemyDensity (SpawnManager.config (spawnManager ex_frame2001)) \<le> random ex_frame2001 0"
    "groundTargetDensity (SpawnManager.config (spawnManager ex_frame2001)) \<le> random ex_frame2001 1"
  using ex_game_quiet by (simp_all add: ex_frame2001_def)

text \<open>The 2000th frame of the example game ends without crash.\<close>

lemma ex_frame2000_update:
  "simulateFrame ex_frame2000 = moveFrame ex_frame2000"
  "checkCollision (terrain (simulateFrame ex_frame2000)) (player (simulateFrame ex_frame2000)) = None"
  "updatePlaying ex_frame2000 = Inr (simulateFrame ex_frame2000)"
  "lives (player (simulateFrame ex_frame2000)) = 3"
proof -
  show s: "simulateFrame ex_frame2000 = moveFrame ex_frame2000"
    using quiet_moveFrame [OF ex_frame2000_quiet] by simp
  have i: "input ex_frame2000 = no_input" by (simp add: ex_frame2000_def ex_game_def)
  have t: "terrain (moveFrame ex_frame2000) =
           TerrainGenerator_update (Stage.scrollSpeed (STAGES ! 0))
             (js_add 0 (Stage.scrollSpeed (STAGES ! 0))) ex_terrain"
    by (simp add: moveFrame_terrain ex_frame2000_def ex_game_def)
  have x: "Entity.x (player (moveFrame ex_frame2000)) = 60"
    by (simp add: moveFrame_box_idle [OF i]) (simp add: ex_frame2000_def new_Player_def)
  show c: "checkCollision (terrain (simulateFrame ex_frame2000))
             (player (simulateFrame ex_frame2000)) = None"
    unfolding s t using x scrollSpeed_first(1) by (rule ex_terrain_clear)
  have "fuel (player (moveFrame ex_frame2000)) =
          drainFuel (3602879701896397 / 72057594037927936)
            (1801439851075897 / 36028797018963968)"
    by (simp add: ex_frame2000_def new_Player_def rate_binary64_simp)
  then have f: "fuel (player (simulateFrame ex_frame2000)) = 255397 / 72057594037927936"
    unfolding s by (simp only: drain_step_2000)
  have "distance (simulateFrame ex_frame2000) = js_add 0 (Stage.scrollSpeed (STAGES ! 0))"
    unfolding s by (simp add: moveFrame_distance ex_frame2000_def ex_game_def)
  then have d: "distance (simulateFrame ex_frame2000) \<le> 2"
    using scrollSpeed_first(3) by simp
  have g: "getStage (currentStage ex_frame2000) = Some (STAGES ! 0)"
    by (simp add: ex_frame2000_def ex_game_def getStage_def js_index_def STAGES_def)
  show "updatePlaying ex_frame2000 = Inr (simulateFrame ex_frame2000)"
  proof -
    have "\<not> fuel (player (simulateFrame ex_frame2000)) \<le> 0" unfolding f by simp
    then show ?thesis
      using c d g by (simp add: updatePlaying_def Let_def STAGES_def)
  qed
  show "lives (player (simulateFrame ex_frame2000)) = 3"
    unfolding s by (simp add: ex_frame2000_def new_Player_def)
qed

text \<open>
  C3 (fuel exhaustion scenario), as the code has it. The drain rate 0.05 is the double
  nearest to 1/20 and every subtraction is rounded, so 2000 frames of drain from
  100 leave a positive residue, \<open>255397 / 2 ^ 56\<close> (about 3.5e-12), not 0; the gauge
  reads exactly 0 after the 2001st frame. This holds for whatever the player does in
  those frames. Hence, with no fuel picked up in the frame: the 2000th \<open>updatePlaying\<close>
  call leaves the gauge positive and, unless the player hits the terrain, does not
  touch the player after the collision pass (no crash resolution); the 2001st call
  empties the gauge and ends in crash resolution, which takes exactly one life.
\<close>

theorem fuel_exhaustion_scenario:
  "fuelAfter 2000 = 255397 / 72057594037927936 \<and> fuelAfter 2001 = 0 \<and>
   fuel (foldl (\<lambda>q (i, t, b). Player_update i t b q) (new_Player cw ch) frames) =
     fuelAfter (List.length frames) \<and>
   (fuelDrainRate (player g) = binary64 (5 / 100) \<and> fuel (player g) = fuelAfter 1999 \<and>
    fuel (player (simulateFrame g)) = fuel (player (moveFrame g)) \<longrightarrow>
      fuel (player (simulateFrame g)) = fuelAfter 2000 \<and>
      0 < fuel (player (simulateFrame g)) \<and>
      (checkCollision (terrain (simulateFrame g)) (player (simulateFrame g)) = None \<longrightarrow>
         (\<forall>g'. updatePlaying g = Inr g' \<longrightarrow> player g' = player (simulateFrame g)))) \<and>
   (fuelDrainRate (player h) = binary64 (5 / 100) \<and> fuel (player h) = fuelAfter 2000 \<and>
    fuel (player (simulateFrame h)) = fuel (player (moveFrame h)) \<longrightarrow>
      fuel (player (simulateFrame h)) = 0 \<and>
      updatePlaying h = Inr (playerCrash (simulateFrame h)) \<and>
      lives (player (playerCrash (simulateFrame h))) = lives (player (simulateFrame h)) - 1)"
proof -
  have step: "fuelAfter (Suc n) = drainFuel (binary64 (5 / 100)) (fuelAfter n)" for n
    by (simp add: fuelAfter_def)
  have s2000: "fuelAfter 2000 = drainFuel (binary64 (5 / 100)) (fuelAfter 1999)"
  proof -
    have "(2000::nat) = Suc 1999" by simp
    then show ?thesis by (simp only: step)
  qed
  have s2001: "fuelAfter 2001 = drainFuel (binary64 (5 / 100)) (fuelAfter 2000)"
  proof -
    have "(2001::nat) = Suc 2000" by simp
    then show ?thesis by (simp only: step)
  qed
  have A: "fuel (foldl (\<lambda>q (i, t, b). Player_update i t b q) (new_Player cw ch) frames) =
     fuelAfter (List.length frames)"
    using Player_frames_fuel [of "new_Player cw ch" frames]
    by (simp add: fuelAfter_def new_Player_def)
  have B: "fuel (player (simulateFrame g)) = fuelAfter 2000 \<and>
      0 < fuel (player (simulateFrame g)) \<and>
      (checkCollision (terrain (simulateFrame g)) (player (simulateFrame g)) = None \<longrightarrow>
         (\<forall>g'. updatePlaying g = Inr g' \<longrightarrow> player g' = player (simulateFrame g)))"
    if "fuelDrainRate (player g) = binary64 (5 / 100)" "fuel (player g) = fuelAfter 1999"
      "fuel (player (simulateFrame g)) = fuel (player (moveFrame g))"
  proof -
    have "fuel (player (simulateFrame g)) = drainFuel (binary64 (5 / 100)) (fuelAfter 1999)"
      by (simp only: that moveFrame_sel)
    then have f: "fuel (player (simulateFrame g)) = fuelAfter 2000"
      by (simp only: s2000)
    have p: "0 < fuel (player (simulateFrame g))"
      unfolding f fuelAfter_values by simp
    have "player g' = player (simulateFrame g)"
      if "checkCollision (terrain (simulateFrame g)) (player (simulateFrame g)) = None"
        "updatePlaying g = Inr g'" for g'
      using that p by (auto simp: updatePlaying_def Let_def split: option.splits if_splits)
    with f p show ?thesis by blast
  qed
  have C: "fuel (player (simulateFrame h)) = 0 \<and>
      updatePlaying h = Inr (playerCrash (simulateFrame h)) \<and>
      lives (player (playerCrash (simulateFrame h))) = lives (player (simulateFrame h)) - 1"
    if "fuelDrainRate (player h) = binary64 (5 / 100)" "fuel (player h) = fuelAfter 2000"
      "fuel (player (simulateFrame h)) = fuel (player (moveFrame h))"
  proof -
    have "fuel (player (simulateFrame h)) = drainFuel (binary64 (5 / 100)) (fuelAfter 2000)"
      by (simp only: that moveFrame_sel)
    also have "\<dots> = fuelAfter 2001" by (rule s2001 [symmetric])
    also have "\<dots> = 0" by (rule fuelAfter_values)
    finally have f: "fuel (player (simulateFrame h)) = 0" .
    then have "updatePlaying h = Inr (playerCrash (simulateFrame h))"
      by (intro updatePlaying_crash) simp
    with f show ?thesis by (simp add: playerCrash_lives)
  qed
  show ?thesis
    using A B C fuelAfter_values(2,3) by blast
qed

theorem fuel_exhaustion_scenario_witness:
  "fuel (foldl (\<lambda>q (i, t, b). Player_update i t b q) (new_Player 800 600)
           (replicate 2000 (no_input, 0, 600))) = 255397 / 72057594037927936 \<and>
   fuelDrainRate (player ex_frame2000) = binary64 (5 / 100) \<and>
   fuel (player ex_frame2000) = fuelAfter 1999 \<and>
   fuel (player (simulateFrame ex_frame2000)) = fuel (player (moveFrame ex_frame2000)) \<and>
   checkCollision (terrain (simulateFrame ex_frame2000)) (player (simulateFrame ex_frame2000)) = None \<and>
   updatePlaying ex_frame2000 = Inr (simulateFrame ex_frame2000) \<and>
   fuel (player (simulateFrame ex_frame2000)) = 255397 / 72057594037927936 \<and>
   lives (player (simulateFrame ex_frame2000)) = 3 \<and>
   fuelDrainRate (player ex_frame2001) = binary64 (5 / 100) \<and>
   fuel (player ex_frame2001) = fuelAfter 2000 \<and>
   fuel (player (simulateFrame ex_frame2001)) = fuel (player (moveFrame ex_frame2001)) \<and>
   fuel (player (simulateFrame ex_frame2001)) = 0 \<and>
   updatePlaying ex_frame2001 = Inr (playerCrash (simulateFrame ex_frame2001)) \<and>
   lives (player (playerCrash (simulateFrame ex_frame2001))) = 2"
proof -
  have a: "fuelDrainRate (player ex_frame2000) = binary64 (5 / 100)"
    "fuel (player ex_frame2000) = fuelAfter 1999"
    unfolding fuelAfter_values by (simp_all add: ex_frame2000_def new_Player_def)
  have b: "fuelDrainRate (player ex_frame2001) = binary64 (5 / 100)"
    "fuel (player ex_frame2001) = fuelAfter 2000"
    unfolding fuelAfter_values by (simp_all add: ex_frame2001_def new_Player_def)
  have s: "simulateFrame ex_frame2001 = moveFrame ex_frame2001"
    using quiet_moveFrame [OF ex_frame2001_quiet] by simp
  have l: "lives (player (simulateFrame ex_frame2001)) = 3"
    unfolding s by (simp add: ex_frame2001_def new_Player_def)
  have n: "fuel (player (simulateFrame ex_frame2000)) = fuel (player (moveFrame ex_frame2000))"
    "fuel (player (simulateFrame ex_frame2001)) = fuel (player (moveFrame ex_frame2001))"
    by (simp_all only: s ex_frame2000_update(1))
  have len: "List.length (replicate 2000 (no_input, 0::real, 600::real)) = 2000" by simp
  note t = fuel_exhaustion_scenario [of 800 600 "replicate 2000 (no_input, 0, 600)" ex_frame2000 ex_frame2001]
  have t1: "fuel (foldl (\<lambda>q (i, t, b). Player_update i t b q) (new_Player 800 600)
           (replicate 2000 (no_input, 0, 600))) = 255397 / 72057594037927936"
    using t unfolding len by (simp only:)
  have t2: "fuel (player (simulateFrame ex_frame2000)) = fuelAfter 2000"
    using t a n(1) by blast
  have t3: "fuel (player (simulateFrame ex_frame2001)) = 0 \<and>
      updatePlaying ex_frame2001 = Inr (playerCrash (simulateFrame ex_frame2001)) \<and>
      lives (player (playerCrash (simulateFrame ex_frame2001))) =
        lives (player (simulateFrame ex_frame2001)) - 1"
    using t b n(2) by blast
  have l2: "lives (player (playerCrash (simulateFrame ex_frame2001))) = 2"
    using t3 l by simp
  show ?thesis
    using t1 t2 [unfolded fuelAfter_values] t3 l2 a b n ex_frame2000_update(2,3,4)
    by (intro conjI) blast+
qed

text \<open>
  The claim C3 as stated (fuel exactly 0 after 2000 frames, crash in the 2001st call
  with the tank already empty) fails: after 2000 updates of a new player the gauge is
  not 0, and the 2000th frame of the example game ends with the player alive and fuel
  left.
\<close>

theorem fuel_after_2000_frames_counterexample:
  "fuel ((Player_update no_input 0 600 ^^ 2000) (new_Player 800 600)) =
     255397 / 72057594037927936 \<and>
   fuel ((Player_update no_input 0 600 ^^ 2000) (new_Player 800 600)) \<noteq> 0 \<and>
   fuel (player ex_frame2000) = fuel ((Player_update no_input 0 600 ^^ 1999) (new_Player 800 600)) \<and>
   updatePlaying ex_frame2000 = Inr (simulateFrame ex_frame2000) \<and>
   lives (player (simulateFrame ex_frame2000)) = lives (player ex_frame2000) \<and>
   fuel (player (simulateFrame ex_frame2000)) \<noteq> 0"
proof -
  have r: "fuelDrainRate (new_Player 800 600) = 3602879701896397 / 72057594037927936"
    "fuel (new_Player 800 600) = 100"
    by (simp_all add: new_Player_def rate_binary64_simp)
  have a: "fuel ((Player_update no_input 0 600 ^^ 2000) (new_Player 800 600)) =
     255397 / 72057594037927936"
    by (simp only: Player_update_funpow_fuel r drained_2000)
  have b: "fuel ((Player_update no_input 0 600 ^^ 1999) (new_Player 800 600)) =
     1801439851075897 / 36028797018963968"
    by (simp only: Player_update_funpow_fuel r drained_1999)
  have c: "fuel (player ex_frame2000) = 1801439851075897 / 36028797018963968"
    "lives (player ex_frame2000) = 3"
    by (simp_all add: ex_frame2000_def new_Player_def)
  have "fuel (player (moveFrame ex_frame2000)) =
          drainFuel (3602879701896397 / 72057594037927936)
            (1801439851075897 / 36028797018963968)"
    by (simp add: ex_frame2000_def new_Player_def rate_binary64_simp)
  then have f: "fuel (player (simulateFrame ex_frame2000)) = 255397 / 72057594037927936"
    unfolding ex_frame2000_update(1) by (simp only: drain_step_2000)
  have nz: "(255397 / 72057594037927936 :: real) \<noteq> 0" by simp
  show ?thesis
    unfolding a b c f using nz ex_frame2000_update(3,4) by (simp only: c simp_thms)
qed


end
